theory Spec2Isabelle
  imports Complex_Main "HOL-Library.Word" "HOL-Library.Multiset"
begin

unbundle bit_operations_syntax

section \<open>JavaScript numbers\<close>

text \<open>
  A JavaScript \<^verbatim>\<open>number\<close> is modelled as an extended real: a finite value, the two
  infinities, or NaN. Arithmetic on finite values is exact (IEEE rounding, overflow to
  infinity and the sign of zero are not modelled); the special values follow IEEE 754 as
  JavaScript has them: NaN is absorbing and compares false with everything,
  \<^verbatim>\<open>Infinity - Infinity\<close>, \<^verbatim>\<open>0 * Infinity\<close> and \<^verbatim>\<open>0 / 0\<close> are NaN, \<^verbatim>\<open>x / 0\<close> is an infinity.
\<close>

datatype jsnum = Fin real | PosInf | NegInf | NaN

instantiation jsnum :: "{zero, one, plus, minus, uminus, times, inverse, ord}"
begin

definition zero_jsnum :: jsnum where
  "zero_jsnum = Fin 0"

definition one_jsnum :: jsnum where
  "one_jsnum = Fin 1"

fun plus_jsnum :: "jsnum \<Rightarrow> jsnum \<Rightarrow> jsnum" where
  "plus_jsnum NaN y = NaN"
| "plus_jsnum x NaN = NaN"
| "plus_jsnum (Fin a) (Fin b) = Fin (a + b)"
| "plus_jsnum PosInf NegInf = NaN"
| "plus_jsnum NegInf PosInf = NaN"
| "plus_jsnum PosInf y = PosInf"
| "plus_jsnum NegInf y = NegInf"
| "plus_jsnum (Fin a) y = y"

fun uminus_jsnum :: "jsnum \<Rightarrow> jsnum" where
  "uminus_jsnum (Fin a) = Fin (- a)"
| "uminus_jsnum PosInf = NegInf"
| "uminus_jsnum NegInf = PosInf"
| "uminus_jsnum NaN = NaN"

definition minus_jsnum :: "jsnum \<Rightarrow> jsnum \<Rightarrow> jsnum" where
  "minus_jsnum x y = x + (- y)"

fun times_jsnum :: "jsnum \<Rightarrow> jsnum \<Rightarrow> jsnum" where
  "times_jsnum NaN y = NaN"
| "times_jsnum x NaN = NaN"
| "times_jsnum (Fin a) (Fin b) = Fin (a * b)"
| "times_jsnum (Fin a) PosInf = (if a = 0 then NaN else if 0 < a then PosInf else NegInf)"
| "times_jsnum (Fin a) NegInf = (if a = 0 then NaN else if 0 < a then NegInf else PosInf)"
| "times_jsnum PosInf (Fin b) = (if b = 0 then NaN else if 0 < b then PosInf else NegInf)"
| "times_jsnum NegInf (Fin b) = (if b = 0 then NaN else if 0 < b then NegInf else PosInf)"
| "times_jsnum PosInf PosInf = PosInf"
| "times_jsnum PosInf NegInf = NegInf"
| "times_jsnum NegInf PosInf = NegInf"
| "times_jsnum NegInf NegInf = PosInf"

fun divide_jsnum :: "jsnum \<Rightarrow> jsnum \<Rightarrow> jsnum" where
  "divide_jsnum NaN y = NaN"
| "divide_jsnum x NaN = NaN"
| "divide_jsnum (Fin a) (Fin b) =
     (if b = 0 then (if a = 0 then NaN else if 0 < a then PosInf else NegInf)
      else Fin (a / b))"
| "divide_jsnum (Fin a) y = Fin 0"
| "divide_jsnum PosInf (Fin b) = (if 0 \<le> b then PosInf else NegInf)"
| "divide_jsnum NegInf (Fin b) = (if 0 \<le> b then NegInf else PosInf)"
| "divide_jsnum x y = NaN"

fun inverse_jsnum :: "jsnum \<Rightarrow> jsnum" where
  "inverse_jsnum (Fin a) = (if a = 0 then PosInf else Fin (1 / a))"
| "inverse_jsnum NaN = NaN"
| "inverse_jsnum x = Fin 0"

fun less_eq_jsnum :: "jsnum \<Rightarrow> jsnum \<Rightarrow> bool" where
  "less_eq_jsnum NaN y = False"
| "less_eq_jsnum x NaN = False"
| "less_eq_jsnum (Fin a) (Fin b) = (a \<le> b)"
| "less_eq_jsnum NegInf y = True"
| "less_eq_jsnum x PosInf = True"
| "less_eq_jsnum x y = False"

fun less_jsnum :: "jsnum \<Rightarrow> jsnum \<Rightarrow> bool" where
  "less_jsnum NaN y = False"
| "less_jsnum x NaN = False"
| "less_jsnum (Fin a) (Fin b) = (a < b)"
| "less_jsnum NegInf NegInf = False"
| "less_jsnum PosInf PosInf = False"
| "less_jsnum NegInf y = True"
| "less_jsnum x PosInf = True"
| "less_jsnum x y = False"

instance ..

end

instance jsnum :: semigroup_add
proof
  fix a b c :: jsnum
  show "a + b + c = a + (b + c)"
    by (cases a; cases b; cases c) simp_all
qed

instance jsnum :: numeral ..

instance jsnum :: power ..

text \<open>An integer-valued quantity of the program read as a number.\<close>

definition jsInt :: "int \<Rightarrow> jsnum" where
  "jsInt i = Fin (of_int i)"

text \<open>\<^verbatim>\<open>Number.isFinite\<close>, \<^verbatim>\<open>Number.isInteger\<close>, \<^verbatim>\<open>Math.max\<close>, \<^verbatim>\<open>Math.min\<close>,
  \<^verbatim>\<open>Math.abs\<close>, \<^verbatim>\<open>Math.round\<close> (half up), \<^verbatim>\<open>Math.exp\<close>.\<close>

fun isFinite :: "jsnum \<Rightarrow> bool" where
  "isFinite (Fin a) = True"
| "isFinite x = False"

fun isInteger :: "jsnum \<Rightarrow> bool" where
  "isInteger (Fin a) = (a = of_int \<lfloor>a\<rfloor>)"
| "isInteger x = False"

fun Math_max :: "jsnum \<Rightarrow> jsnum \<Rightarrow> jsnum" where
  "Math_max NaN y = NaN"
| "Math_max x NaN = NaN"
| "Math_max x y = (if x \<le> y then y else x)"

fun Math_min :: "jsnum \<Rightarrow> jsnum \<Rightarrow> jsnum" where
  "Math_min NaN y = NaN"
| "Math_min x NaN = NaN"
| "Math_min x y = (if x \<le> y then x else y)"

fun Math_abs :: "jsnum \<Rightarrow> jsnum" where
  "Math_abs (Fin a) = Fin \<bar>a\<bar>"
| "Math_abs NaN = NaN"
| "Math_abs x = PosInf"

fun Math_round :: "jsnum \<Rightarrow> jsnum" where
  "Math_round (Fin a) = Fin (of_int \<lfloor>a + 1 / 2\<rfloor>)"
| "Math_round x = x"

fun Math_exp :: "jsnum \<Rightarrow> jsnum" where
  "Math_exp (Fin a) = Fin (exp a)"
| "Math_exp PosInf = PosInf"
| "Math_exp NegInf = Fin 0"
| "Math_exp NaN = NaN"

text \<open>\<^verbatim>\<open>const clamp = (value, min, max) => Math.min(max, Math.max(min, value))\<close>,
  the same in every module.\<close>

definition clamp :: "jsnum \<Rightarrow> jsnum \<Rightarrow> jsnum \<Rightarrow> jsnum" where
  "clamp v lo hi = Math_min hi (Math_max lo v)"

section \<open>Exceptions, arrays and strings\<close>

text \<open>
  What a \<^verbatim>\<open>throw\<close> carries: an \<^verbatim>\<open>Error\<close> with its message, the engine's \<^verbatim>\<open>TypeError\<close>
  (reading a property of \<^verbatim>\<open>undefined\<close>; its message is the engine's), or a value that is
  not an instance of \<^verbatim>\<open>Error\<close>. A function that can throw returns a sum, \<open>Inl\<close> the
  thrown value.
\<close>

datatype thrown = Error string | TypeError string | NonErrorValue

fun errorMessage :: "thrown \<Rightarrow> string option" where
  "errorMessage (Error m) = Some m"
| "errorMessage (TypeError m) = Some m"
| "errorMessage NonErrorValue = None"

text \<open>A loop body that can throw, run over a list from left to right: the first throw
  ends the loop.\<close>

fun traverse :: "('a \<Rightarrow> thrown + 'b) \<Rightarrow> 'a list \<Rightarrow> thrown + 'b list" where
  "traverse f [] = Inr []"
| "traverse f (x # xs) =
     (case f x of
        Inl e \<Rightarrow> Inl e
      | Inr y \<Rightarrow> (case traverse f xs of Inl e \<Rightarrow> Inl e | Inr ys \<Rightarrow> Inr (y # ys)))"

type_synonym DigitProbabilityMatrix = "jsnum list list"

text \<open>\<^verbatim>\<open>m[r][c]\<close> read as a number: a missing row makes \<^verbatim>\<open>m[r]\<close> undefined and the read of
  \<^verbatim>\<open>[c]\<close> throws; a missing cell is \<^verbatim>\<open>undefined\<close>, which arithmetic reads as NaN.\<close>

definition readCell :: "DigitProbabilityMatrix \<Rightarrow> nat \<Rightarrow> nat \<Rightarrow> thrown + jsnum" where
  "readCell m r c =
     (if r < length m then Inr (if c < length (m ! r) then m ! r ! c else NaN)
      else Inl (TypeError ''Cannot read properties of undefined''))"

text \<open>\<^verbatim>\<open>String(n)\<close> of an integer, and JavaScript's remainder \<^verbatim>\<open>%\<close> on integers (the
  sign of the dividend).\<close>

fun showNat :: "nat \<Rightarrow> string" where
  "showNat n =
     (if n < 10 then [char_of (48 + n)] else showNat (n div 10) @ [char_of (48 + n mod 10)])"

definition showInt :: "int \<Rightarrow> string" where
  "showInt i = (if i < 0 then CHR ''-'' # showNat (nat (- i)) else showNat (nat i))"

definition jsRem :: "int \<Rightarrow> int \<Rightarrow> int" where
  "jsRem a b = sgn a * (\<bar>a\<bar> mod \<bar>b\<bar>)"

fun joinWith :: "string \<Rightarrow> string list \<Rightarrow> string" where
  "joinWith sep [] = []"
| "joinWith sep [x] = x"
| "joinWith sep (x # y # ys) = x @ sep @ joinWith sep (y # ys)"

section \<open>The data model (types.ts)\<close>

datatype SquareOddsSourceMode = full | baseline

datatype SquareOddsComputationSource =
  nflverse_games | nflverse_closing_lines | espn_team_stats | thesportsdb_recent_form
  | espn_live_scoreboard | espn_live_summary | live_commentary_sentiment | fallback_model

text \<open>\<^verbatim>\<open>CachedDigitModel\<close> (squareOddsService.ts) has the fields of
  \<^verbatim>\<open>SquareOddsComputationResult\<close> but the board; the result extends it, and the realtime
  result extends the result.\<close>

record CachedDigitModel =
  digitProbabilities :: DigitProbabilityMatrix
  generatedAt :: string
  sourceMode :: SquareOddsSourceMode
  sourcesUsed :: "SquareOddsComputationSource list"
  warnings :: "string list"
  expectedHomePoints :: jsnum
  expectedAwayPoints :: jsnum

record SquareOddsComputationResult = CachedDigitModel +
  boardPercentages :: "jsnum list list"

datatype LiveGameStatus = pregame | in_progress | halftime | final | postponed | unknown

fun statusString :: "LiveGameStatus \<Rightarrow> string" where
  "statusString pregame = ''pregame''"
| "statusString in_progress = ''in_progress''"
| "statusString halftime = ''halftime''"
| "statusString final = ''final''"
| "statusString postponed = ''postponed''"
| "statusString unknown = ''unknown''"

text \<open>Scores, the period and the clock's seconds are whole numbers (the snapshot fetcher
  rounds them), so they are integers here; every other number is a \<open>jsnum\<close>.\<close>

record LiveGameClock =
  period :: int
  displayClock :: string
  secondsRemainingInPeriod :: "int option"
  secondsRemainingGame :: "int option"

record LivePlayEvent =
  playId :: string
  playText :: string
  teamCode :: "string option"
  playPeriod :: "int option"
  playClock :: "string option"
  isScoringPlay :: bool
  isPenalty :: bool
  isTurnover :: bool
  isExplosivePlay :: bool
  sentimentScore :: jsnum

record LiveCommentarySentiment =
  home :: jsnum
  away :: jsnum
  neutral :: jsnum

record LiveGameSnapshot =
  eventId :: string
  fetchedAt :: string
  status :: LiveGameStatus
  statusDetail :: string
  homeTeamCode :: string
  awayTeamCode :: string
  homeTeamName :: string
  awayTeamName :: string
  homeScore :: int
  awayScore :: int
  clock :: LiveGameClock
  plays :: "LivePlayEvent list"
  sentiment :: LiveCommentarySentiment

record LiveFeatureVector =
  remainingGameSeconds :: int
  elapsedGameSeconds :: int
  homeMomentum :: jsnum
  awayMomentum :: jsnum
  homePenaltyPressure :: jsnum
  awayPenaltyPressure :: jsnum
  homeTurnoverPressure :: jsnum
  awayTurnoverPressure :: jsnum
  homeRecentScoringRate :: jsnum
  awayRecentScoringRate :: jsnum
  playPacePerMinute :: jsnum

record RealtimeSquareOddsComputationResult = SquareOddsComputationResult +
  engineMode :: string
  liveEventId :: string
  liveStatus :: LiveGameStatus
  liveStatusDetail :: string
  liveClock :: string
  liveSnapshotAt :: string
  featureVector :: LiveFeatureVector

section \<open>The realtime engine: matrices and the board\<close>

definition DIGIT_COUNT :: nat where
  "DIGIT_COUNT = 10"

definition TOTAL_REGULATION_SECONDS :: int where
  "TOTAL_REGULATION_SECONDS = 4 * 15 * 60"

definition createZeroMatrix :: DigitProbabilityMatrix where
  "createZeroMatrix = replicate DIGIT_COUNT (replicate DIGIT_COUNT 0)"

text \<open>\<^verbatim>\<open>normalizeMatrix\<close> of the realtime engine: the total skips entries that are not
  finite, the division does not.\<close>

definition normalizeMatrix :: "DigitProbabilityMatrix \<Rightarrow> DigitProbabilityMatrix" where
  "normalizeMatrix matrix =
     (let total = foldl (\<lambda>sum value. sum + Math_max 0 (if isFinite value then value else 0))
                    0 (concat matrix)
      in if \<not> isFinite total \<or> total \<le> 0
         then replicate DIGIT_COUNT (replicate DIGIT_COUNT (1 / 100))
         else map (map (\<lambda>value. Math_max value 0 / total)) matrix)"

text \<open>\<^verbatim>\<open>finalizeBoardPercentages\<close>, the same text in the realtime engine and in
  squareOddsService.ts.\<close>

definition finalizeBoardPercentages :: "jsnum list list \<Rightarrow> jsnum list list" where
  "finalizeBoardPercentages board =
     (let flat = concat board;
          total = foldl (\<lambda>sum value. sum + value) 0 flat
      in if \<not> isFinite total \<or> total \<le> 0
         then replicate DIGIT_COUNT (replicate DIGIT_COUNT 1)
         else (let scale = 100 / total
               in map (map (\<lambda>value. clamp (value * scale) 0 100)) board))"

text \<open>The array index a valid label (an integer from 0 to 9) denotes.\<close>

fun labelIndex :: "jsnum \<Rightarrow> nat" where
  "labelIndex (Fin a) = nat \<lfloor>a\<rfloor>"
| "labelIndex x = 0"

text \<open>\<^verbatim>\<open>mapDigitMatrixToBoard\<close>: the two modules differ in the three messages only, which
  are parameters here. The rows are built in order, each row's cells in order, so the
  first failing check is the one thrown.\<close>

definition mapDigitMatrixToBoardWith ::
  "string \<Rightarrow> string \<Rightarrow> string \<Rightarrow> DigitProbabilityMatrix \<Rightarrow> jsnum list \<Rightarrow> jsnum list
   \<Rightarrow> thrown + jsnum list list" where
  "mapDigitMatrixToBoardWith lengthMessage rowMessage colMessage digitMatrix rowLabels colLabels =
     (if length rowLabels \<noteq> DIGIT_COUNT \<or> length colLabels \<noteq> DIGIT_COUNT
      then Inl (Error lengthMessage)
      else traverse
        (\<lambda>rowDigit.
           if \<not> isInteger rowDigit \<or> rowDigit < 0 \<or> rowDigit > 9 then Inl (Error rowMessage)
           else traverse
             (\<lambda>colDigit.
                if \<not> isInteger colDigit \<or> colDigit < 0 \<or> colDigit > 9
                then Inl (Error colMessage)
                else (case readCell digitMatrix (labelIndex rowDigit) (labelIndex colDigit) of
                        Inl e \<Rightarrow> Inl e
                      | Inr value \<Rightarrow> Inr (value * 100)))
             colLabels)
        rowLabels)"

definition mapDigitMatrixToBoard ::
  "DigitProbabilityMatrix \<Rightarrow> jsnum list \<Rightarrow> jsnum list \<Rightarrow> thrown + jsnum list list" where
  "mapDigitMatrixToBoard =
     mapDigitMatrixToBoardWith
       ''Expected 10 row labels and 10 column labels for realtime heatmap.''
       ''Invalid row label while mapping realtime probabilities.''
       ''Invalid column label while mapping realtime probabilities.''"


text \<open>The labels \<^verbatim>\<open>mapDigitMatrixToBoard\<close> accepts, as its three checks read: ten row labels and
  ten column labels, each an integer that is neither below 0 nor above 9.\<close>

definition validLabel :: "jsnum \<Rightarrow> bool" where
  "validLabel d = (isInteger d \<and> \<not> d < 0 \<and> \<not> d > 9)"

definition validLabels :: "jsnum list \<Rightarrow> jsnum list \<Rightarrow> bool" where
  "validLabels rows cols =
     (length rows = 10 \<and> length cols = 10 \<and> list_all validLabel rows \<and> list_all validLabel cols)"

section \<open>The realtime engine: the seeded generator and sampling\<close>

text \<open>\<^verbatim>\<open>Math.imul\<close> and the bitwise operators work on 32-bit integers: \<open>32 word\<close>
  (\<^verbatim>\<open>>>>\<close> is \<open>drop_bit\<close>). A character is its code unit.\<close>

definition imul :: "32 word \<Rightarrow> 32 word \<Rightarrow> 32 word" where
  "imul a b = a * b"

definition hashString :: "string \<Rightarrow> nat" where
  "hashString v =
     unat (foldl (\<lambda>hash c. imul (hash XOR of_char c) 16777619) (2166136261 :: 32 word) v)"

text \<open>\<^verbatim>\<open>createSeededRandom\<close> returns a closure over \<^verbatim>\<open>state\<close>; the model passes the state.
  The state is a number that grows by \<^verbatim>\<open>0x6d2b79f5\<close> at every call (it is not wrapped); the
  bitwise operators read it modulo \<open>2^32\<close>. \<open>createSeededRandom\<close> is the initial state
  (\<^verbatim>\<open>seed || 0x9e3779b9\<close>), \<open>nextRandom\<close> one call of the closure: the value in \<open>[0, 1)\<close>
  and the new state.\<close>

definition createSeededRandom :: "nat \<Rightarrow> nat" where
  "createSeededRandom seed = (if seed = 0 then 0x9e3779b9 else seed)"

definition nextRandom :: "nat \<Rightarrow> real \<times> nat" where
  "nextRandom state0 =
     (let state1 = state0 + 0x6d2b79f5;
          t0 = (of_nat state1 :: 32 word);
          t1 = imul (t0 XOR drop_bit 15 t0) (t0 OR 1);
          t2 = t1 XOR (t1 + imul (t1 XOR drop_bit 7 t1) (t1 OR 61))
      in (real (unat (t2 XOR drop_bit 14 t2)) / 4294967296, state1))"

definition sampleStandardNormal :: "nat \<Rightarrow> real \<times> nat" where
  "sampleStandardNormal st0 =
     (let (r1, st1) = nextRandom st0;
          u1 = max r1 (1 / 10 ^ 10);
          (r2, st2) = nextRandom st1;
          u2 = max r2 (1 / 10 ^ 10)
      in (sqrt (- 2 * ln u1) * cos (2 * pi * u2), st2))"

text \<open>The \<^verbatim>\<open>while (product > limit)\<close> loop of \<^verbatim>\<open>samplePoisson\<close>, with
  \<^verbatim>\<open>limit = Math.exp(-lambda)\<close>; it is entered with a finite \<open>lambda\<close> only.\<close>

function poissonLoop :: "real \<Rightarrow> real \<Rightarrow> nat \<Rightarrow> nat \<Rightarrow> nat \<times> nat" where
  "poissonLoop lambda product cnt st =
     (if product > exp (- lambda)
      then poissonLoop lambda (product * max (fst (nextRandom st)) (1 / 10 ^ 10)) (cnt + 1)
             (snd (nextRandom st))
      else (cnt, st))"
  by pat_completeness auto
termination
proof (relation "measure (\<lambda>(lambda, product, cnt, st).
    if product > exp (- lambda)
    then nat \<lceil>(ln product + lambda) / (- ln (1 - 1 / 2 ^ 32))\<rceil> + 1 else 0)")
  show "wf (measure (\<lambda>(lambda, product, cnt, st).
    if product > exp (- lambda)
    then nat \<lceil>(ln product + lambda) / (- ln (1 - 1 / 2 ^ 32 :: real))\<rceil> + 1 else 0))"
    by simp
next
  fix lambda product :: real and cnt st :: nat
  assume gt: "exp (- lambda) < product"
  define q :: real where "q = 1 - 1 / 2 ^ 32"
  define c :: real where "c = - ln q"
  define m :: real where "m = max (fst (nextRandom st)) (1 / 10 ^ 10)"
  have q01: "0 < q" "q < 1" by (simp_all add: q_def)
  have cpos: "0 < c" using q01 by (simp add: c_def)
  have ppos: "0 < product" using gt exp_gt_zero [of "- lambda"] by linarith
  have mpos: "0 < m" by (simp add: m_def max_def)
  have rle: "fst (nextRandom st) \<le> q"
  proof -
    obtain w :: "32 word" where w: "fst (nextRandom st) = real (unat w) / 4294967296"
      unfolding nextRandom_def Let_def by simp
    have "unat w < 4294967296"
      using unsigned_less [of w, where ?'a = nat] by simp
    then have "real (unat w) \<le> 4294967295" by linarith
    then show ?thesis unfolding w q_def by simp
  qed
  have mle: "m \<le> q" using rle by (simp add: m_def q_def)
  have lnm: "ln m \<le> - c"
    unfolding c_def using mle mpos q01 by simp
  let ?x = "(ln product + lambda) / c"
  let ?x' = "(ln (product * m) + lambda) / c"
  have xle: "?x' \<le> ?x - 1"
  proof -
    have "ln (product * m) = ln product + ln m"
      using ppos mpos by (simp add: ln_mult)
    then have "ln (product * m) + lambda \<le> (ln product + lambda) - c"
      using lnm by linarith
    then have "?x' \<le> ((ln product + lambda) - c) / c"
      using cpos by (simp add: divide_right_mono)
    also have "\<dots> = ?x - 1" using cpos by (simp add: diff_divide_distrib)
    finally show ?thesis .
  qed
  have dec: "nat \<lceil>?x'\<rceil> < nat \<lceil>?x\<rceil>" if gt': "exp (- lambda) < product * m"
  proof -
    have "0 < product * m" using ppos mpos by simp
    then have "- lambda < ln (product * m)"
      using gt' by (metis exp_less_cancel_iff exp_ln)
    then have "0 < ?x'" using cpos by simp
    then have "1 \<le> \<lceil>?x'\<rceil>" by linarith
    moreover have "\<lceil>?x'\<rceil> \<le> \<lceil>?x\<rceil> - 1"
      using xle by (metis ceiling_diff_one ceiling_mono)
    ultimately show ?thesis by linarith
  qed
  show "((lambda, product * max (fst (nextRandom st)) (1 / 10 ^ 10), cnt + 1,
          snd (nextRandom st)), (lambda, product, cnt, st))
        \<in> measure (\<lambda>(lambda, product, cnt, st).
            if product > exp (- lambda)
            then nat \<lceil>(ln product + lambda) / (- ln (1 - 1 / 2 ^ 32))\<rceil> + 1 else 0)"
    using gt dec unfolding m_def c_def q_def by simp
qed

text \<open>\<^verbatim>\<open>samplePoisson\<close>: the two guards leave a finite \<open>lambda\<close>, so the normal
  approximation and the loop work on reals; the count is a natural number
  (\<^verbatim>\<open>Math.max(0, ...)\<close>).\<close>

fun samplePoisson :: "jsnum \<Rightarrow> nat \<Rightarrow> nat \<times> nat" where
  "samplePoisson (Fin lambda) st =
     (if lambda \<le> 0 then (0, st)
      else if lambda > 30 then
        (let (z, st') = sampleStandardNormal st;
             gaussian = lambda + z * sqrt lambda
         in (nat (max 0 \<lfloor>gaussian + 1 / 2\<rfloor>), st'))
      else
        (let (cnt, st') = poissonLoop lambda 1 0 st
         in (cnt - 1, st')))"
| "samplePoisson x st = (0, st)"

text \<open>A scoring outcome is a pair: the points (whole numbers in every literal of the
  source) and the weight or the probability.\<close>

type_synonym ScoringOutcomeWeight = "int \<times> jsnum"
type_synonym ScoringOutcomeProbability = "int \<times> jsnum"

record TeamScoringSimulationProfile =
  expectedScoringEvents :: jsnum
  scoringOutcomes :: "ScoringOutcomeProbability list"

definition normalizeScoringOutcomeWeights ::
  "ScoringOutcomeWeight list \<Rightarrow> ScoringOutcomeProbability list" where
  "normalizeScoringOutcomeWeights outcomes =
     (let positive = filter (\<lambda>(points, weight). points > 0 \<and> isFinite weight \<and> weight > 0) outcomes
      in if length positive = 0
         then [(3, 0.34), (7, 0.51), (8, 0.06), (6, 0.06), (2, 0.03)]
         else (let totalWeight = foldl (\<lambda>sum (points, weight). sum + weight) 0 positive
               in map (\<lambda>(points, weight). (points, weight / totalWeight)) positive))"

fun scanOutcomes :: "jsnum \<Rightarrow> ScoringOutcomeProbability list \<Rightarrow> int option" where
  "scanOutcomes remaining [] = None"
| "scanOutcomes remaining ((points, probability) # rest) =
     (let remaining' = remaining - probability
      in if remaining' \<le> 0 then Some points else scanOutcomes remaining' rest)"

definition sampleScoringOutcomePoints ::
  "ScoringOutcomeProbability list \<Rightarrow> nat \<Rightarrow> int \<times> nat" where
  "sampleScoringOutcomePoints outcomes st =
     (let (r, st') = nextRandom st
      in case scanOutcomes (Fin r) outcomes of
           Some points \<Rightarrow> (points, st')
         | None \<Rightarrow> (if outcomes = [] then 0 else fst (last outcomes), st'))"

definition estimateRemainingDrivesPerTeam :: "int \<Rightarrow> jsnum \<Rightarrow> jsnum \<Rightarrow> jsnum" where
  "estimateRemainingDrivesPerTeam remainingSeconds pace trailingPressure =
     (let adjustedPace = clamp pace 1.2 4.8;
          averagePlaysPerDrive = clamp (6 - trailingPressure * 0.9) 4.8 6.2;
          estimatedDriveSeconds = (averagePlaysPerDrive / adjustedPace) * 60;
          drives = jsInt remainingSeconds / Math_max (estimatedDriveSeconds * 2) 90
      in clamp drives 0.35 13)"

record TeamScoringProfileInput =
  expectedAdditionalPoints :: jsnum
  ownMomentum :: jsnum
  opponentMomentum :: jsnum
  ownScoringRate :: jsnum
  ownPenaltyPressure :: jsnum
  ownTurnoverPressure :: jsnum
  opponentTurnoverPressure :: jsnum
  profilePacePerMinute :: jsnum
  remainingSeconds :: int
  scoreDiff :: int

definition buildTeamScoringProfile :: "TeamScoringProfileInput \<Rightarrow> TeamScoringSimulationProfile" where
  "buildTeamScoringProfile inp =
     (let remainingRatio =
            clamp (jsInt (remainingSeconds inp) / jsInt TOTAL_REGULATION_SECONDS) 0 1;
          lateGameUrgency = clamp (jsInt (12 * 60 - remainingSeconds inp) / jsInt (12 * 60)) 0 1;
          trailingPressure =
            (if scoreDiff inp < 0 then clamp (jsInt \<bar>scoreDiff inp\<bar> / 17) 0 1 else 0);
          leadingControl =
            (if scoreDiff inp > 0 then clamp (jsInt (scoreDiff inp) / 17) 0 1 else 0);
          momentumEdge = clamp (ownMomentum inp - opponentMomentum inp) (- 2.8) 2.8;
          fieldGoalWeight0 =
            0.34 + ownPenaltyPressure inp * 0.07 + leadingControl * (0.08 + lateGameUrgency * 0.06);
          touchdownXpWeight0 =
            0.49 + momentumEdge * 0.05 + ownScoringRate inp * 0.2 - ownPenaltyPressure inp * 0.05;
          touchdownTwoPointWeight0 =
            0.04 + trailingPressure * lateGameUrgency * 0.22 + Math_max 0 momentumEdge * 0.02;
          touchdownMissedXpWeight0 = 0.03 + ownPenaltyPressure inp * 0.02;
          safetyWeight0 =
            0.01 + opponentTurnoverPressure inp * 0.03 + trailingPressure * lateGameUrgency * 0.025;
          defensiveTouchdownWeight0 =
            0.02 + opponentTurnoverPressure inp * 0.08 + Math_max 0 momentumEdge * 0.01;
          trailingLate = (remainingSeconds inp \<le> 3 * 60 \<and> trailingPressure \<ge> 0.2);
          touchdownTwoPointWeight1 =
            (if trailingLate then touchdownTwoPointWeight0 + 0.08 else touchdownTwoPointWeight0);
          fieldGoalWeight1 = (if trailingLate then fieldGoalWeight0 * 0.9 else fieldGoalWeight0);
          leadingLate = (remainingSeconds inp \<le> 2 * 60 \<and> leadingControl \<ge> 0.2);
          fieldGoalWeight2 = (if leadingLate then fieldGoalWeight1 + 0.1 else fieldGoalWeight1);
          touchdownTwoPointWeight2 =
            (if leadingLate then touchdownTwoPointWeight1 * 0.65 else touchdownTwoPointWeight1);
          fieldGoalWeight = clamp fieldGoalWeight2 0.15 0.62;
          touchdownXpWeight = clamp touchdownXpWeight0 0.22 0.72;
          touchdownTwoPointWeight = clamp touchdownTwoPointWeight2 0.01 0.24;
          touchdownMissedXpWeight = clamp touchdownMissedXpWeight0 0.01 0.08;
          safetyWeight = clamp safetyWeight0 0.003 0.07;
          defensiveTouchdownWeight = clamp defensiveTouchdownWeight0 0.01 0.14;
          outcomes = normalizeScoringOutcomeWeights
            [(3, fieldGoalWeight),
             (7, touchdownXpWeight + defensiveTouchdownWeight),
             (8, touchdownTwoPointWeight),
             (6, touchdownMissedXpWeight),
             (2, safetyWeight)];
          expectedPointsPerEvent =
            foldl (\<lambda>sum (points, probability). sum + jsInt points * probability) 0 outcomes;
          drivesPerTeam =
            estimateRemainingDrivesPerTeam (remainingSeconds inp) (profilePacePerMinute inp) trailingPressure;
          rawExpectedEvents = expectedAdditionalPoints inp / Math_max expectedPointsPerEvent 2.5;
          paceMultiplier = 1 + clamp (profilePacePerMinute inp - 2.2) (- 1.2) 2.8 * 0.1;
          riskMultiplier =
            1 + trailingPressure * lateGameUrgency * 0.25 - leadingControl * lateGameUrgency * 0.15;
          disruptionMultiplier =
            clamp (1 - ownTurnoverPressure inp * 0.1 - ownPenaltyPressure inp * 0.05) 0.55 1.15;
          momentumMultiplier = 1 + momentumEdge * 0.06;
          timeCompressionMultiplier = 1 + (1 - remainingRatio) * 0.08
      in \<lparr> expectedScoringEvents =
             clamp (rawExpectedEvents * paceMultiplier * riskMultiplier * disruptionMultiplier
                      * momentumMultiplier * timeCompressionMultiplier)
               0 (drivesPerTeam * 0.92),
           scoringOutcomes = outcomes \<rparr>)"

section \<open>The realtime engine: the feature vector\<close>

text \<open>The running totals of the loop over the plays in \<^verbatim>\<open>buildFeatureVector\<close>.\<close>

record FeatureTotals =
  homeScoring :: jsnum
  awayScoring :: jsnum
  homePenalties :: jsnum
  awayPenalties :: jsnum
  homeTurnovers :: jsnum
  awayTurnovers :: jsnum
  momentumHome :: jsnum
  momentumAway :: jsnum
  playWeightTotal :: jsnum

definition featureStep ::
  "LiveGameSnapshot \<Rightarrow> nat \<Rightarrow> FeatureTotals \<Rightarrow> nat \<times> LivePlayEvent \<Rightarrow> FeatureTotals" where
  "featureStep snap playCount t0 indexed =
     (let index = fst indexed;
          play = snd indexed;
          recencyWeight = Fin (exp (- (real (playCount - 1 - index)) / 13));
          t5 =
            (if teamCode play = Some (homeTeamCode snap) then
               (let t1 = (if isScoringPlay play
                          then t0\<lparr> homeScoring := homeScoring t0 + recencyWeight,
                                  momentumHome := momentumHome t0 + 1.7 * recencyWeight \<rparr>
                          else t0);
                    t2 = (if isPenalty play
                          then t1\<lparr> homePenalties := homePenalties t1 + recencyWeight,
                                  momentumHome := momentumHome t1 - 1.15 * recencyWeight \<rparr>
                          else t1);
                    t3 = (if isTurnover play
                          then t2\<lparr> homeTurnovers := homeTurnovers t2 + recencyWeight,
                                  momentumHome := momentumHome t2 - 2 * recencyWeight,
                                  momentumAway := momentumAway t2 + 1.2 * recencyWeight \<rparr>
                          else t2);
                    t4 = (if isExplosivePlay play
                          then t3\<lparr> momentumHome := momentumHome t3 + 0.8 * recencyWeight \<rparr>
                          else t3)
                in t4\<lparr> momentumHome :=
                         momentumHome t4 + sentimentScore play * 0.7 * recencyWeight \<rparr>)
             else if teamCode play = Some (awayTeamCode snap) then
               (let t1 = (if isScoringPlay play
                          then t0\<lparr> awayScoring := awayScoring t0 + recencyWeight,
                                  momentumAway := momentumAway t0 + 1.7 * recencyWeight \<rparr>
                          else t0);
                    t2 = (if isPenalty play
                          then t1\<lparr> awayPenalties := awayPenalties t1 + recencyWeight,
                                  momentumAway := momentumAway t1 - 1.15 * recencyWeight \<rparr>
                          else t1);
                    t3 = (if isTurnover play
                          then t2\<lparr> awayTurnovers := awayTurnovers t2 + recencyWeight,
                                  momentumAway := momentumAway t2 - 2 * recencyWeight,
                                  momentumHome := momentumHome t2 + 1.2 * recencyWeight \<rparr>
                          else t2);
                    t4 = (if isExplosivePlay play
                          then t3\<lparr> momentumAway := momentumAway t3 + 0.8 * recencyWeight \<rparr>
                          else t3)
                in t4\<lparr> momentumAway :=
                         momentumAway t4 + sentimentScore play * 0.7 * recencyWeight \<rparr>)
             else
               t0\<lparr> momentumHome := momentumHome t0 + home (sentiment snap) * 0.15 * recencyWeight,
                   momentumAway := momentumAway t0 + away (sentiment snap) * 0.15 * recencyWeight \<rparr>)
      in t5\<lparr> playWeightTotal := playWeightTotal t5 + recencyWeight \<rparr>)"

definition buildFeatureVector :: "LiveGameSnapshot \<Rightarrow> LiveFeatureVector" where
  "buildFeatureVector snap =
     (let remaining =
            (case secondsRemainingGame (clock snap) of
               Some seconds \<Rightarrow> seconds
             | None \<Rightarrow>
                 (if status snap = final then 0
                  else if status snap = pregame then TOTAL_REGULATION_SECONDS
                  else max 0 (TOTAL_REGULATION_SECONDS - (period (clock snap) - 1) * 900)));
          elapsed = min TOTAL_REGULATION_SECONDS (max 0 (TOTAL_REGULATION_SECONDS - remaining));
          recent = drop (length (plays snap) - 80) (plays snap);
          totals = foldl (featureStep snap (length recent))
            \<lparr> homeScoring = 0, awayScoring = 0, homePenalties = 0, awayPenalties = 0,
              homeTurnovers = 0, awayTurnovers = 0, momentumHome = 0, momentumAway = 0,
              playWeightTotal = 0 \<rparr>
            (zip [0..<length recent] recent);
          effectiveWeight = Math_max (playWeightTotal totals) 1;
          recentWindowMinutes = clamp (Math_max (jsInt elapsed / 60) 1) 1 60;
          pace = jsInt (int (length recent)) / recentWindowMinutes;
          homeRate = homeScoring totals / effectiveWeight;
          awayRate = awayScoring totals / effectiveWeight;
          homePenalty = homePenalties totals / effectiveWeight;
          awayPenalty = awayPenalties totals / effectiveWeight;
          homeTurnover = homeTurnovers totals / effectiveWeight;
          awayTurnover = awayTurnovers totals / effectiveWeight;
          homeFinal =
            momentumHome totals + home (sentiment snap) * 1.25 - homePenalty * 0.9
              - homeTurnover * 1.35;
          awayFinal =
            momentumAway totals + away (sentiment snap) * 1.25 - awayPenalty * 0.9
              - awayTurnover * 1.35
      in \<lparr> remainingGameSeconds = remaining,
           elapsedGameSeconds = elapsed,
           homeMomentum = clamp homeFinal (- 2.6) 2.6,
           awayMomentum = clamp awayFinal (- 2.6) 2.6,
           homePenaltyPressure = clamp homePenalty 0 2.5,
           awayPenaltyPressure = clamp awayPenalty 0 2.5,
           homeTurnoverPressure = clamp homeTurnover 0 2.5,
           awayTurnoverPressure = clamp awayTurnover 0 2.5,
           homeRecentScoringRate = clamp homeRate 0 2,
           awayRecentScoringRate = clamp awayRate 0 2,
           playPacePerMinute = clamp pace 0 10 \<rparr>)"


section \<open>The realtime engine: the live matrix, the blend and the result\<close>

definition buildDeterministicFinalMatrix :: "int \<Rightarrow> int \<Rightarrow> DigitProbabilityMatrix" where
  "buildDeterministicFinalMatrix homeFinal awayFinal =
     (let matrix = createZeroMatrix;
          homeDigit = nat (jsRem (jsRem homeFinal 10 + 10) 10);
          awayDigit = nat (jsRem (jsRem awayFinal 10 + 10) 10)
      in matrix[homeDigit := (matrix ! homeDigit)[awayDigit := 1]])"

definition blendMatrices ::
  "DigitProbabilityMatrix \<Rightarrow> DigitProbabilityMatrix \<Rightarrow> jsnum \<Rightarrow> thrown + DigitProbabilityMatrix" where
  "blendMatrices base live liveWeight =
     (let clampedLiveWeight = clamp liveWeight 0 1;
          baseWeight = 1 - clampedLiveWeight
      in case traverse
                (\<lambda>r. traverse
                   (\<lambda>c. case readCell base r c of
                           Inl e \<Rightarrow> Inl e
                         | Inr b \<Rightarrow>
                             (case readCell live r c of
                                Inl e \<Rightarrow> Inl e
                              | Inr l \<Rightarrow> Inr (b * baseWeight + l * clampedLiveWeight)))
                   [0..<DIGIT_COUNT])
                [0..<DIGIT_COUNT] of
           Inl e \<Rightarrow> Inl e
         | Inr output \<Rightarrow> Inr (normalizeMatrix output))"

text \<open>The string hashed into the seed of a simulation.\<close>

definition seedBasis :: "LiveGameSnapshot \<Rightarrow> string" where
  "seedBasis snap =
     joinWith ''|''
       [eventId snap,
        statusString (status snap),
        statusDetail snap,
        showInt (homeScore snap),
        showInt (awayScore snap),
        showInt (period (clock snap)),
        displayClock (clock snap),
        (if plays snap = [] then ''none'' else playId (last (plays snap))),
        showNat (length (plays snap))]"

text \<open>\<^verbatim>\<open>matrix[homeDigit][awayDigit] += 1\<close>: both digits are remainders by 10 and the
  matrix is 10 by 10, so an index is out of range only when it is negative. A negative
  row index makes \<^verbatim>\<open>matrix[homeDigit]\<close> undefined, and the access throws; a negative
  column index writes a property that is no cell of the row.\<close>

definition bumpCell ::
  "DigitProbabilityMatrix \<Rightarrow> int \<Rightarrow> int \<Rightarrow> thrown + DigitProbabilityMatrix" where
  "bumpCell matrix homeDigit awayDigit =
     (if 0 \<le> homeDigit \<and> nat homeDigit < length matrix then
        (if 0 \<le> awayDigit \<and> nat awayDigit < length (matrix ! nat homeDigit)
         then Inr (matrix[nat homeDigit :=
                 (matrix ! nat homeDigit)[nat awayDigit :=
                    matrix ! nat homeDigit ! nat awayDigit + 1]])
         else Inr matrix)
      else Inl (TypeError ''Cannot read properties of undefined''))"

fun sampleEvents ::
  "nat \<Rightarrow> ScoringOutcomeProbability list \<Rightarrow> int \<Rightarrow> nat \<Rightarrow> int \<times> nat" where
  "sampleEvents 0 outcomes additional st = (additional, st)"
| "sampleEvents (Suc k) outcomes additional st =
     (let (points, st') = sampleScoringOutcomePoints outcomes st
      in sampleEvents k outcomes (additional + points) st')"

text \<open>One run of the simulation loop: the matrix and the generator's state after it.\<close>

definition simulateRun ::
  "LiveGameSnapshot \<Rightarrow> int \<Rightarrow> TeamScoringSimulationProfile \<Rightarrow> TeamScoringSimulationProfile
   \<Rightarrow> DigitProbabilityMatrix \<Rightarrow> nat \<Rightarrow> thrown + DigitProbabilityMatrix \<times> nat" where
  "simulateRun snap remaining homeProfile awayProfile matrix st0 =
     (let (homeEventCount, st1) = samplePoisson (expectedScoringEvents homeProfile) st0;
          (awayEventCount, st2) = samplePoisson (expectedScoringEvents awayProfile) st1;
          (homeAdditional0, st3) = sampleEvents homeEventCount (scoringOutcomes homeProfile) 0 st2;
          (awayAdditional0, st4) = sampleEvents awayEventCount (scoringOutcomes awayProfile) 0 st3;
          (homeAdditional, awayAdditional, st7) =
            (if remaining \<le> 2 * 60 then
               (let (chance, st5) = nextRandom st4
                in if chance < 0.28 then
                     (let projectedHome = homeScore snap + homeAdditional0;
                          projectedAway = awayScore snap + awayAdditional0
                      in if projectedHome < projectedAway then
                           (let (points, st6) =
                                  sampleScoringOutcomePoints (scoringOutcomes homeProfile) st5
                            in (homeAdditional0 + points, awayAdditional0, st6))
                         else if projectedAway < projectedHome then
                           (let (points, st6) =
                                  sampleScoringOutcomePoints (scoringOutcomes awayProfile) st5
                            in (homeAdditional0, awayAdditional0 + points, st6))
                         else
                           (let (coin, st6) = nextRandom st5
                            in if coin < 0.5 then
                                 (let (points, st7) =
                                        sampleScoringOutcomePoints (scoringOutcomes homeProfile) st6
                                  in (homeAdditional0 + points, awayAdditional0, st7))
                               else
                                 (let (points, st7) =
                                        sampleScoringOutcomePoints (scoringOutcomes awayProfile) st6
                                  in (homeAdditional0, awayAdditional0 + points, st7))))
                   else (homeAdditional0, awayAdditional0, st5))
             else (homeAdditional0, awayAdditional0, st4));
          homeDigit = jsRem (homeScore snap + homeAdditional) (int DIGIT_COUNT);
          awayDigit = jsRem (awayScore snap + awayAdditional) (int DIGIT_COUNT)
      in case bumpCell matrix homeDigit awayDigit of
           Inl e \<Rightarrow> Inl e
         | Inr matrix' \<Rightarrow> Inr (matrix', st7))"

fun runSimulation ::
  "nat \<Rightarrow> LiveGameSnapshot \<Rightarrow> int \<Rightarrow> TeamScoringSimulationProfile
   \<Rightarrow> TeamScoringSimulationProfile \<Rightarrow> DigitProbabilityMatrix \<Rightarrow> nat
   \<Rightarrow> thrown + DigitProbabilityMatrix \<times> nat" where
  "runSimulation 0 snap remaining homeProfile awayProfile matrix st = Inr (matrix, st)"
| "runSimulation (Suc k) snap remaining homeProfile awayProfile matrix st =
     (case simulateRun snap remaining homeProfile awayProfile matrix st of
        Inl e \<Rightarrow> Inl e
      | Inr (matrix', st') \<Rightarrow> runSimulation k snap remaining homeProfile awayProfile matrix' st')"

text \<open>\<^verbatim>\<open>buildSimulationMatrix\<close> from the creation of the generator on: the two profiles, the
  loop of the simulation runs and the normalization, all drawing from the one generator
  \<^verbatim>\<open>rng\<close>, whose state at its creation is the first argument.\<close>

definition simulationMatrixFrom ::
  "nat \<Rightarrow> LiveGameSnapshot \<Rightarrow> LiveFeatureVector \<Rightarrow> jsnum \<Rightarrow> jsnum
   \<Rightarrow> thrown + DigitProbabilityMatrix" where
  "simulationMatrixFrom st snap fv expectedHomeAdditionalPoints expectedAwayAdditionalPoints =
     (let remaining = remainingGameSeconds fv;
          simulationRuns =
            (if remaining \<le> 8 * 60 then 12000 else if remaining \<le> 20 * 60 then 10000 else 8000);
          diff = homeScore snap - awayScore snap;
          homeProfile = buildTeamScoringProfile
            \<lparr> expectedAdditionalPoints = expectedHomeAdditionalPoints,
              ownMomentum = homeMomentum fv,
              opponentMomentum = awayMomentum fv,
              ownScoringRate = homeRecentScoringRate fv,
              ownPenaltyPressure = homePenaltyPressure fv,
              ownTurnoverPressure = homeTurnoverPressure fv,
              opponentTurnoverPressure = awayTurnoverPressure fv,
              profilePacePerMinute = playPacePerMinute fv,
              remainingSeconds = remainingGameSeconds fv,
              scoreDiff = diff \<rparr>;
          awayProfile = buildTeamScoringProfile
            \<lparr> expectedAdditionalPoints = expectedAwayAdditionalPoints,
              ownMomentum = awayMomentum fv,
              opponentMomentum = homeMomentum fv,
              ownScoringRate = awayRecentScoringRate fv,
              ownPenaltyPressure = awayPenaltyPressure fv,
              ownTurnoverPressure = awayTurnoverPressure fv,
              opponentTurnoverPressure = homeTurnoverPressure fv,
              profilePacePerMinute = playPacePerMinute fv,
              remainingSeconds = remainingGameSeconds fv,
              scoreDiff = - diff \<rparr>
      in case runSimulation simulationRuns snap remaining homeProfile awayProfile
                createZeroMatrix st of
           Inl e \<Rightarrow> Inl e
         | Inr (matrix, st') \<Rightarrow> Inr (normalizeMatrix matrix))"

text \<open>\<^verbatim>\<open>buildSimulationMatrix\<close>: the generator is
  \<^verbatim>\<open>createSeededRandom(hashString(seedBasis))\<close>.\<close>

definition buildSimulationMatrix ::
  "LiveGameSnapshot \<Rightarrow> LiveFeatureVector \<Rightarrow> jsnum \<Rightarrow> jsnum \<Rightarrow> thrown + DigitProbabilityMatrix" where
  "buildSimulationMatrix snap fv expectedHomeAdditionalPoints expectedAwayAdditionalPoints =
     simulationMatrixFrom (createSeededRandom (hashString (seedBasis snap))) snap fv
       expectedHomeAdditionalPoints expectedAwayAdditionalPoints"

definition estimateAdditionalPoints ::
  "jsnum \<Rightarrow> int \<Rightarrow> jsnum \<Rightarrow> jsnum \<Rightarrow> jsnum \<Rightarrow> jsnum \<Rightarrow> jsnum \<Rightarrow> jsnum \<Rightarrow> int \<Rightarrow> int \<Rightarrow> int
   \<Rightarrow> jsnum" where
  "estimateAdditionalPoints baseExpectedPoints currentScore ownMom opponentMom ownRate
      ownPenalty ownTurnover pace remaining elapsed diff =
     (let remainingRatio = clamp (jsInt remaining / jsInt TOTAL_REGULATION_SECONDS) 0 1;
          elapsedRatio = clamp (jsInt elapsed / jsInt TOTAL_REGULATION_SECONDS) 0 1;
          baseRatePerSecond = baseExpectedPoints / jsInt TOTAL_REGULATION_SECONDS;
          observedRatePerSecond = jsInt currentScore / jsInt (max elapsed (8 * 60));
          currentScoreWeight =
            clamp (0.4 + elapsedRatio * 0.38 + (1 - remainingRatio) * 0.3) 0.35 0.97;
          rate0 =
            baseRatePerSecond * (1 - currentScoreWeight)
              + observedRatePerSecond * currentScoreWeight;
          rate1 = rate0 * (1 + ownMom * 0.085);
          rate2 = rate1 * (1 + ownRate * 0.32);
          rate3 = rate2 * (1 + clamp (pace - 2.2) (- 1.4) 2.2 * 0.09);
          rate4 = rate3 * (1 + (1 - remainingRatio) * 0.1);
          rate5 = rate4 * (1 - ownPenalty * 0.22);
          rate6 = rate5 * (1 - ownTurnover * 0.34);
          rate7 = rate6 * (1 - clamp opponentMom (- 1.5) 2.5 * 0.055);
          rate8 =
            (if remaining \<le> 9 * 60 \<and> diff < 0
             then rate7 * (1 + clamp (jsInt \<bar>diff\<bar> / 15) 0 0.4) else rate7);
          projectedRate =
            (if remaining \<le> 7 * 60 \<and> diff > 0
             then rate8 * (1 - clamp (jsInt diff / 18) 0 0.3) else rate8);
          expectedAdditional = projectedRate * jsInt remaining;
          contextualCap =
            clamp (12 + baseExpectedPoints * (remainingRatio * 1.1 + 0.35)) 16 42
      in clamp expectedAdditional 0 contextualCap)"

definition getLiveBlendWeight :: "LiveFeatureVector \<Rightarrow> LiveGameSnapshot \<Rightarrow> jsnum" where
  "getLiveBlendWeight fv snap =
     (if status snap = pregame then 0.2
      else
        (let elapsedRatio =
               clamp (jsInt (elapsedGameSeconds fv) / jsInt TOTAL_REGULATION_SECONDS) 0 1;
             remainingRatio =
               clamp (jsInt (remainingGameSeconds fv) / jsInt TOTAL_REGULATION_SECONDS) 0 1;
             scoreSignal = clamp (jsInt (homeScore snap + awayScore snap) / 56) 0 1;
             scoreDiffSignal = clamp (jsInt \<bar>homeScore snap - awayScore snap\<bar> / 21) 0 1;
             lateGamePressure =
               clamp (jsInt (12 * 60 - remainingGameSeconds fv) / jsInt (12 * 60)) 0 1
         in if remainingGameSeconds fv \<le> 2 * 60 then 0.99
            else if remainingGameSeconds fv \<le> 5 * 60 then 0.95
            else if remainingGameSeconds fv \<le> 10 * 60 then 0.9
            else clamp
                   (0.36 + elapsedRatio * 0.34 + (1 - remainingRatio) * 0.27 + scoreSignal * 0.1
                      + scoreDiffSignal * 0.05 + lateGamePressure * 0.08)
                   0.36 0.95))"

text \<open>A \<^verbatim>\<open>Set\<close> keeps the order of first insertion.\<close>

definition appendUniqueSources ::
  "SquareOddsComputationSource list \<Rightarrow> SquareOddsComputationSource list
   \<Rightarrow> SquareOddsComputationSource list" where
  "appendUniqueSources baseSources extras =
     foldl (\<lambda>output source. if source \<in> set output then output else output @ [source]) []
       (baseSources @ extras)"

record BuildRealtimeSquareOddsInput =
  baseModel :: SquareOddsComputationResult
  snapshot :: LiveGameSnapshot
  rowLabels :: "jsnum list"
  colLabels :: "jsnum list"

text \<open>The four variables the \<^verbatim>\<open>if\<close> on the status assigns in
  \<^verbatim>\<open>buildRealtimeSquareOdds\<close> (both branches overwrite the initial values of the two
  expected additions).\<close>

record LiveEstimate =
  liveDigitMatrix :: DigitProbabilityMatrix
  liveBlendWeight :: jsnum
  expectedHomeAdditional :: jsnum
  expectedAwayAdditional :: jsnum

definition liveEstimate ::
  "BuildRealtimeSquareOddsInput \<Rightarrow> LiveFeatureVector \<Rightarrow> thrown + LiveEstimate" where
  "liveEstimate inp fv =
     (if status (snapshot inp) = final \<or> status (snapshot inp) = postponed then
        Inr \<lparr> liveDigitMatrix =
                buildDeterministicFinalMatrix (homeScore (snapshot inp)) (awayScore (snapshot inp)),
              liveBlendWeight = 1,
              expectedHomeAdditional = 0,
              expectedAwayAdditional = 0 \<rparr>
      else
        (let diff = homeScore (snapshot inp) - awayScore (snapshot inp);
             homeAdditional = estimateAdditionalPoints
               (expectedHomePoints (baseModel inp)) (homeScore (snapshot inp))
               (homeMomentum fv) (awayMomentum fv) (homeRecentScoringRate fv)
               (homePenaltyPressure fv) (homeTurnoverPressure fv) (playPacePerMinute fv)
               (remainingGameSeconds fv) (elapsedGameSeconds fv) diff;
             awayAdditional = estimateAdditionalPoints
               (expectedAwayPoints (baseModel inp)) (awayScore (snapshot inp))
               (awayMomentum fv) (homeMomentum fv) (awayRecentScoringRate fv)
               (awayPenaltyPressure fv) (awayTurnoverPressure fv) (playPacePerMinute fv)
               (remainingGameSeconds fv) (elapsedGameSeconds fv) (- diff)
         in case buildSimulationMatrix (snapshot inp) fv homeAdditional awayAdditional of
              Inl e \<Rightarrow> Inl e
            | Inr matrix \<Rightarrow>
                Inr \<lparr> liveDigitMatrix = matrix,
                      liveBlendWeight = getLiveBlendWeight fv (snapshot inp),
                      expectedHomeAdditional = homeAdditional,
                      expectedAwayAdditional = awayAdditional \<rparr>))"

text \<open>\<^verbatim>\<open>buildRealtimeSquareOdds\<close>. The second argument is what
  \<^verbatim>\<open>new Date().toISOString()\<close> returns at the call.\<close>

definition buildRealtimeSquareOdds ::
  "BuildRealtimeSquareOddsInput \<Rightarrow> string \<Rightarrow> thrown + RealtimeSquareOddsComputationResult" where
  "buildRealtimeSquareOdds inp now =
     (let fv = buildFeatureVector (snapshot inp)
      in case liveEstimate inp fv of
           Inl e \<Rightarrow> Inl e
         | Inr live \<Rightarrow>
        (case blendMatrices (digitProbabilities (baseModel inp)) (liveDigitMatrix live)
                (liveBlendWeight live) of
           Inl e \<Rightarrow> Inl e
         | Inr digits \<Rightarrow>
        (case mapDigitMatrixToBoard digits (rowLabels inp) (colLabels inp) of
           Inl e \<Rightarrow> Inl e
         | Inr board \<Rightarrow>
        (let liveExpectationWeight = clamp (0.08 + liveBlendWeight live * 0.92) 0.08 1;
             homePoints =
               (if liveBlendWeight live \<ge> 0.999 then jsInt (homeScore (snapshot inp))
                else clamp
                  (expectedHomePoints (baseModel inp) * (1 - liveExpectationWeight)
                     + (jsInt (homeScore (snapshot inp)) + expectedHomeAdditional live)
                         * liveExpectationWeight)
                  0 70);
             awayPoints =
               (if liveBlendWeight live \<ge> 0.999 then jsInt (awayScore (snapshot inp))
                else clamp
                  (expectedAwayPoints (baseModel inp) * (1 - liveExpectationWeight)
                     + (jsInt (awayScore (snapshot inp)) + expectedAwayAdditional live)
                         * liveExpectationWeight)
                  0 70);
             warningList =
               (if status (snapshot inp) = pregame
                then warnings (baseModel inp)
                  @ [''Live feed connected but game has not started. Realtime adjustments are minimal.'']
                else warnings (baseModel inp));
             sources = appendUniqueSources (sourcesUsed (baseModel inp))
               [espn_live_scoreboard, espn_live_summary, live_commentary_sentiment]
         in Inr \<lparr> digitProbabilities = digits,
                  generatedAt = now,
                  sourceMode = sourceMode (baseModel inp),
                  sourcesUsed = sources,
                  warnings = warningList,
                  expectedHomePoints = homePoints,
                  expectedAwayPoints = awayPoints,
                  boardPercentages = finalizeBoardPercentages board,
                  engineMode = ''realtime'',
                  liveEventId = eventId (snapshot inp),
                  liveStatus = status (snapshot inp),
                  liveStatusDetail = statusDetail (snapshot inp),
                  liveClock =
                    ''Q'' @ showInt (period (clock (snapshot inp))) @ '' ''
                      @ displayClock (clock (snapshot inp)),
                  liveSnapshotAt = fetchedAt (snapshot inp),
                  featureVector = fv \<rparr>))))"


text \<open>An example call for the concrete checks: Seahawks against Patriots, the rows shuffled
  to \<open>5, 0, 1, 2, 3, 4, 6, 7, 8, 9\<close>, the columns in order, a uniform pre-game matrix.\<close>

definition exampleBaseModel :: SquareOddsComputationResult where
  "exampleBaseModel =
     \<lparr> digitProbabilities = replicate 10 (replicate 10 (1 / 100)),
       generatedAt = ''2026-02-08T20:00:00.000Z'',
       sourceMode = full,
       sourcesUsed = [nflverse_games, nflverse_closing_lines, espn_team_stats],
       warnings = [''Recent form feed unavailable. Team trend model uses historical games only.''],
       expectedHomePoints = 24,
       expectedAwayPoints = 21,
       boardPercentages = replicate 10 (replicate 10 1) \<rparr>"

definition exampleSnapshot :: "LiveGameStatus \<Rightarrow> int \<Rightarrow> int \<Rightarrow> LiveGameSnapshot" where
  "exampleSnapshot st homePoints awayPoints =
     \<lparr> eventId = ''401772988'',
       fetchedAt = ''2026-02-08T23:39:58.000Z'',
       status = st,
       statusDetail = ''Final'',
       homeTeamCode = ''SEA'',
       awayTeamCode = ''NE'',
       homeTeamName = ''Seattle Seahawks'',
       awayTeamName = ''New England Patriots'',
       homeScore = homePoints,
       awayScore = awayPoints,
       clock = \<lparr> period = 4, displayClock = ''0:00'', secondsRemainingInPeriod = Some 0,
                 secondsRemainingGame = Some 0 \<rparr>,
       plays = [],
       sentiment = \<lparr> home = 0, away = 0, neutral = 1 \<rparr> \<rparr>"

definition exampleInput :: "LiveGameStatus \<Rightarrow> jsnum list \<Rightarrow> BuildRealtimeSquareOddsInput" where
  "exampleInput st rows =
     \<lparr> baseModel = exampleBaseModel,
       snapshot = exampleSnapshot st 14 10,
       rowLabels = rows,
       colLabels = [0, 1, 2, 3, 4, 5, 6, 7, 8, 9] \<rparr>"

text \<open>The real value of a finite number (a function of the proofs, not of the source).\<close>

fun toReal :: "jsnum \<Rightarrow> real" where
  "toReal (Fin a) = a"
| "toReal x = 0"
text \<open>A 10 by 10 matrix with one NaN entry beside a positive one, for the concrete check of
  \<^verbatim>\<open>normalizeMatrix\<close>.\<close>

definition exampleNaNMatrix :: DigitProbabilityMatrix where
  "exampleNaNMatrix =
     (replicate 10 (replicate 10 0))[0 := (replicate 10 0)[0 := NaN, 1 := 1]]"

section \<open>Text: lower case, white space, trimming\<close>

text \<open>A string is a list of 8-bit characters: \<^verbatim>\<open>toLowerCase\<close> and \<^verbatim>\<open>toUpperCase\<close> act on
  the ASCII letters, and \<^verbatim>\<open>\s\<close> is the ASCII white space.\<close>

definition charCode :: "char \<Rightarrow> nat" where
  "charCode c = of_char c"

definition toLower :: "char \<Rightarrow> char" where
  "toLower c = (if 65 \<le> charCode c \<and> charCode c \<le> 90 then char_of (charCode c + 32) else c)"

definition toUpper :: "char \<Rightarrow> char" where
  "toUpper c = (if 97 \<le> charCode c \<and> charCode c \<le> 122 then char_of (charCode c - 32) else c)"

definition isSpace :: "char \<Rightarrow> bool" where
  "isSpace c = (charCode c = 32 \<or> 9 \<le> charCode c \<and> charCode c \<le> 13)"

definition isDigit :: "char \<Rightarrow> bool" where
  "isDigit c = (48 \<le> charCode c \<and> charCode c \<le> 57)"

definition isLowerAlnum :: "char \<Rightarrow> bool" where
  "isLowerAlnum c = (97 \<le> charCode c \<and> charCode c \<le> 122 \<or> isDigit c)"

definition trim :: "string \<Rightarrow> string" where
  "trim v = rev (dropWhile isSpace (rev (dropWhile isSpace v)))"

text \<open>\<^verbatim>\<open>replace(/[class]+/g, " ")\<close>: every maximal run of characters of the class becomes
  one space.\<close>

function collapseRuns :: "(char \<Rightarrow> bool) \<Rightarrow> string \<Rightarrow> string" where
  "collapseRuns P [] = []"
| "collapseRuns P (c # cs) =
     (if P c then CHR '' '' # collapseRuns P (dropWhile P cs) else c # collapseRuns P cs)"
  by pat_completeness auto
termination
  by (relation "measure (\<lambda>(P, cs). length cs)")
    (auto simp: length_dropWhile_le le_imp_less_Suc)

fun splitOn :: "char \<Rightarrow> string \<Rightarrow> string list" where
  "splitOn d [] = [[]]"
| "splitOn d (c # cs) =
     (if c = d then [] # splitOn d cs
      else (case splitOn d cs of [] \<Rightarrow> [[c]] | w # ws \<Rightarrow> (c # w) # ws))"

definition endsWith :: "string \<Rightarrow> string \<Rightarrow> bool" where
  "endsWith v ending = (length ending \<le> length v \<and> drop (length v - length ending) v = ending)"

section \<open>The sentiment scorer (liveSentimentService)\<close>

definition POSITIVE_TERMS :: "string set" where
  "POSITIVE_TERMS = set
     [''touchdown'', ''scores'', ''scored'', ''good'', ''great'', ''huge'',
      ''explosive'', ''interception'', ''sack'', ''forced'', ''stops'', ''stop'',
      ''efficient'', ''conversion'', ''converted'', ''first'', ''down'', ''win'',
      ''winning'', ''momentum'', ''dominant'', ''clutch'', ''redzone'', ''red'',
      ''zone'']"

definition NEGATIVE_TERMS :: "string set" where
  "NEGATIVE_TERMS = set
     [''penalty'', ''foul'', ''flags'', ''flag'', ''missed'', ''miss'',
      ''intercepted'', ''fumble'', ''turnover'', ''safety'', ''stuffed'', ''stalled'',
      ''punt'', ''sacked'', ''loss'', ''losing'', ''injury'', ''slow'',
      ''struggling'', ''struggle'', ''incomplete'', ''delay'']"

text \<open>\<^verbatim>\<open>normalizeText\<close> of the sentiment service (the snapshot fetcher has the same text):
  each character outside \<^verbatim>\<open>[a-z0-9\s]\<close> becomes a space, runs of white space one space.\<close>

definition normalizeText :: "string \<Rightarrow> string" where
  "normalizeText v =
     trim (collapseRuns isSpace
       (map (\<lambda>c. if isLowerAlnum c \<or> isSpace c then c else CHR '' '') (map toLower v)))"

definition tokenize :: "string \<Rightarrow> string list" where
  "tokenize v =
     (let normalized = normalizeText v
      in if normalized = [] then [] else filter (\<lambda>token. token \<noteq> []) (splitOn CHR '' '' normalized))"

definition scoreCommentaryText :: "string \<Rightarrow> jsnum" where
  "scoreCommentaryText v =
     (let tokens = tokenize v
      in if length tokens = 0 then 0
         else
           (let score = foldl
                  (\<lambda>score token.
                     (let score1 = (if token \<in> POSITIVE_TERMS then score + 1 else score)
                      in if token \<in> NEGATIVE_TERMS then score1 - 1 else score1))
                  (0 :: int) tokens;
                normalized = jsInt score / jsInt (max (int (length tokens)) 4)
            in clamp (normalized * 2.4) (- 1) 1))"

text \<open>A word as the tokenizer leaves it: not empty, of lower-case letters and digits
  (a predicate of the proofs, not of the source).\<close>

definition wordOk :: "string \<Rightarrow> bool" where
  "wordOk w = (w \<noteq> [] \<and> list_all isLowerAlnum w)"

section \<open>The snapshot fetcher: the clock\<close>

text \<open>\<^verbatim>\<open>/^(\d{1,2}):(\d{2})$/\<close> on the trimmed clock: one or two digits, a colon, two
  digits; the two groups as numbers.\<close>

definition digitValue :: "char \<Rightarrow> int" where
  "digitValue c = int (charCode c) - 48"

definition parseDigits :: "string \<Rightarrow> int" where
  "parseDigits ds = foldl (\<lambda>value c. value * 10 + digitValue c) 0 ds"

definition matchClock :: "string \<Rightarrow> (int \<times> int) option" where
  "matchClock v =
     (let minutesText = takeWhile (\<lambda>c. c \<noteq> CHR '':'') v;
          rest = dropWhile (\<lambda>c. c \<noteq> CHR '':'') v
      in if (length minutesText = 1 \<or> length minutesText = 2) \<and> list_all isDigit minutesText
            \<and> length rest = 3 \<and> list_all isDigit (tl rest)
         then Some (parseDigits minutesText, parseDigits (tl rest))
         else None)"

definition clampInt :: "int \<Rightarrow> int \<Rightarrow> int \<Rightarrow> int" where
  "clampInt v lo hi = min hi (max lo v)"

definition parseClockToSeconds :: "string option \<Rightarrow> int option" where
  "parseClockToSeconds clockText =
     (case clockText of
        None \<Rightarrow> None
      | Some v \<Rightarrow>
          (if v = [] then None
           else (case matchClock (trim v) of
                   None \<Rightarrow> None
                 | Some (minutes, seconds) \<Rightarrow> Some (clampInt (minutes * 60 + seconds) 0 (15 * 60)))))"

definition calculateRemainingGameSeconds ::
  "LiveGameStatus \<Rightarrow> int \<Rightarrow> int option \<Rightarrow> int option" where
  "calculateRemainingGameSeconds st per secondsInPeriod =
     (if st = final \<or> st = postponed then Some 0
      else if st = pregame then Some (4 * 15 * 60)
      else if st = halftime then Some (2 * 15 * 60)
      else (case secondsInPeriod of
              None \<Rightarrow> None
            | Some seconds \<Rightarrow>
                (if per \<le> 4
                 then (let clampedPeriod = clampInt per 1 4
                       in Some ((4 - clampedPeriod) * 15 * 60 + clampInt seconds 0 (15 * 60)))
                 else Some (clampInt seconds 0 (15 * 60)))))"

text \<open>The clock that \<^verbatim>\<open>parseCoreFromCompetition\<close> builds from the status, the number it read
  as the period (\<^verbatim>\<open>getNumber(statusNode.period)\<close>: a finite number or null) and the string
  it read as the clock (\<^verbatim>\<open>getString(statusNode.displayClock)\<close>: trimmed and not empty, or
  null).\<close>

definition parseClockOfCompetition ::
  "LiveGameStatus \<Rightarrow> real option \<Rightarrow> string option \<Rightarrow> LiveGameClock" where
  "parseClockOfCompetition st rawPeriod rawClock =
     (let per = max 1 \<lfloor>(case rawPeriod of None \<Rightarrow> 1 | Some p \<Rightarrow> p) + 1 / 2\<rfloor>;
          shown =
            (case rawClock of
               Some v \<Rightarrow> v
             | None \<Rightarrow> (if st = pregame then ''15:00'' else if st = final then ''0:00'' else []));
          inPeriod = parseClockToSeconds (Some shown);
          inGame = calculateRemainingGameSeconds st per inPeriod
      in \<lparr> period = per,
           displayClock = (if shown = [] then ''--:--'' else shown),
           secondsRemainingInPeriod = inPeriod,
           secondsRemainingGame = inGame \<rparr>)"

section \<open>squareOddsService.ts: market odds\<close>

definition americanOddsToImpliedProbability :: "jsnum \<Rightarrow> jsnum" where
  "americanOddsToImpliedProbability odds =
     (if \<not> isFinite odds \<or> odds = 0 then 0.5
      else if odds < 0 then Math_abs odds / (Math_abs odds + 100)
      else 100 / (odds + 100))"

record MoneylineRecord =
  season :: jsnum
  side :: string
  impliedProbability :: jsnum

text \<open>The callback that \<^verbatim>\<open>loadClosingMoneylines\<close> maps over the rows. Its arguments: the
  row's type, \<^verbatim>\<open>parseNumeric(row.odds)\<close> (a finite number or null), the number
  \<^verbatim>\<open>Number.parseInt\<close> read as the season, the row's side.\<close>

definition moneylineRecordOfRow ::
  "string \<Rightarrow> real option \<Rightarrow> jsnum \<Rightarrow> string \<Rightarrow> MoneylineRecord option" where
  "moneylineRecordOfRow rowType parsedOdds parsedSeason rowSide =
     (if rowType \<noteq> ''MONEYLINE'' then None
      else (case parsedOdds of
              None \<Rightarrow> None
            | Some odds \<Rightarrow>
                (if \<not> isInteger parsedSeason then None
                 else Some \<lparr> season = parsedSeason,
                             side = map toUpper (trim rowSide),
                             impliedProbability =
                               clamp (americanOddsToImpliedProbability (Fin odds)) 0.01 0.99 \<rparr>)))"

section \<open>squareOddsService.ts: teams, the fallback model and buildSquareOdds\<close>

record Team =
  teamId :: string
  teamName :: string
  color :: string

definition NFL_TEAMS :: "Team list" where
  "NFL_TEAMS =
     [\<lparr> teamId = ''ARI'', teamName = ''Cardinals'', color = ''#97233F'' \<rparr>,
      \<lparr> teamId = ''ATL'', teamName = ''Falcons'', color = ''#A71930'' \<rparr>,
      \<lparr> teamId = ''BAL'', teamName = ''Ravens'', color = ''#241773'' \<rparr>,
      \<lparr> teamId = ''BUF'', teamName = ''Bills'', color = ''#00338D'' \<rparr>,
      \<lparr> teamId = ''CAR'', teamName = ''Panthers'', color = ''#0085CA'' \<rparr>,
      \<lparr> teamId = ''CHI'', teamName = ''Bears'', color = ''#0B162A'' \<rparr>,
      \<lparr> teamId = ''CIN'', teamName = ''Bengals'', color = ''#FB4F14'' \<rparr>,
      \<lparr> teamId = ''CLE'', teamName = ''Browns'', color = ''#311D00'' \<rparr>,
      \<lparr> teamId = ''DAL'', teamName = ''Cowboys'', color = ''#003594'' \<rparr>,
      \<lparr> teamId = ''DEN'', teamName = ''Broncos'', color = ''#FB4F14'' \<rparr>,
      \<lparr> teamId = ''DET'', teamName = ''Lions'', color = ''#0076B6'' \<rparr>,
      \<lparr> teamId = ''GB'', teamName = ''Packers'', color = ''#203731'' \<rparr>,
      \<lparr> teamId = ''HOU'', teamName = ''Texans'', color = ''#03202F'' \<rparr>,
      \<lparr> teamId = ''IND'', teamName = ''Colts'', color = ''#002C5F'' \<rparr>,
      \<lparr> teamId = ''JAX'', teamName = ''Jaguars'', color = ''#006778'' \<rparr>,
      \<lparr> teamId = ''KC'', teamName = ''Chiefs'', color = ''#E31837'' \<rparr>,
      \<lparr> teamId = ''LV'', teamName = ''Raiders'', color = ''#000000'' \<rparr>,
      \<lparr> teamId = ''LAC'', teamName = ''Chargers'', color = ''#0080C6'' \<rparr>,
      \<lparr> teamId = ''LAR'', teamName = ''Rams'', color = ''#003594'' \<rparr>,
      \<lparr> teamId = ''MIA'', teamName = ''Dolphins'', color = ''#008E97'' \<rparr>,
      \<lparr> teamId = ''MIN'', teamName = ''Vikings'', color = ''#4F2683'' \<rparr>,
      \<lparr> teamId = ''NE'', teamName = ''Patriots'', color = ''#002244'' \<rparr>,
      \<lparr> teamId = ''NO'', teamName = ''Saints'', color = ''#D3BC8D'' \<rparr>,
      \<lparr> teamId = ''NYG'', teamName = ''Giants'', color = ''#0B2265'' \<rparr>,
      \<lparr> teamId = ''NYJ'', teamName = ''Jets'', color = ''#125740'' \<rparr>,
      \<lparr> teamId = ''PHI'', teamName = ''Eagles'', color = ''#004C54'' \<rparr>,
      \<lparr> teamId = ''PIT'', teamName = ''Steelers'', color = ''#FFB612'' \<rparr>,
      \<lparr> teamId = ''SF'', teamName = ''49ers'', color = ''#AA0000'' \<rparr>,
      \<lparr> teamId = ''SEA'', teamName = ''Seahawks'', color = ''#002244'' \<rparr>,
      \<lparr> teamId = ''TB'', teamName = ''Buccaneers'', color = ''#D50A0A'' \<rparr>,
      \<lparr> teamId = ''TEN'', teamName = ''Titans'', color = ''#0C2340'' \<rparr>,
      \<lparr> teamId = ''WAS'', teamName = ''Commanders'', color = ''#5A1414'' \<rparr>]"

text \<open>\<^verbatim>\<open>normalizeText\<close> of squareOddsService.ts: runs of characters outside
  \<^verbatim>\<open>[a-z0-9 ]\<close> become one space, then runs of white space one space.\<close>

definition normalizeText_service :: "string \<Rightarrow> string" where
  "normalizeText_service v =
     trim (collapseRuns isSpace
       (collapseRuns (\<lambda>c. \<not> (isLowerAlnum c \<or> charCode c = 32)) (map toLower v)))"

definition findTeamByNameOrCode :: "string \<Rightarrow> Team option" where
  "findTeamByNameOrCode teamNameOrCode =
     (let normalized = normalizeText_service teamNameOrCode
      in case find (\<lambda>team. normalizeText_service (teamId team) = normalized) NFL_TEAMS of
           Some team \<Rightarrow> Some team
         | None \<Rightarrow>
        (case find (\<lambda>team. normalizeText_service (teamName team) = normalized) NFL_TEAMS of
           Some team \<Rightarrow> Some team
         | None \<Rightarrow>
             find (\<lambda>team. endsWith normalized (normalizeText_service (teamName team))) NFL_TEAMS))"

definition resolveTeamCode :: "string \<Rightarrow> thrown + string" where
  "resolveTeamCode teamNameOrCode =
     (case findTeamByNameOrCode teamNameOrCode of
        Some matched \<Rightarrow> Inr (teamId matched)
      | None \<Rightarrow> Inl (Error (''Unsupported team name or code: '' @ teamNameOrCode)))"

definition createUniformDigitDist :: "jsnum list" where
  "createUniformDigitDist = replicate DIGIT_COUNT (1 / 10)"

definition createUniformDigitMatrix :: DigitProbabilityMatrix where
  "createUniformDigitMatrix = replicate DIGIT_COUNT (replicate DIGIT_COUNT (1 / 100))"

definition normalizeVector :: "jsnum list \<Rightarrow> jsnum list" where
  "normalizeVector values =
     (let total = foldl (\<lambda>acc value. acc + Math_max value 0) 0 values
      in if \<not> isFinite total \<or> total \<le> 0 then createUniformDigitDist
         else map (\<lambda>value. Math_max value 0 / total) values)"

text \<open>\<^verbatim>\<open>normalizeMatrix\<close> of squareOddsService.ts reads the cells \<^verbatim>\<open>matrix[r][c]\<close> for
  \<open>r, c < 10\<close> into the total, so an entry that is not finite makes the total not
  finite.\<close>

definition normalizeMatrix_service ::
  "DigitProbabilityMatrix \<Rightarrow> thrown + DigitProbabilityMatrix" where
  "normalizeMatrix_service matrix =
     (case traverse (\<lambda>r. traverse (\<lambda>c. readCell matrix r c) [0..<DIGIT_COUNT])
             [0..<DIGIT_COUNT] of
        Inl e \<Rightarrow> Inl e
      | Inr cells \<Rightarrow>
          (let total = foldl (\<lambda>total value. total + Math_max value 0) 0 (concat cells)
           in if \<not> isFinite total \<or> total \<le> 0 then Inr createUniformDigitMatrix
              else Inr (map (map (\<lambda>value. Math_max value 0 / total)) matrix)))"

text \<open>\<^verbatim>\<open>a[i]\<close> read as a number: \<^verbatim>\<open>undefined\<close> past the end, NaN in arithmetic.\<close>

definition readNumber :: "jsnum list \<Rightarrow> nat \<Rightarrow> jsnum" where
  "readNumber values i = (if i < length values then values ! i else NaN)"

definition outerProduct :: "jsnum list \<Rightarrow> jsnum list \<Rightarrow> thrown + DigitProbabilityMatrix" where
  "outerProduct a b =
     normalizeMatrix_service
       (map (\<lambda>r. map (\<lambda>c. readNumber a r * readNumber b c) [0..<DIGIT_COUNT]) [0..<DIGIT_COUNT])"

text \<open>\<^verbatim>\<open>probabilities[k] += v\<close> for a number \<open>k\<close>: a cell changes when \<open>k\<close> is an index
  of the array.\<close>

fun addAtNumber :: "jsnum list \<Rightarrow> jsnum \<Rightarrow> jsnum \<Rightarrow> jsnum list" where
  "addAtNumber values (Fin k) v =
     (if isInteger (Fin k) \<and> 0 \<le> k \<and> nat \<lfloor>k\<rfloor> < length values
      then values[nat \<lfloor>k\<rfloor> := values ! nat \<lfloor>k\<rfloor> + v] else values)"
| "addAtNumber values k v = values"

text \<open>The remainder \<^verbatim>\<open>%\<close> on numbers.\<close>

fun remainder :: "jsnum \<Rightarrow> jsnum \<Rightarrow> jsnum" where
  "remainder (Fin a) (Fin b) =
     (if b = 0 then NaN else Fin (a - b * of_int (sgn \<lfloor>a / b\<rfloor> * \<lfloor>\<bar>a / b\<bar>\<rfloor>)))"
| "remainder (Fin a) PosInf = Fin a"
| "remainder (Fin a) NegInf = Fin a"
| "remainder x y = NaN"

definition poissonDigitDistribution :: "jsnum \<Rightarrow> jsnum list" where
  "poissonDigitDistribution meanPoints =
     (let lambda = clamp meanPoints 8 55;
          maxScore = 85;
          pmf0 = Math_exp (- lambda);
          start = (replicate DIGIT_COUNT 0)[0 := 0 + pmf0];
          (pmf, filled) = foldl
            (\<lambda>(pmf, probabilities) score.
               (let pmf' = pmf * (lambda / jsInt (int score))
                in (pmf', probabilities[score mod DIGIT_COUNT :=
                      probabilities ! (score mod DIGIT_COUNT) + pmf'])))
            (pmf0, start) [1..<maxScore + 1];
          assigned = foldl (\<lambda>sum value. sum + value) 0 filled;
          tail = Math_max 0 (1 - assigned)
      in normalizeVector
           (addAtNumber filled (remainder (Math_round lambda) (jsInt (int DIGIT_COUNT))) tail))"

definition buildSimulationMatrix_service :: "jsnum \<Rightarrow> jsnum \<Rightarrow> thrown + DigitProbabilityMatrix" where
  "buildSimulationMatrix_service homeExpectedPoints awayExpectedPoints =
     outerProduct (poissonDigitDistribution homeExpectedPoints)
       (poissonDigitDistribution awayExpectedPoints)"

definition mapDigitMatrixToBoard_service ::
  "DigitProbabilityMatrix \<Rightarrow> jsnum list \<Rightarrow> jsnum list \<Rightarrow> thrown + jsnum list list" where
  "mapDigitMatrixToBoard_service =
     mapDigitMatrixToBoardWith
       ''Expected row and column labels to each have length 10.''
       ''Invalid row label while mapping digit probabilities.''
       ''Invalid column label while mapping digit probabilities.''"

text \<open>\<^verbatim>\<open>buildFallbackModel\<close>; the third argument is the time of the call. The board is the
  mapped matrix as it is (this path does not call \<^verbatim>\<open>finalizeBoardPercentages\<close>).\<close>

definition buildFallbackModel ::
  "jsnum list \<Rightarrow> jsnum list \<Rightarrow> string \<Rightarrow> thrown + SquareOddsComputationResult" where
  "buildFallbackModel rows cols now =
     (case buildSimulationMatrix_service 23 21 of
        Inl e \<Rightarrow> Inl e
      | Inr digits \<Rightarrow>
          (case mapDigitMatrixToBoard_service digits rows cols of
             Inl e \<Rightarrow> Inl e
           | Inr board \<Rightarrow>
               Inr \<lparr> digitProbabilities = digits,
                     generatedAt = now,
                     sourceMode = baseline,
                     sourcesUsed = [fallback_model],
                     warnings =
                       [''Live sports data sources were unavailable. Using a mathematically generated baseline model.''],
                     expectedHomePoints = 23,
                     expectedAwayPoints = 21,
                     boardPercentages = board \<rparr>))"

section \<open>squareOddsService.ts: the model built from the sources\<close>

text \<open>What the sources deliver. A game's season and scores are whole numbers
  (\<^verbatim>\<open>loadGames\<close> rounds them); a field that can be \<^verbatim>\<open>null\<close> is an option.\<close>

record GameRecord =
  gameSeason :: int
  gameday :: string
  awayTeam :: string
  gameAwayScore :: int
  homeTeam :: string
  gameHomeScore :: int
  totalLine :: "jsnum option"
  spreadLine :: "jsnum option"

record TeamContext =
  offenseDigitDist :: "jsnum list"
  defenseDigitDist :: "jsnum list"
  avgPointsFor :: jsnum
  avgPointsAllowed :: jsnum
  sampleSize :: nat

record EspnTeamDescriptor =
  descriptorId :: string
  teamAbbreviation :: string
  displayName :: string
  shortDisplayName :: string
  nickname :: string

record EspnTeamStats =
  pointsPerGame :: "jsnum option"
  thirdDownPct :: "jsnum option"
  redZonePct :: "jsnum option"
  turnoverDiff :: "jsnum option"

record SportsDbRecentForm =
  avgScored :: jsnum
  avgAllowed :: jsnum
  recentOffenseDigitDist :: "jsnum list"
  recentDefenseDigitDist :: "jsnum list"
  recentSampleSize :: nat

definition toDigit :: "int \<Rightarrow> nat" where
  "toDigit score = nat (jsRem (jsRem score 10 + 10) 10)"

definition getLatestSeason :: "GameRecord list \<Rightarrow> int" where
  "getLatestSeason games = foldl (\<lambda>maxSeason game. max maxSeason (gameSeason game)) 0 games"

definition calculateLeagueAveragePoints :: "GameRecord list \<Rightarrow> int \<Rightarrow> jsnum" where
  "calculateLeagueAveragePoints games latestSeason =
     (let cutoff = latestSeason - 3;
          (scoreTotal, sample) =
            foldl (\<lambda>(scoreTotal, sample) game.
                     if gameSeason game < cutoff then (scoreTotal, sample)
                     else (scoreTotal + (gameHomeScore game + gameAwayScore game), sample + 2))
              (0 :: int, 0 :: int) games
      in if sample = 0 then 22 else jsInt scoreTotal / jsInt sample)"

text \<open>\<^verbatim>\<open>counts[homeDigit][awayDigit] += recencyWeight\<close>: both digits are values of
  \<^verbatim>\<open>toDigit\<close>, from 0 to 9, and the matrix is 10 by 10.\<close>

definition baselineStep ::
  "int \<Rightarrow> int \<Rightarrow> DigitProbabilityMatrix \<times> nat \<Rightarrow> GameRecord
   \<Rightarrow> DigitProbabilityMatrix \<times> nat" where
  "baselineStep startSeason latestSeason state game =
     (let (counts, played) = state
      in if gameSeason game < startSeason then (counts, played)
         else if gameHomeScore game < 0 \<or> gameAwayScore game < 0 then (counts, played)
         else
           (let homeDigit = toDigit (gameHomeScore game);
                awayDigit = toDigit (gameAwayScore game);
                age = latestSeason - gameSeason game;
                recencyWeight = clamp (1.1 - jsInt age * 0.05) 0.35 1.1
            in (counts[homeDigit :=
                  (counts ! homeDigit)[awayDigit :=
                     counts ! homeDigit ! awayDigit + recencyWeight]],
                played + 1)))"

definition buildBaselineMatrix ::
  "GameRecord list \<Rightarrow> int \<Rightarrow> thrown + DigitProbabilityMatrix \<times> nat" where
  "buildBaselineMatrix games latestSeason =
     (let startSeason = max 1999 (latestSeason - 15);
          (counts, played) =
            foldl (baselineStep startSeason latestSeason)
              (replicate DIGIT_COUNT (replicate DIGIT_COUNT 1), 0) games
      in case normalizeMatrix_service counts of
           Inl e \<Rightarrow> Inl e
         | Inr matrix \<Rightarrow> Inr (matrix, played))"

text \<open>\<^verbatim>\<open>sort((a, b) => b.gameday.localeCompare(a.gameday))\<close>: a stable sort, latest game day
  first. The comparison is that of the code units, which is what \<^verbatim>\<open>localeCompare\<close> gives
  on the dates of the games file (\<^verbatim>\<open>2025-09-07\<close>).\<close>

fun textLess :: "string \<Rightarrow> string \<Rightarrow> bool" where
  "textLess [] [] = False"
| "textLess [] (b # bs) = True"
| "textLess (a # as) [] = False"
| "textLess (a # as) (b # bs) = (charCode a < charCode b \<or> (a = b \<and> textLess as bs))"

fun insertByGameday :: "GameRecord \<Rightarrow> GameRecord list \<Rightarrow> GameRecord list" where
  "insertByGameday game [] = [game]"
| "insertByGameday game (other # rest) =
     (if textLess (gameday other) (gameday game) then game # other # rest
      else other # insertByGameday game rest)"

definition sortByGamedayDescending :: "GameRecord list \<Rightarrow> GameRecord list" where
  "sortByGamedayDescending games = foldl (\<lambda>sorted game. insertByGameday game sorted) [] games"

definition buildTeamContext :: "GameRecord list \<Rightarrow> string \<Rightarrow> int \<Rightarrow> TeamContext option" where
  "buildTeamContext games code latestSeason =
     (let cutoffSeason = latestSeason - 6;
          teamGames =
            take 48 (sortByGamedayDescending
              (filter (\<lambda>game. gameSeason game \<ge> cutoffSeason
                         \<and> (homeTeam game = code \<or> awayTeam game = code)) games))
      in if length teamGames = 0 then None
         else
           (let (offenseCounts, defenseCounts, weightedPointsFor, weightedPointsAgainst, weightTotal) =
                  foldl (\<lambda>(offenseCounts, defenseCounts, weightedPointsFor, weightedPointsAgainst,
                            weightTotal) (game, index).
                           (let isHome = (homeTeam game = code);
                                pointsFor = (if isHome then gameHomeScore game else gameAwayScore game);
                                pointsAllowed =
                                  (if isHome then gameAwayScore game else gameHomeScore game)
                            in if pointsFor < 0 \<or> pointsAllowed < 0
                               then (offenseCounts, defenseCounts, weightedPointsFor,
                                     weightedPointsAgainst, weightTotal)
                               else
                                 (let recencyWeight = Math_exp (- jsInt (int index) / 18)
                                  in (offenseCounts[toDigit pointsFor :=
                                        offenseCounts ! toDigit pointsFor + recencyWeight],
                                      defenseCounts[toDigit pointsAllowed :=
                                        defenseCounts ! toDigit pointsAllowed + recencyWeight],
                                      weightedPointsFor + jsInt pointsFor * recencyWeight,
                                      weightedPointsAgainst + jsInt pointsAllowed * recencyWeight,
                                      weightTotal + recencyWeight))))
                    (replicate DIGIT_COUNT 1, replicate DIGIT_COUNT 1, 0, 0, 0)
                    (zip teamGames [0..<length teamGames])
            in if weightTotal \<le> 0 then None
               else Some \<lparr> offenseDigitDist = normalizeVector offenseCounts,
                           defenseDigitDist = normalizeVector defenseCounts,
                           avgPointsFor = weightedPointsFor / weightTotal,
                           avgPointsAllowed = weightedPointsAgainst / weightTotal,
                           sampleSize = length teamGames \<rparr>))"

definition weightedAverage :: "(jsnum option \<times> jsnum) list \<Rightarrow> jsnum \<Rightarrow> jsnum" where
  "weightedAverage parts fallback =
     (let (weightedSum, weightTotal) =
            foldl (\<lambda>(weightedSum, weightTotal) (part, weight).
                     case part of
                       None \<Rightarrow> (weightedSum, weightTotal)
                     | Some v \<Rightarrow>
                         (if \<not> isFinite v \<or> weight \<le> 0 then (weightedSum, weightTotal)
                          else (weightedSum + v * weight, weightTotal + weight)))
              (0, 0) parts
      in if weightTotal \<le> 0 then fallback else weightedSum / weightTotal)"

definition blendVectors :: "(jsnum list \<times> jsnum) list \<Rightarrow> jsnum list" where
  "blendVectors parts =
     (let (cells, weightTotal) =
            foldl (\<lambda>(cells, weightTotal) (values, weight).
                     if length values \<noteq> DIGIT_COUNT \<or> weight \<le> 0 then (cells, weightTotal)
                     else (map (\<lambda>i. cells ! i + values ! i * weight) [0..<DIGIT_COUNT],
                           weightTotal + weight))
              (replicate DIGIT_COUNT 0, 0) parts
      in if weightTotal \<le> 0 then createUniformDigitDist else normalizeVector cells)"

text \<open>\<^verbatim>\<open>blendMatrices\<close> of squareOddsService.ts reads \<^verbatim>\<open>part.matrix[r][c]\<close> for
  \<open>r, c < 10\<close>: a missing row throws.\<close>

definition blendMatrixStep ::
  "thrown + DigitProbabilityMatrix \<times> jsnum \<Rightarrow> DigitProbabilityMatrix \<times> jsnum
   \<Rightarrow> thrown + DigitProbabilityMatrix \<times> jsnum" where
  "blendMatrixStep state part =
     (let (matrix, weight) = part
      in case state of
           Inl e \<Rightarrow> Inl e
         | Inr (cells, weightTotal) \<Rightarrow>
             (if weight \<le> 0 then Inr (cells, weightTotal)
              else (case traverse
                           (\<lambda>r. traverse
                              (\<lambda>c. case readCell matrix r c of
                                      Inl e \<Rightarrow> Inl e
                                    | Inr v \<Rightarrow> Inr (cells ! r ! c + v * weight))
                              [0..<DIGIT_COUNT])
                           [0..<DIGIT_COUNT] of
                      Inl e \<Rightarrow> Inl e
                    | Inr cells' \<Rightarrow> Inr (cells', weightTotal + weight))))"

definition blendMatrices_service ::
  "(DigitProbabilityMatrix \<times> jsnum) list \<Rightarrow> thrown + DigitProbabilityMatrix" where
  "blendMatrices_service parts =
     (case foldl blendMatrixStep (Inr (createZeroMatrix, 0)) parts of
        Inl e \<Rightarrow> Inl e
      | Inr (cells, weightTotal) \<Rightarrow>
          (if weightTotal \<le> 0 then Inr createUniformDigitMatrix
           else normalizeMatrix_service cells))"

definition buildTeamDigitMatrix ::
  "TeamContext option \<Rightarrow> TeamContext option \<Rightarrow> SportsDbRecentForm option
   \<Rightarrow> SportsDbRecentForm option \<Rightarrow> thrown + DigitProbabilityMatrix" where
  "buildTeamDigitMatrix homeContext awayContext homeSportsDb awaySportsDb =
     (let homeDist = blendVectors
            [(case homeContext of Some context \<Rightarrow> offenseDigitDist context
                | None \<Rightarrow> createUniformDigitDist, 0.55),
             (case awayContext of Some context \<Rightarrow> defenseDigitDist context
                | None \<Rightarrow> createUniformDigitDist, 0.25),
             (case homeSportsDb of Some recent \<Rightarrow> recentOffenseDigitDist recent
                | None \<Rightarrow> createUniformDigitDist, 0.12),
             (case awaySportsDb of Some recent \<Rightarrow> recentDefenseDigitDist recent
                | None \<Rightarrow> createUniformDigitDist, 0.08)];
          awayDist = blendVectors
            [(case awayContext of Some context \<Rightarrow> offenseDigitDist context
                | None \<Rightarrow> createUniformDigitDist, 0.55),
             (case homeContext of Some context \<Rightarrow> defenseDigitDist context
                | None \<Rightarrow> createUniformDigitDist, 0.25),
             (case awaySportsDb of Some recent \<Rightarrow> recentOffenseDigitDist recent
                | None \<Rightarrow> createUniformDigitDist, 0.12),
             (case homeSportsDb of Some recent \<Rightarrow> recentDefenseDigitDist recent
                | None \<Rightarrow> createUniformDigitDist, 0.08)]
      in outerProduct homeDist awayDist)"

definition calculateTeamMarketImpliedProb ::
  "MoneylineRecord list \<Rightarrow> string \<Rightarrow> int \<Rightarrow> jsnum option" where
  "calculateTeamMarketImpliedProb moneylines code latestSeason =
     (let recentRows =
            filter (\<lambda>entry. side entry = code \<and> season entry \<ge> jsInt (latestSeason - 8))
              moneylines
      in if length recentRows = 0 then None
         else
           (let (weightedSum, weightTotal) =
                  foldl (\<lambda>(weightedSum, weightTotal) entry.
                           (let weight =
                                  clamp (1 + (season entry - jsInt (latestSeason - 8)) * 0.12) 0.4 2.2
                            in (weightedSum + impliedProbability entry * weight,
                                weightTotal + weight)))
                    (0, 0) recentRows
            in if weightTotal \<le> 0 then None else Some (weightedSum / weightTotal)))"

text \<open>\<^verbatim>\<open>stats?.field ?? 0\<close>.\<close>

definition statOrZero :: "EspnTeamStats option \<Rightarrow> (EspnTeamStats \<Rightarrow> jsnum option) \<Rightarrow> jsnum" where
  "statOrZero stats field =
     (case stats of
        None \<Rightarrow> 0
      | Some s \<Rightarrow> (case field s of None \<Rightarrow> 0 | Some v \<Rightarrow> v))"

definition estimateExpectedPoints ::
  "TeamContext option \<Rightarrow> TeamContext option \<Rightarrow> EspnTeamStats option \<Rightarrow> EspnTeamStats option
   \<Rightarrow> SportsDbRecentForm option \<Rightarrow> jsnum \<Rightarrow> jsnum" where
  "estimateExpectedPoints teamContext opponentContext teamEspn opponentEspn teamSportsDb leagueAvg =
     (let expected0 = weightedAverage
            [(map_option avgPointsFor teamContext, 0.42),
             (map_option avgPointsAllowed opponentContext, 0.28),
             (Option.bind teamEspn pointsPerGame, 0.15),
             (map_option avgScored teamSportsDb, 0.10),
             (Some leagueAvg, 0.05)]
            leagueAvg;
          thirdDownEdge =
            (statOrZero teamEspn thirdDownPct - statOrZero opponentEspn thirdDownPct) / 100;
          expected1 = expected0 + thirdDownEdge * 2.2;
          redZoneEdge = (statOrZero teamEspn redZonePct - statOrZero opponentEspn redZonePct) / 100;
          expected2 = expected1 + redZoneEdge * 1.6;
          turnoverEdge = statOrZero teamEspn turnoverDiff - statOrZero opponentEspn turnoverDiff;
          expected3 = expected2 + turnoverEdge * 0.12;
          expected =
            (case (teamSportsDb, teamContext) of
               (Some recent, Some context) \<Rightarrow>
                 expected3 + (avgScored recent - avgPointsFor context) * 0.12
             | other \<Rightarrow> expected3)
      in clamp expected 10 45)"

text \<open>What \<^verbatim>\<open>buildSquareOdds\<close> calls outside itself, over a state \<open>'w\<close> of the world (the
  network, the browser's storage, the module's caches of promises, the clock): reading and
  writing the cache, reading the time, and the five sources. Each returns the world after
  it. \<^verbatim>\<open>readCachedEntry\<close> and \<^verbatim>\<open>writeCachedEntry\<close> can throw; \<^verbatim>\<open>loadGames\<close>,
  \<^verbatim>\<open>loadClosingMoneylines\<close> and \<^verbatim>\<open>getEspnTeams\<close> are promises that can reject (a failed
  request, a bad status, a file without the columns); \<^verbatim>\<open>getEspnTeamStats\<close> and
  \<^verbatim>\<open>getSportsDbRecentForm\<close> end in \<^verbatim>\<open>.catch(() => null)\<close>, so their promises never reject:
  a failure is the value \<^verbatim>\<open>null\<close>. \<open>espnTeamsRejectFirst\<close> tells, when the two requests of
  the first \<^verbatim>\<open>Promise.all\<close> both fail, whether the ESPN one fails first (the two
  \<^verbatim>\<open>catch\<close> handlers push their warnings in the order of the failures).\<close>

record 'w Environment =
  readCachedEntry :: "string \<Rightarrow> 'w \<Rightarrow> (thrown + CachedDigitModel option) \<times> 'w"
  writeCachedEntry :: "string \<Rightarrow> CachedDigitModel \<Rightarrow> 'w \<Rightarrow> (thrown + unit) \<times> 'w"
  currentTime :: "'w \<Rightarrow> string"
  loadGames :: "'w \<Rightarrow> (thrown + GameRecord list) \<times> 'w"
  loadClosingMoneylines :: "'w \<Rightarrow> (thrown + MoneylineRecord list) \<times> 'w"
  getEspnTeams :: "'w \<Rightarrow> (thrown + (string \<Rightarrow> EspnTeamDescriptor option)) \<times> 'w"
  espnTeamsRejectFirst :: "'w \<Rightarrow> bool"
  getEspnTeamStats :: "string \<Rightarrow> 'w \<Rightarrow> EspnTeamStats option \<times> 'w"
  getSportsDbRecentForm :: "string \<Rightarrow> string list \<Rightarrow> 'w \<Rightarrow> SportsDbRecentForm option \<times> 'w"

definition MODEL_CACHE_PREFIX :: string where
  "MODEL_CACHE_PREFIX = ''sb-lx-smart-odds-model-v1''"

text \<open>The names \<^verbatim>\<open>buildSmartDigitModel\<close> searches the recent-form feed for: the three names
  of the ESPN descriptor and the team's name, without the empty ones and without
  repetition (a \<^verbatim>\<open>Set\<close> keeps the order of first insertion).\<close>

definition displayCandidates ::
  "(string \<Rightarrow> EspnTeamDescriptor option) \<Rightarrow> string \<Rightarrow> string list" where
  "displayCandidates espnTeams code =
     (let descriptors = espnTeams code;
          nick = (case find (\<lambda>team. teamId team = code) NFL_TEAMS of
                    Some team \<Rightarrow> teamName team
                  | None \<Rightarrow> code);
          candidates =
            List.map_filter
              (\<lambda>candidate. case candidate of
                               None \<Rightarrow> None
                             | Some v \<Rightarrow> (if v \<noteq> [] \<and> trim v \<noteq> [] then Some v else None))
              [map_option displayName descriptors,
               map_option shortDisplayName descriptors,
               map_option nickname descriptors,
               Some nick]
      in foldl (\<lambda>kept v. if v \<in> set kept then kept else kept @ [v]) [] candidates)"

text \<open>The numbers of \<^verbatim>\<open>buildSmartDigitModel\<close>, computed after the last \<^verbatim>\<open>await\<close> from what
  the sources delivered: the digit matrix and the two expected points.\<close>

definition smartModelNumbers ::
  "DigitProbabilityMatrix \<Rightarrow> TeamContext option \<Rightarrow> TeamContext option \<Rightarrow> jsnum \<Rightarrow> int
   \<Rightarrow> string \<Rightarrow> string \<Rightarrow> MoneylineRecord list \<Rightarrow> EspnTeamStats option \<Rightarrow> EspnTeamStats option
   \<Rightarrow> SportsDbRecentForm option \<Rightarrow> SportsDbRecentForm option
   \<Rightarrow> thrown + DigitProbabilityMatrix \<times> jsnum \<times> jsnum" where
  "smartModelNumbers baselineMatrix homeContext awayContext leagueAvgPoints latestSeason
      homeCode awayCode moneylines homeEspnStats awayEspnStats homeSportsDbRecent
      awaySportsDbRecent =
     (let homeMarketProb = calculateTeamMarketImpliedProb moneylines homeCode latestSeason;
          awayMarketProb = calculateTeamMarketImpliedProb moneylines awayCode latestSeason
      in case buildTeamDigitMatrix homeContext awayContext homeSportsDbRecent
                awaySportsDbRecent of
           Inl e \<Rightarrow> Inl e
         | Inr teamMatrix \<Rightarrow>
        (let homePoints0 = estimateExpectedPoints homeContext awayContext homeEspnStats
               awayEspnStats homeSportsDbRecent leagueAvgPoints;
             awayPoints0 = estimateExpectedPoints awayContext homeContext awayEspnStats
               homeEspnStats awaySportsDbRecent leagueAvgPoints;
             (homePoints, awayPoints) =
               (case (homeMarketProb, awayMarketProb) of
                  (Some homeProb, Some awayProb) \<Rightarrow>
                    (let marketEdge = homeProb - awayProb
                     in (clamp (homePoints0 + marketEdge * 4.5) 10 45,
                         clamp (awayPoints0 - marketEdge * 4.5) 10 45))
                | other \<Rightarrow> (homePoints0, awayPoints0))
         in case buildSimulationMatrix_service homePoints awayPoints of
              Inl e \<Rightarrow> Inl e
            | Inr simulationMatrix \<Rightarrow>
           (let noStats = (homeEspnStats = None \<and> awayEspnStats = None);
                noRecent = (homeSportsDbRecent = None \<and> awaySportsDbRecent = None);
                noMarket = (homeMarketProb = None \<or> awayMarketProb = None);
                baselineWeight0 = (if noStats then 0.45 + 0.05 else 0.45);
                simWeight0 = (if noStats then 0.2 - 0.05 else 0.2);
                baselineWeight1 = (if noRecent then baselineWeight0 + 0.03 else baselineWeight0);
                teamWeight1 = (if noRecent then 0.35 - 0.03 else 0.35);
                baselineWeight2 = (if noMarket then baselineWeight1 + 0.02 else baselineWeight1);
                simWeight2 = (if noMarket then simWeight0 - 0.02 else simWeight0);
                baselineWeight = clamp baselineWeight2 0.3 0.7;
                teamWeight = clamp teamWeight1 0.15 0.45;
                simWeight = clamp simWeight2 0.08 0.35;
                weightTotal = baselineWeight + teamWeight + simWeight
            in case blendMatrices_service
                      [(baselineMatrix, baselineWeight / weightTotal),
                       (teamMatrix, teamWeight / weightTotal),
                       (simulationMatrix, simWeight / weightTotal)] of
                 Inl e \<Rightarrow> Inl e
               | Inr digits \<Rightarrow> Inr (digits, homePoints, awayPoints))))"

text \<open>\<^verbatim>\<open>buildSmartDigitModel\<close>. When the games cannot be loaded it returns the baseline
  simulation with one warning; otherwise every other source that fails adds its warning
  (the ESPN team stats and the recent form only when they fail for both teams) and the
  model is built from what there is.\<close>

definition buildSmartDigitModel ::
  "'w Environment \<Rightarrow> string \<Rightarrow> string \<Rightarrow> 'w \<Rightarrow> (thrown + CachedDigitModel) \<times> 'w" where
  "buildSmartDigitModel env homeCode awayCode w0 =
     (case loadGames env w0 of
        (Inl error, w1) \<Rightarrow>
          (case buildSimulationMatrix_service 23 21 of
             Inl e \<Rightarrow> (Inl e, w1)
           | Inr fallbackDigitProbabilities \<Rightarrow>
               (Inr \<lparr> digitProbabilities = fallbackDigitProbabilities,
                      generatedAt = currentTime env w1,
                      sourceMode = baseline,
                      sourcesUsed = [fallback_model],
                      warnings =
                        [''Unable to load NFL historical games dataset. Falling back to baseline simulation only.''],
                      expectedHomePoints = 23,
                      expectedAwayPoints = 21 \<rparr>, w1))
      | (Inr games, w1) \<Rightarrow>
          (let latestSeason = getLatestSeason games;
               leagueAvgPoints = calculateLeagueAveragePoints games latestSeason
           in case buildBaselineMatrix games latestSeason of
                Inl e \<Rightarrow> (Inl e, w1)
              | Inr (baselineMatrix, baselineSampleSize) \<Rightarrow>
             (let homeContext = buildTeamContext games homeCode latestSeason;
                  awayContext = buildTeamContext games awayCode latestSeason;
                  historyWarning =
                    (if homeContext = None \<or> awayContext = None
                     then [''Limited team history found for one or both teams. Probabilities rely more heavily on league baseline.'']
                     else []);
                  (moneylineResult, w2) = loadClosingMoneylines env w1;
                  (espnTeamsResult, w3) = getEspnTeams env w2;
                  moneylines = (case moneylineResult of Inl e \<Rightarrow> [] | Inr rows \<Rightarrow> rows);
                  espnTeams = (case espnTeamsResult of Inl e \<Rightarrow> (\<lambda>code. None) | Inr teams \<Rightarrow> teams);
                  moneylineWarning =
                    (case moneylineResult of
                       Inl e \<Rightarrow> [''Moneyline data could not be loaded. Market adjustments disabled.'']
                     | Inr rows \<Rightarrow> []);
                  espnTeamsWarning =
                    (case espnTeamsResult of
                       Inl e \<Rightarrow> [''ESPN team metadata unavailable. Team-level API stats reduced.'']
                     | Inr teams \<Rightarrow> []);
                  marketSource =
                    (case moneylineResult of Inl e \<Rightarrow> [] | Inr rows \<Rightarrow> [nflverse_closing_lines]);
                  homeDisplayCandidates = displayCandidates espnTeams homeCode;
                  awayDisplayCandidates = displayCandidates espnTeams awayCode;
                  (homeEspnStats, w4) = getEspnTeamStats env homeCode w3;
                  (awayEspnStats, w5) = getEspnTeamStats env awayCode w4;
                  (homeSportsDbRecent, w6) =
                    getSportsDbRecentForm env homeCode homeDisplayCandidates w5;
                  (awaySportsDbRecent, w7) =
                    getSportsDbRecentForm env awayCode awayDisplayCandidates w6;
                  haveStats = (homeEspnStats \<noteq> None \<or> awayEspnStats \<noteq> None);
                  haveRecent = (homeSportsDbRecent \<noteq> None \<or> awaySportsDbRecent \<noteq> None);
                  warningList =
                    historyWarning
                      @ (if espnTeamsRejectFirst env w3 then espnTeamsWarning @ moneylineWarning
                         else moneylineWarning @ espnTeamsWarning)
                      @ (if haveStats then []
                         else [''ESPN team stats unavailable. Expected-points model uses historical-only inputs.''])
                      @ (if haveRecent then []
                         else [''Recent form feed unavailable. Team trend model uses historical games only.'']);
                  sources =
                    [nflverse_games] @ marketSource
                      @ (if haveStats then [espn_team_stats] else [])
                      @ (if haveRecent then [thesportsdb_recent_form] else [])
              in case smartModelNumbers baselineMatrix homeContext awayContext leagueAvgPoints
                        latestSeason homeCode awayCode moneylines homeEspnStats awayEspnStats
                        homeSportsDbRecent awaySportsDbRecent of
                   Inl e \<Rightarrow> (Inl e, w7)
                 | Inr (digits, homePoints, awayPoints) \<Rightarrow>
                     (Inr \<lparr> digitProbabilities = digits,
                            generatedAt = currentTime env w7,
                            sourceMode = (if length sources \<ge> 3 then full else baseline),
                            sourcesUsed = sources,
                            warnings = warningList,
                            expectedHomePoints = homePoints,
                            expectedAwayPoints = awayPoints \<rparr>, w7))))"

section \<open>squareOddsService.ts: buildSquareOdds\<close>

record BuildSquareOddsInput =
  inputHomeTeamName :: string
  inputAwayTeamName :: string
  inputRowLabels :: "jsnum list"
  inputColLabels :: "jsnum list"

text \<open>The result built from a model (cached or computed) and the caller's labels.\<close>

definition resultOfModel ::
  "CachedDigitModel \<Rightarrow> jsnum list \<Rightarrow> jsnum list \<Rightarrow> thrown + SquareOddsComputationResult" where
  "resultOfModel model rows cols =
     (case mapDigitMatrixToBoard_service (digitProbabilities model) rows cols of
        Inl e \<Rightarrow> Inl e
      | Inr board \<Rightarrow>
          Inr \<lparr> digitProbabilities = digitProbabilities model,
                generatedAt = generatedAt model,
                sourceMode = sourceMode model,
                sourcesUsed = sourcesUsed model,
                warnings = warnings model,
                expectedHomePoints = expectedHomePoints model,
                expectedAwayPoints = expectedAwayPoints model,
                boardPercentages = finalizeBoardPercentages board \<rparr>)"

text \<open>The body of the \<^verbatim>\<open>try\<close> block.\<close>

definition tryBuildSquareOdds ::
  "'w Environment \<Rightarrow> BuildSquareOddsInput \<Rightarrow> string \<Rightarrow> string \<Rightarrow> 'w
   \<Rightarrow> (thrown + SquareOddsComputationResult) \<times> 'w" where
  "tryBuildSquareOdds env inp homeCode awayCode w0 =
     (let cacheKey = MODEL_CACHE_PREFIX @ '':'' @ homeCode @ '':'' @ awayCode
      in case readCachedEntry env cacheKey w0 of
           (Inl e, w1) \<Rightarrow> (Inl e, w1)
         | (Inr (Some cached), w1) \<Rightarrow>
             (resultOfModel cached (inputRowLabels inp) (inputColLabels inp), w1)
         | (Inr None, w1) \<Rightarrow>
             (case buildSmartDigitModel env homeCode awayCode w1 of
                (Inl e, w2) \<Rightarrow> (Inl e, w2)
              | (Inr computed, w2) \<Rightarrow>
                  (case writeCachedEntry env cacheKey computed w2 of
                     (Inl e, w3) \<Rightarrow> (Inl e, w3)
                   | (Inr u, w3) \<Rightarrow>
                       (resultOfModel computed (inputRowLabels inp) (inputColLabels inp), w3))))"

definition buildSquareOdds ::
  "'w Environment \<Rightarrow> BuildSquareOddsInput \<Rightarrow> 'w \<Rightarrow> (thrown + SquareOddsComputationResult) \<times> 'w" where
  "buildSquareOdds env inp w0 =
     (case resolveTeamCode (inputHomeTeamName inp) of
        Inl e \<Rightarrow> (Inl e, w0)
      | Inr homeCode \<Rightarrow>
     (case resolveTeamCode (inputAwayTeamName inp) of
        Inl e \<Rightarrow> (Inl e, w0)
      | Inr awayCode \<Rightarrow>
     (case tryBuildSquareOdds env inp homeCode awayCode w0 of
        (Inr result, w1) \<Rightarrow> (Inr result, w1)
      | (Inl error, w1) \<Rightarrow>
          (case buildFallbackModel (inputRowLabels inp) (inputColLabels inp) (currentTime env w1) of
             Inl e \<Rightarrow> (Inl e, w1)
           | Inr fallback \<Rightarrow>
               (case errorMessage error of
                  Some message \<Rightarrow> (Inr (fallback\<lparr> warnings := warnings fallback @ [message] \<rparr>), w1)
                | None \<Rightarrow> (Inr fallback, w1))))))"

text \<open>Example worlds for the concrete checks. The world is the number of requests sent to
  the network; the cache is empty and writing it succeeds. In \<open>exampleEnvironment\<close> every
  request fails (\<^verbatim>\<open>fetch\<close> rejects with a \<^verbatim>\<open>TypeError\<close>).\<close>

definition exampleEnvironment :: "nat Environment" where
  "exampleEnvironment =
     \<lparr> readCachedEntry = (\<lambda>key w. (Inr None, w)),
       writeCachedEntry = (\<lambda>key model w. (Inr (), w)),
       currentTime = (\<lambda>w. ''2026-02-08T20:00:00.000Z''),
       loadGames = (\<lambda>w. (Inl (TypeError ''Failed to fetch''), w + 1)),
       loadClosingMoneylines = (\<lambda>w. (Inl (TypeError ''Failed to fetch''), w + 1)),
       getEspnTeams = (\<lambda>w. (Inl (TypeError ''Failed to fetch''), w + 1)),
       espnTeamsRejectFirst = (\<lambda>w. False),
       getEspnTeamStats = (\<lambda>code w. (None, w + 1)),
       getSportsDbRecentForm = (\<lambda>code names w. (None, w + 1)) \<rparr>"

text \<open>In \<open>homeStatsFailEnvironment\<close> every source answers but the ESPN statistics of the
  Seahawks: one game in the games file, no moneylines, the two teams' descriptors, the
  statistics of the Patriots and a recent form for both teams.\<close>

definition exampleGames :: "GameRecord list" where
  "exampleGames =
     [\<lparr> gameSeason = 2025, gameday = ''2026-02-08'', awayTeam = ''NE'', gameAwayScore = 13,
        homeTeam = ''SEA'', gameHomeScore = 29, totalLine = Some 45.5, spreadLine = Some 4.5 \<rparr>]"

definition exampleDescriptors :: "string \<Rightarrow> EspnTeamDescriptor option" where
  "exampleDescriptors code =
     (if code = ''SEA''
      then Some \<lparr> descriptorId = ''26'', teamAbbreviation = ''SEA'',
                  displayName = ''Seattle Seahawks'', shortDisplayName = ''Seahawks'',
                  nickname = ''Seahawks'' \<rparr>
      else if code = ''NE''
      then Some \<lparr> descriptorId = ''17'', teamAbbreviation = ''NE'',
                  displayName = ''New England Patriots'', shortDisplayName = ''Patriots'',
                  nickname = ''Patriots'' \<rparr>
      else None)"

definition exampleStats :: EspnTeamStats where
  "exampleStats =
     \<lparr> pointsPerGame = Some 28.8, thirdDownPct = Some 42.9, redZonePct = Some 57.1,
       turnoverDiff = Some 3 \<rparr>"

definition exampleRecentForm :: SportsDbRecentForm where
  "exampleRecentForm =
     \<lparr> avgScored = 27, avgAllowed = 18,
       recentOffenseDigitDist = replicate 10 (1 / 10),
       recentDefenseDigitDist = replicate 10 (1 / 10),
       recentSampleSize = 5 \<rparr>"

definition homeStatsFailEnvironment :: "nat Environment" where
  "homeStatsFailEnvironment =
     \<lparr> readCachedEntry = (\<lambda>key w. (Inr None, w)),
       writeCachedEntry = (\<lambda>key model w. (Inr (), w)),
       currentTime = (\<lambda>w. ''2026-02-08T20:00:00.000Z''),
       loadGames = (\<lambda>w. (Inr exampleGames, w + 1)),
       loadClosingMoneylines = (\<lambda>w. (Inr [], w + 1)),
       getEspnTeams = (\<lambda>w. (Inr exampleDescriptors, w + 1)),
       espnTeamsRejectFirst = (\<lambda>w. False),
       getEspnTeamStats = (\<lambda>code w. (if code = ''SEA'' then None else Some exampleStats, w + 1)),
       getSportsDbRecentForm = (\<lambda>code names w. (Some exampleRecentForm, w + 1)) \<rparr>"

lemma numeral_jsnum: "(numeral n :: jsnum) = Fin (numeral n)"
proof (induction n)
  case One
  show ?case by (simp only: numeral_One one_jsnum_def)
next
  case (Bit0 n)
  have "(numeral (Num.Bit0 n) :: jsnum) = Fin (numeral n) + Fin (numeral n)"
    by (simp only: numeral_Bit0 Bit0.IH)
  also have "\<dots> = Fin (numeral (Num.Bit0 n))"
    by (simp only: plus_jsnum.simps numeral_Bit0)
  finally show ?case .
next
  case (Bit1 n)
  have "(numeral (Num.Bit1 n) :: jsnum) = Fin (numeral n) + Fin (numeral n) + Fin 1"
    by (simp only: numeral_Bit1 Bit1.IH one_jsnum_def)
  also have "\<dots> = Fin (numeral (Num.Bit1 n))"
    by (simp only: plus_jsnum.simps numeral_Bit1)
  finally show ?case .
qed

lemma Fin_power: "Fin a ^ n = Fin (a ^ n)"
  by (induction n) (simp_all add: one_jsnum_def)

lemmas jsnum_consts = zero_jsnum_def one_jsnum_def numeral_jsnum Fin_power jsInt_def

lemma clamp_Fin: "clamp (Fin v) (Fin lo) (Fin hi) = Fin (min hi (max lo v))"
  by (simp add: clamp_def max_def min_def)

section \<open>The realtime engine: results, labels and determinism\<close>

lemma jsRem_nonneg: "0 \<le> a \<Longrightarrow> jsRem a 10 = a mod 10"
  by (cases "a = 0") (simp_all add: jsRem_def)

lemma jsRem_neg: "a < 0 \<Longrightarrow> jsRem a 10 = - ((- a) mod 10)"
  by (simp add: jsRem_def)

lemma jsRem_twice: "jsRem (jsRem h 10 + 10) 10 = h mod 10"
proof (cases "0 \<le> h")
  case True
  have "0 \<le> h mod 10 + 10" by (smt (verit) pos_mod_sign)
  then have "jsRem (h mod 10 + 10) 10 = (h mod 10 + 10) mod 10" by (rule jsRem_nonneg)
  then show ?thesis using True by (simp add: jsRem_nonneg)
next
  case False
  define k where "k = (- h) mod 10"
  have k: "0 \<le> k" "k < 10" by (simp_all add: k_def)
  have "jsRem h 10 = - k" using False by (simp add: jsRem_neg k_def)
  moreover have "jsRem (- k + 10) 10 = (- k + 10) mod 10" using k by (intro jsRem_nonneg) simp
  moreover have "(- k + 10) mod 10 = (- k) mod 10" by simp
  moreover have "(- k) mod 10 = h mod 10"
    unfolding k_def using mod_minus_eq [of "- h" 10] by simp
  ultimately show ?thesis by simp
qed

lemma createZeroMatrix_shape:
  "length createZeroMatrix = 10" "i < 10 \<Longrightarrow> length (createZeroMatrix ! i) = 10"
  "i < 10 \<Longrightarrow> j < 10 \<Longrightarrow> createZeroMatrix ! i ! j = 0"
  by (simp_all add: createZeroMatrix_def DIGIT_COUNT_def)

lemma buildDeterministicFinalMatrix_cells:
  "length (buildDeterministicFinalMatrix h a) = 10"
  "i < 10 \<Longrightarrow> length (buildDeterministicFinalMatrix h a ! i) = 10"
  "i < 10 \<Longrightarrow> j < 10 \<Longrightarrow>
     buildDeterministicFinalMatrix h a ! i ! j =
       (if i = nat (h mod 10) \<and> j = nat (a mod 10) then 1 else 0)"
proof -
  have hd: "nat (h mod 10) < 10" and ad: "nat (a mod 10) < 10" by simp_all
  show "length (buildDeterministicFinalMatrix h a) = 10"
    by (simp add: buildDeterministicFinalMatrix_def Let_def createZeroMatrix_shape)
  show "length (buildDeterministicFinalMatrix h a ! i) = 10" if "i < 10"
    using that hd
    by (simp add: buildDeterministicFinalMatrix_def Let_def jsRem_twice createZeroMatrix_shape
        nth_list_update)
  show "buildDeterministicFinalMatrix h a ! i ! j =
       (if i = nat (h mod 10) \<and> j = nat (a mod 10) then 1 else 0)" if "i < 10" "j < 10"
    using that hd ad
    by (simp add: buildDeterministicFinalMatrix_def Let_def jsRem_twice createZeroMatrix_shape
        nth_list_update)
qed


lemma traverse_Inr_iff:
  "(traverse f xs = Inr ys) = (length ys = length xs \<and> (\<forall>i<length xs. f (xs ! i) = Inr (ys ! i)))"
proof (induction xs arbitrary: ys)
  case Nil
  then show ?case by auto
next
  case (Cons x xs)
  show ?case
  proof (cases ys)
    case Nil
    then show ?thesis by (auto split: sum.splits)
  next
    case (Cons y ys')
    then show ?thesis
      using Cons.IH [of ys'] by (auto split: sum.splits simp: less_Suc_eq_0_disj)
  qed
qed

lemma traverse_total:
  "(\<And>x. x \<in> set xs \<Longrightarrow> \<exists>y. f x = Inr y) \<Longrightarrow> \<exists>ys. traverse f xs = Inr ys"
proof (induction xs)
  case Nil
  then show ?case by simp
next
  case (Cons x xs)
  then obtain y ys where "f x = Inr y" "traverse f xs = Inr ys" by (metis list.set_intros)
  then show ?case by simp
qed

lemma traverse_Inr_all:
  "traverse f xs = Inr ys \<Longrightarrow> x \<in> set xs \<Longrightarrow> \<exists>y. f x = Inr y"
  by (metis in_set_conv_nth traverse_Inr_iff)

lemma traverse_length: "traverse f xs = Inr ys \<Longrightarrow> length ys = length xs"
  by (simp add: traverse_Inr_iff)

lemma mapDigitMatrixToBoardWith_valid:
  assumes "mapDigitMatrixToBoardWith m1 m2 m3 digits rows cols = Inr board"
  shows "validLabels rows cols"
proof -
  have len: "length rows = 10" "length cols = 10"
    using assms by (auto simp: mapDigitMatrixToBoardWith_def DIGIT_COUNT_def split: if_splits)
  let ?inner = "\<lambda>rowDigit. traverse
             (\<lambda>colDigit.
                if \<not> isInteger colDigit \<or> colDigit < 0 \<or> colDigit > 9
                then Inl (Error m3)
                else (case readCell digits (labelIndex rowDigit) (labelIndex colDigit) of
                        Inl e \<Rightarrow> Inl e
                      | Inr value \<Rightarrow> Inr (value * 100)))
             cols"
  have tr: "traverse (\<lambda>rowDigit.
           if \<not> isInteger rowDigit \<or> rowDigit < 0 \<or> rowDigit > 9 then Inl (Error m2)
           else ?inner rowDigit) rows = Inr board"
    using assms len by (simp add: mapDigitMatrixToBoardWith_def DIGIT_COUNT_def)
  have rowsOk: "validLabel r \<and> (\<exists>y. ?inner r = Inr y)" if "r \<in> set rows" for r
    using traverse_Inr_all [OF tr that] by (auto simp: validLabel_def split: if_splits)
  obtain r0 where r0: "r0 \<in> set rows" using len(1) by (cases rows) auto
  then obtain y where y: "?inner r0 = Inr y" using rowsOk by blast
  have colsOk: "validLabel c" if "c \<in> set cols" for c
    using traverse_Inr_all [OF y that] by (auto simp: validLabel_def split: if_splits)
  show ?thesis
    using len rowsOk colsOk by (auto simp: validLabels_def list_all_iff)
qed

lemma readCell_total: "r < length m \<Longrightarrow> \<exists>v. readCell m r c = Inr v"
  by (simp add: readCell_def)

lemma validLabel_index: "validLabel d \<Longrightarrow> labelIndex d < 10"
proof (cases d)
  case (Fin a)
  assume "validLabel d"
  then have "a = of_int \<lfloor>a\<rfloor>" "0 \<le> a" "a \<le> 9"
    using Fin by (auto simp: validLabel_def jsnum_consts)
  then have "\<lfloor>a\<rfloor> < 10" by linarith
  then have "nat \<lfloor>a\<rfloor> < 10" by linarith
  then show ?thesis using Fin by (simp only: labelIndex.simps)
qed (auto simp: validLabel_def)

lemma mapDigitMatrixToBoardWith_total:
  assumes "validLabels rows cols" and "10 \<le> length digits"
  shows "\<exists>board. mapDigitMatrixToBoardWith m1 m2 m3 digits rows cols = Inr board"
proof -
  have len: "length rows = 10" "length cols = 10"
    and rv: "\<And>r. r \<in> set rows \<Longrightarrow> validLabel r" and cv: "\<And>c. c \<in> set cols \<Longrightarrow> validLabel c"
    using assms(1) by (auto simp: validLabels_def list_all_iff)
  have inner: "\<exists>y. traverse
             (\<lambda>colDigit.
                if \<not> isInteger colDigit \<or> colDigit < 0 \<or> colDigit > 9
                then Inl (Error m3)
                else (case readCell digits (labelIndex r) (labelIndex colDigit) of
                        Inl e \<Rightarrow> Inl e
                      | Inr value \<Rightarrow> Inr (value * 100)))
             cols = Inr y" if "r \<in> set rows" for r
  proof (rule traverse_total)
    fix c assume "c \<in> set cols"
    then have c: "validLabel c" by (rule cv)
    have "labelIndex r < length digits" using validLabel_index [OF rv [OF that]] assms(2) by simp
    then obtain v where "readCell digits (labelIndex r) (labelIndex c) = Inr v"
      using readCell_total by blast
    then show "\<exists>y. (if \<not> isInteger c \<or> c < 0 \<or> c > 9
                then Inl (Error m3)
                else (case readCell digits (labelIndex r) (labelIndex c) of
                        Inl e \<Rightarrow> Inl e
                      | Inr value \<Rightarrow> Inr (value * 100))) = Inr y"
      using c by (simp add: validLabel_def)
  qed
  have "\<exists>board. traverse (\<lambda>rowDigit.
           if \<not> isInteger rowDigit \<or> rowDigit < 0 \<or> rowDigit > 9 then Inl (Error m2)
           else traverse
             (\<lambda>colDigit.
                if \<not> isInteger colDigit \<or> colDigit < 0 \<or> colDigit > 9
                then Inl (Error m3)
                else (case readCell digits (labelIndex rowDigit) (labelIndex colDigit) of
                        Inl e \<Rightarrow> Inl e
                      | Inr value \<Rightarrow> Inr (value * 100)))
             cols) rows = Inr board"
  proof (rule traverse_total)
    fix r assume r: "r \<in> set rows"
    show "\<exists>y. (if \<not> isInteger r \<or> r < 0 \<or> r > 9 then Inl (Error m2)
           else traverse
             (\<lambda>colDigit.
                if \<not> isInteger colDigit \<or> colDigit < 0 \<or> colDigit > 9
                then Inl (Error m3)
                else (case readCell digits (labelIndex r) (labelIndex colDigit) of
                        Inl e \<Rightarrow> Inl e
                      | Inr value \<Rightarrow> Inr (value * 100)))
             cols) = Inr y"
      using rv [OF r] inner [OF r] by (simp add: validLabel_def)
  qed
  then show ?thesis using len by (simp add: mapDigitMatrixToBoardWith_def DIGIT_COUNT_def)
qed


lemma normalizeMatrix_length: "length m = 10 \<Longrightarrow> length (normalizeMatrix m) = 10"
  by (simp add: normalizeMatrix_def Let_def DIGIT_COUNT_def)

lemma blendMatrices_total:
  assumes "10 \<le> length base" and "10 \<le> length live"
  shows "\<exists>digits. blendMatrices base live w = Inr digits \<and> length digits = 10"
proof -
  let ?cell = "\<lambda>r c. case readCell base r c of
                           Inl e \<Rightarrow> Inl e
                         | Inr b \<Rightarrow>
                             (case readCell live r c of
                                Inl e \<Rightarrow> Inl e
                              | Inr l \<Rightarrow> Inr (b * (1 - clamp w 0 1) + l * clamp w 0 1))"
  have row: "\<exists>y. traverse (?cell r) [0..<DIGIT_COUNT] = Inr y" if "r < 10" for r
  proof (rule traverse_total)
    fix c
    have "r < length base" "r < length live" using that assms by linarith+
    then obtain b l where "readCell base r c = Inr b" "readCell live r c = Inr l"
      using readCell_total by blast
    then show "\<exists>y. ?cell r c = Inr y" by simp
  qed
  have "\<exists>output. traverse (\<lambda>r. traverse (?cell r) [0..<DIGIT_COUNT]) [0..<DIGIT_COUNT] = Inr output"
  proof (rule traverse_total)
    fix r assume "r \<in> set [0..<DIGIT_COUNT]"
    then have "r < 10" by (simp add: DIGIT_COUNT_def del: upt_rec_numeral)
    then show "\<exists>y. traverse (?cell r) [0..<DIGIT_COUNT] = Inr y" by (rule row)
  qed
  then obtain cells
    where out: "traverse (\<lambda>r. traverse (?cell r) [0..<DIGIT_COUNT]) [0..<DIGIT_COUNT] = Inr cells"
    by blast
  have "length cells = length [0..<DIGIT_COUNT]" using out by (rule traverse_length)
  then have len: "length cells = 10" by (simp add: DIGIT_COUNT_def del: upt_rec_numeral)
  have "blendMatrices base live w = Inr (normalizeMatrix cells)"
    unfolding blendMatrices_def Let_def out by simp
  then show ?thesis using normalizeMatrix_length [OF len] by simp
qed

lemma liveEstimate_final:
  assumes "status (snapshot inp) = final \<or> status (snapshot inp) = postponed"
  shows "liveEstimate inp fv =
     Inr \<lparr> liveDigitMatrix =
             buildDeterministicFinalMatrix (homeScore (snapshot inp)) (awayScore (snapshot inp)),
           liveBlendWeight = 1, expectedHomeAdditional = 0, expectedAwayAdditional = 0 \<rparr>"
  using assms by (auto simp: liveEstimate_def)

text \<open>What a returned result holds, whatever the path.\<close>

lemma buildRealtimeSquareOdds_Inr:
  assumes "buildRealtimeSquareOdds inp now = Inr r"
  obtains live digits board where
    "liveEstimate inp (buildFeatureVector (snapshot inp)) = Inr live"
    "blendMatrices (digitProbabilities (baseModel inp)) (liveDigitMatrix live)
       (liveBlendWeight live) = Inr digits"
    "mapDigitMatrixToBoard digits (rowLabels inp) (colLabels inp) = Inr board"
    "generatedAt r = now"
    "sourceMode r = sourceMode (baseModel inp)"
    "sourcesUsed r = appendUniqueSources (sourcesUsed (baseModel inp))
       [espn_live_scoreboard, espn_live_summary, live_commentary_sentiment]"
    "warnings r =
       (if status (snapshot inp) = pregame
        then warnings (baseModel inp)
          @ [''Live feed connected but game has not started. Realtime adjustments are minimal.'']
        else warnings (baseModel inp))"
    "expectedHomePoints r =
       (if liveBlendWeight live \<ge> 0.999 then jsInt (homeScore (snapshot inp))
        else clamp
          (expectedHomePoints (baseModel inp)
               * (1 - clamp (0.08 + liveBlendWeight live * 0.92) 0.08 1)
             + (jsInt (homeScore (snapshot inp)) + expectedHomeAdditional live)
                 * clamp (0.08 + liveBlendWeight live * 0.92) 0.08 1)
          0 70)"
    "expectedAwayPoints r =
       (if liveBlendWeight live \<ge> 0.999 then jsInt (awayScore (snapshot inp))
        else clamp
          (expectedAwayPoints (baseModel inp)
               * (1 - clamp (0.08 + liveBlendWeight live * 0.92) 0.08 1)
             + (jsInt (awayScore (snapshot inp)) + expectedAwayAdditional live)
                 * clamp (0.08 + liveBlendWeight live * 0.92) 0.08 1)
          0 70)"
    "digitProbabilities r = digits"
    "boardPercentages r = finalizeBoardPercentages board"
  using assms unfolding buildRealtimeSquareOdds_def Let_def
  by (auto split: sum.splits)

lemma exampleInput_fields:
  "status (snapshot (exampleInput st rows)) = st"
  "homeScore (snapshot (exampleInput st rows)) = 14"
  "awayScore (snapshot (exampleInput st rows)) = 10"
  "rowLabels (exampleInput st rows) = rows"
  "colLabels (exampleInput st rows) = [0, 1, 2, 3, 4, 5, 6, 7, 8, 9]"
  "length (digitProbabilities (baseModel (exampleInput st rows))) = 10"
  "sourceMode (baseModel (exampleInput st rows)) = full"
  "warnings (baseModel (exampleInput st rows)) =
     [''Recent form feed unavailable. Team trend model uses historical games only.'']"
  "sourcesUsed (baseModel (exampleInput st rows)) =
     [nflverse_games, nflverse_closing_lines, espn_team_stats]"
  by (simp_all add: exampleInput_def exampleSnapshot_def exampleBaseModel_def)

lemma validLabel_numeral:
  "validLabel 0" "validLabel 1" "validLabel 2" "validLabel 3" "validLabel 4"
  "validLabel 5" "validLabel 6" "validLabel 7" "validLabel 8" "validLabel 9"
  "\<not> validLabel 10" "\<not> validLabel (- 1)" "\<not> validLabel 2.5" "\<not> validLabel NaN"
  by (simp_all add: validLabel_def jsnum_consts)

lemma example_labels_valid:
  "validLabels [5, 0, 1, 2, 3, 4, 6, 7, 8, 9] [0, 1, 2, 3, 4, 5, 6, 7, 8, 9]"
  by (simp add: validLabels_def validLabel_numeral)

lemma buildRealtimeSquareOdds_final_returns:
  assumes fin: "status (snapshot inp) = final \<or> status (snapshot inp) = postponed"
    and labels: "validLabels (rowLabels inp) (colLabels inp)"
    and base: "10 \<le> length (digitProbabilities (baseModel inp))"
  shows "\<exists>r. buildRealtimeSquareOdds inp now = Inr r"
proof -
  let ?live = "\<lparr> liveDigitMatrix =
             buildDeterministicFinalMatrix (homeScore (snapshot inp)) (awayScore (snapshot inp)),
           liveBlendWeight = 1, expectedHomeAdditional = 0, expectedAwayAdditional = 0 \<rparr>"
  have live: "liveEstimate inp (buildFeatureVector (snapshot inp)) = Inr ?live"
    using fin by (rule liveEstimate_final)
  have "10 \<le> length (liveDigitMatrix ?live)"
    by (simp add: buildDeterministicFinalMatrix_cells(1))
  then obtain digits where
    digits: "blendMatrices (digitProbabilities (baseModel inp)) (liveDigitMatrix ?live)
       (liveBlendWeight ?live) = Inr digits" and len: "length digits = 10"
    using blendMatrices_total [OF base] by blast
  have "10 \<le> length digits" using len by simp
  then obtain board where board: "mapDigitMatrixToBoard digits (rowLabels inp) (colLabels inp) = Inr board"
    unfolding mapDigitMatrixToBoard_def
    using mapDigitMatrixToBoardWith_total [OF labels] by blast
  show ?thesis
    unfolding buildRealtimeSquareOdds_def Let_def live sum.case digits board by blast
qed












text \<open>
  Claim C3. When the snapshot's status is final or postponed, the live matrix before the
  blend is 10 by 10 with the value 1 at row \<open>homeScore mod 10\<close> and column
  \<open>awayScore mod 10\<close> and 0 in every other cell, and the live blend weight is 1; the
  matrix of a returned result is the blend of the base model's matrix with that live matrix
  at that weight, and the result has the snapshot's two scores as its expected points. A
  result is returned when the labels are valid and the base matrix has its ten rows.
\<close>

theorem final_status_live_estimate:
  "status (snapshot inp) = final \<or> status (snapshot inp) = postponed \<Longrightarrow>
     (\<exists>live. liveEstimate inp (buildFeatureVector (snapshot inp)) = Inr live
        \<and> liveBlendWeight live = 1
        \<and> length (liveDigitMatrix live) = 10
        \<and> (\<forall>i<10. length (liveDigitMatrix live ! i) = 10)
        \<and> (\<forall>i<10. \<forall>j<10. liveDigitMatrix live ! i ! j =
              (if i = nat (homeScore (snapshot inp) mod 10)
                  \<and> j = nat (awayScore (snapshot inp) mod 10) then 1 else 0))
        \<and> (\<forall>now r. buildRealtimeSquareOdds inp now = Inr r \<longrightarrow>
              blendMatrices (digitProbabilities (baseModel inp)) (liveDigitMatrix live)
                  (liveBlendWeight live) = Inr (digitProbabilities r)
              \<and> expectedHomePoints r = jsInt (homeScore (snapshot inp))
              \<and> expectedAwayPoints r = jsInt (awayScore (snapshot inp))))
     \<and> (validLabels (rowLabels inp) (colLabels inp)
          \<and> 10 \<le> length (digitProbabilities (baseModel inp)) \<longrightarrow>
        (\<forall>now. \<exists>r. buildRealtimeSquareOdds inp now = Inr r))"
proof (intro conjI impI allI)
  assume fin: "status (snapshot inp) = final \<or> status (snapshot inp) = postponed"
  let ?live = "\<lparr> liveDigitMatrix =
             buildDeterministicFinalMatrix (homeScore (snapshot inp)) (awayScore (snapshot inp)),
           liveBlendWeight = 1, expectedHomeAdditional = 0, expectedAwayAdditional = 0 \<rparr>"
  have live: "liveEstimate inp (buildFeatureVector (snapshot inp)) = Inr ?live"
    using fin by (rule liveEstimate_final)
  have w: "(0.999 :: jsnum) \<le> 1" by (simp add: jsnum_consts)
  have result: "blendMatrices (digitProbabilities (baseModel inp)) (liveDigitMatrix ?live)
                  (liveBlendWeight ?live) = Inr (digitProbabilities r)
              \<and> expectedHomePoints r = jsInt (homeScore (snapshot inp))
              \<and> expectedAwayPoints r = jsInt (awayScore (snapshot inp))"
    if r: "buildRealtimeSquareOdds inp now = Inr r" for now r
  proof (intro conjI)
    show "blendMatrices (digitProbabilities (baseModel inp)) (liveDigitMatrix ?live)
                  (liveBlendWeight ?live) = Inr (digitProbabilities r)"
      using r live by (elim buildRealtimeSquareOdds_Inr) simp
    show "expectedHomePoints r = jsInt (homeScore (snapshot inp))"
      using r live w by (elim buildRealtimeSquareOdds_Inr) simp
    show "expectedAwayPoints r = jsInt (awayScore (snapshot inp))"
      using r live w by (elim buildRealtimeSquareOdds_Inr) simp
  qed
  show "\<exists>live. liveEstimate inp (buildFeatureVector (snapshot inp)) = Inr live
        \<and> liveBlendWeight live = 1
        \<and> length (liveDigitMatrix live) = 10
        \<and> (\<forall>i<10. length (liveDigitMatrix live ! i) = 10)
        \<and> (\<forall>i<10. \<forall>j<10. liveDigitMatrix live ! i ! j =
              (if i = nat (homeScore (snapshot inp) mod 10)
                  \<and> j = nat (awayScore (snapshot inp) mod 10) then 1 else 0))
        \<and> (\<forall>now r. buildRealtimeSquareOdds inp now = Inr r \<longrightarrow>
              blendMatrices (digitProbabilities (baseModel inp)) (liveDigitMatrix live)
                  (liveBlendWeight live) = Inr (digitProbabilities r)
              \<and> expectedHomePoints r = jsInt (homeScore (snapshot inp))
              \<and> expectedAwayPoints r = jsInt (awayScore (snapshot inp)))"
  proof (rule exI [of _ ?live], intro conjI allI impI)
    show "liveEstimate inp (buildFeatureVector (snapshot inp)) = Inr ?live" by (rule live)
    show "liveBlendWeight ?live = 1" by simp
    show "length (liveDigitMatrix ?live) = 10"
      by (simp add: buildDeterministicFinalMatrix_cells(1))
    show "length (liveDigitMatrix ?live ! i) = 10" if "i < 10" for i
      using that by (simp add: buildDeterministicFinalMatrix_cells(2))
    show "liveDigitMatrix ?live ! i ! j =
              (if i = nat (homeScore (snapshot inp) mod 10)
                  \<and> j = nat (awayScore (snapshot inp) mod 10) then 1 else 0)"
      if "i < 10" "j < 10" for i j
      using that by (simp add: buildDeterministicFinalMatrix_cells(3))
    show "blendMatrices (digitProbabilities (baseModel inp)) (liveDigitMatrix ?live)
                  (liveBlendWeight ?live) = Inr (digitProbabilities r)"
      if "buildRealtimeSquareOdds inp now = Inr r" for now r
      using result [OF that] by (rule conjunct1)
    show "expectedHomePoints r = jsInt (homeScore (snapshot inp))"
      if "buildRealtimeSquareOdds inp now = Inr r" for now r
      using result [OF that] by blast
    show "expectedAwayPoints r = jsInt (awayScore (snapshot inp))"
      if "buildRealtimeSquareOdds inp now = Inr r" for now r
      using result [OF that] by blast
  qed
  fix now
  assume "validLabels (rowLabels inp) (colLabels inp)
          \<and> 10 \<le> length (digitProbabilities (baseModel inp))"
  then show "\<exists>r. buildRealtimeSquareOdds inp now = Inr r"
    using buildRealtimeSquareOdds_final_returns [OF fin] by blast
qed

theorem final_status_live_estimate_witness:
  "(status (snapshot (exampleInput final [5, 0, 1, 2, 3, 4, 6, 7, 8, 9])) = final
      \<or> status (snapshot (exampleInput final [5, 0, 1, 2, 3, 4, 6, 7, 8, 9])) = postponed)
   \<and> validLabels (rowLabels (exampleInput final [5, 0, 1, 2, 3, 4, 6, 7, 8, 9]))
        (colLabels (exampleInput final [5, 0, 1, 2, 3, 4, 6, 7, 8, 9]))
   \<and> 10 \<le> length (digitProbabilities (baseModel (exampleInput final [5, 0, 1, 2, 3, 4, 6, 7, 8, 9])))
   \<and> (\<exists>live r. liveEstimate (exampleInput final [5, 0, 1, 2, 3, 4, 6, 7, 8, 9])
          (buildFeatureVector (snapshot (exampleInput final [5, 0, 1, 2, 3, 4, 6, 7, 8, 9])))
          = Inr live
        \<and> liveBlendWeight live = 1
        \<and> liveDigitMatrix live ! 4 ! 0 = 1 \<and> liveDigitMatrix live ! 0 ! 4 = 0
        \<and> buildRealtimeSquareOdds (exampleInput final [5, 0, 1, 2, 3, 4, 6, 7, 8, 9])
             ''2026-02-08T23:40:00.000Z'' = Inr r
        \<and> blendMatrices (digitProbabilities exampleBaseModel) (liveDigitMatrix live) 1
             = Inr (digitProbabilities r)
        \<and> expectedHomePoints r = jsInt 14 \<and> expectedAwayPoints r = jsInt 10)"
proof -
  let ?inp = "exampleInput final [5, 0, 1, 2, 3, 4, 6, 7, 8, 9]"
  have fin: "status (snapshot ?inp) = final \<or> status (snapshot ?inp) = postponed"
    by (simp add: exampleInput_fields)
  have ok: "validLabels (rowLabels ?inp) (colLabels ?inp)
      \<and> 10 \<le> length (digitProbabilities (baseModel ?inp))"
    using example_labels_valid by (simp add: exampleInput_fields)
  have base: "baseModel ?inp = exampleBaseModel" by (simp add: exampleInput_def)
  have m: "nat (14 mod 10 :: int) = 4" "nat (10 mod 10 :: int) = 0" by simp_all
  note claim = final_status_live_estimate [OF fin]
  obtain r where r: "buildRealtimeSquareOdds ?inp ''2026-02-08T23:40:00.000Z'' = Inr r"
    using claim [THEN conjunct2] ok by blast
  obtain live where live: "liveEstimate ?inp (buildFeatureVector (snapshot ?inp)) = Inr live"
    and weight: "liveBlendWeight live = 1"
    and cells: "\<forall>i<10. \<forall>j<10. liveDigitMatrix live ! i ! j =
       (if i = nat (homeScore (snapshot ?inp) mod 10)
           \<and> j = nat (awayScore (snapshot ?inp) mod 10) then 1 else 0)"
    and results: "\<forall>now r. buildRealtimeSquareOdds ?inp now = Inr r \<longrightarrow>
              blendMatrices (digitProbabilities (baseModel ?inp)) (liveDigitMatrix live)
                  (liveBlendWeight live) = Inr (digitProbabilities r)
              \<and> expectedHomePoints r = jsInt (homeScore (snapshot ?inp))
              \<and> expectedAwayPoints r = jsInt (awayScore (snapshot ?inp))"
    using claim [THEN conjunct1] by blast
  have c1: "liveDigitMatrix live ! 4 ! 0 = 1" using cells [rule_format, of 4 0]
    by (simp add: exampleInput_fields)
  have c2: "liveDigitMatrix live ! 0 ! 4 = 0" using cells [rule_format, of 0 4]
    by (simp add: exampleInput_fields)
  have res: "blendMatrices (digitProbabilities exampleBaseModel) (liveDigitMatrix live) 1
             = Inr (digitProbabilities r)
        \<and> expectedHomePoints r = jsInt 14 \<and> expectedAwayPoints r = jsInt 10"
    using results [rule_format, OF r] by (simp add: exampleInput_fields base weight)
  show ?thesis
    using fin ok live weight c1 c2 r res by blast
qed

lemma appendUniqueSources_fold:
  "set (foldl (\<lambda>acc source. if source \<in> set acc then acc else acc @ [source]) acc xs)
     = set acc \<union> set xs"
  by (induction xs arbitrary: acc) auto

lemma set_appendUniqueSources:
  "set (appendUniqueSources baseSources extras) = set baseSources \<union> set extras"
  by (simp add: appendUniqueSources_def appendUniqueSources_fold)

text \<open>
  Claim C10. A result of \<^verbatim>\<open>buildRealtimeSquareOdds\<close> has the base model's source mode, its
  sources are the base model's sources with the three live sources, and its warnings are
  the base model's warnings, in order, followed by one more warning exactly when the
  snapshot's status is pregame.
\<close>

theorem realtime_result_keeps_base_metadata:
  "buildRealtimeSquareOdds inp now = Inr r \<Longrightarrow>
     sourceMode r = sourceMode (baseModel inp)
     \<and> set (sourcesUsed r) =
         set (sourcesUsed (baseModel inp))
           \<union> {espn_live_scoreboard, espn_live_summary, live_commentary_sentiment}
     \<and> (\<exists>extra. warnings r = warnings (baseModel inp) @ extra
           \<and> length extra \<le> 1
           \<and> (extra \<noteq> [] \<longleftrightarrow> status (snapshot inp) = pregame))"
proof -
  assume r: "buildRealtimeSquareOdds inp now = Inr r"
  have "sourceMode r = sourceMode (baseModel inp)"
    using r by (elim buildRealtimeSquareOdds_Inr)
  moreover have "set (sourcesUsed r) =
         set (sourcesUsed (baseModel inp))
           \<union> {espn_live_scoreboard, espn_live_summary, live_commentary_sentiment}"
    using r by (elim buildRealtimeSquareOdds_Inr) (simp add: set_appendUniqueSources)
  moreover have "warnings r =
       (if status (snapshot inp) = pregame
        then warnings (baseModel inp)
          @ [''Live feed connected but game has not started. Realtime adjustments are minimal.'']
        else warnings (baseModel inp))"
    using r by (elim buildRealtimeSquareOdds_Inr)
  then have "\<exists>extra. warnings r = warnings (baseModel inp) @ extra
           \<and> length extra \<le> 1
           \<and> (extra \<noteq> [] \<longleftrightarrow> status (snapshot inp) = pregame)"
    by (cases "status (snapshot inp) = pregame") simp_all
  ultimately show ?thesis by blast
qed

theorem realtime_result_keeps_base_metadata_witness:
  "\<exists>r. buildRealtimeSquareOdds (exampleInput postponed [5, 0, 1, 2, 3, 4, 6, 7, 8, 9])
          ''2026-02-08T23:40:00.000Z'' = Inr r
     \<and> sourceMode r = full
     \<and> set (sourcesUsed r) =
         {nflverse_games, nflverse_closing_lines, espn_team_stats,
          espn_live_scoreboard, espn_live_summary, live_commentary_sentiment}
     \<and> warnings r =
         [''Recent form feed unavailable. Team trend model uses historical games only.'']"
proof -
  let ?inp = "exampleInput postponed [5, 0, 1, 2, 3, 4, 6, 7, 8, 9]"
  have fin: "status (snapshot ?inp) = final \<or> status (snapshot ?inp) = postponed"
    by (simp add: exampleInput_fields)
  obtain r where r: "buildRealtimeSquareOdds ?inp ''2026-02-08T23:40:00.000Z'' = Inr r"
    using buildRealtimeSquareOdds_final_returns [OF fin] example_labels_valid
    by (auto simp: exampleInput_fields)
  show ?thesis
    using realtime_result_keeps_base_metadata [OF r] r
    by (auto simp: exampleInput_fields)
qed

text \<open>
  Claim C9. When the row labels or the column labels are not ten labels, or one of them is
  not an integer from 0 to 9, \<^verbatim>\<open>buildRealtimeSquareOdds\<close> throws: the call has no result.
\<close>

theorem invalid_labels_throw:
  "\<not> validLabels (rowLabels inp) (colLabels inp) \<Longrightarrow>
     \<exists>e. buildRealtimeSquareOdds inp now = Inl e"
proof (cases "buildRealtimeSquareOdds inp now")
  case (Inl e)
  then show ?thesis by blast
next
  case (Inr r)
  assume bad: "\<not> validLabels (rowLabels inp) (colLabels inp)"
  from Inr obtain digits board
    where "mapDigitMatrixToBoard digits (rowLabels inp) (colLabels inp) = Inr board"
    by (elim buildRealtimeSquareOdds_Inr)
  then have "validLabels (rowLabels inp) (colLabels inp)"
    unfolding mapDigitMatrixToBoard_def by (rule mapDigitMatrixToBoardWith_valid)
  with bad show ?thesis by blast
qed

theorem invalid_labels_throw_witness:
  "\<not> validLabels (rowLabels (exampleInput final [5, 0, 1, 2, 3, 4, 6, 7, 8, 10]))
        (colLabels (exampleInput final [5, 0, 1, 2, 3, 4, 6, 7, 8, 10]))
   \<and> (\<exists>e. buildRealtimeSquareOdds (exampleInput final [5, 0, 1, 2, 3, 4, 6, 7, 8, 10])
          ''2026-02-08T23:40:00.000Z'' = Inl e)
   \<and> \<not> validLabels (rowLabels (exampleInput in_progress [5, 0, 1]))
        (colLabels (exampleInput in_progress [5, 0, 1]))
   \<and> (\<exists>e. buildRealtimeSquareOdds (exampleInput in_progress [5, 0, 1])
          ''2026-02-08T23:40:00.000Z'' = Inl e)"
proof -
  have a: "\<not> validLabels (rowLabels (exampleInput final [5, 0, 1, 2, 3, 4, 6, 7, 8, 10]))
        (colLabels (exampleInput final [5, 0, 1, 2, 3, 4, 6, 7, 8, 10]))"
    by (simp add: exampleInput_fields validLabels_def validLabel_numeral)
  have b: "\<not> validLabels (rowLabels (exampleInput in_progress [5, 0, 1]))
        (colLabels (exampleInput in_progress [5, 0, 1]))"
    by (simp add: exampleInput_fields validLabels_def)
  show ?thesis
    using a b invalid_labels_throw [OF a] invalid_labels_throw [OF b] by blast
qed

lemma seedBasis_fields:
  assumes "eventId a = eventId b" "status a = status b" "statusDetail a = statusDetail b"
    "homeScore a = homeScore b" "awayScore a = awayScore b"
    "period (clock a) = period (clock b)" "displayClock (clock a) = displayClock (clock b)"
    "length (plays a) = length (plays b)"
    "plays a \<noteq> [] \<Longrightarrow> playId (last (plays a)) = playId (last (plays b))"
  shows "createSeededRandom (hashString (seedBasis a)) = createSeededRandom (hashString (seedBasis b))"
proof -
  have "(plays a = []) = (plays b = [])" using assms(8) by (metis length_0_conv)
  then have "seedBasis a = seedBasis b"
    using assms unfolding seedBasis_def by (cases "plays a = []") simp_all
  then show ?thesis by simp
qed





section \<open>The board percentages and the normalized matrix\<close>

lemma nonneg_cases: "(0 :: jsnum) \<le> v \<Longrightarrow> (\<exists>a. v = Fin a \<and> 0 \<le> a) \<or> v = PosInf"
  by (cases v) (simp_all add: jsnum_consts)

lemma foldl_plus_PosInf:
  "(\<And>v. v \<in> set xs \<Longrightarrow> (0 :: jsnum) \<le> v) \<Longrightarrow> foldl (\<lambda>s v. s + v) PosInf xs = PosInf"
proof (induction xs)
  case Nil
  then show ?case by simp
next
  case (Cons x xs)
  have "(0 :: jsnum) \<le> x" using Cons.prems by simp
  then have "PosInf + x = PosInf" using nonneg_cases by fastforce
  then show ?case using Cons by simp
qed

lemma nonneg_sum_finite:
  assumes "\<And>v. v \<in> set xs \<Longrightarrow> (0 :: jsnum) \<le> v"
    and "foldl (\<lambda>s v. s + v) (Fin a) xs = Fin s"
  shows "(\<forall>v\<in>set xs. \<exists>b. v = Fin b \<and> 0 \<le> b) \<and> s = a + sum_list (map toReal xs)"
  using assms
proof (induction xs arbitrary: a)
  case Nil
  then show ?case by simp
next
  case (Cons x xs)
  have "(0 :: jsnum) \<le> x" using Cons.prems(1) by simp
  from nonneg_cases [OF this] show ?case
  proof
    assume "\<exists>b. x = Fin b \<and> 0 \<le> b"
    then obtain b where b: "x = Fin b" "0 \<le> b" by blast
    have "foldl (\<lambda>s v. s + v) (Fin (a + b)) xs = Fin s" using Cons.prems(2) b by simp
    then have "(\<forall>v\<in>set xs. \<exists>b. v = Fin b \<and> 0 \<le> b) \<and> s = (a + b) + sum_list (map toReal xs)"
      using Cons.IH [of "a + b"] Cons.prems(1) by simp
    then show ?thesis using b by simp
  next
    assume "x = PosInf"
    then have "foldl (\<lambda>s v. s + v) (Fin a) (x # xs) = PosInf"
      using foldl_plus_PosInf [of xs] Cons.prems(1) by simp
    then show ?thesis using Cons.prems(2) by simp
  qed
qed

lemma foldl_plus_Fin:
  "foldl (\<lambda>s v. s + v) (Fin a) (map Fin ys) = Fin (a + sum_list ys)"
  by (induction ys arbitrary: a) (simp_all add: add.assoc)

lemma traverse_map:
  "(\<And>x. x \<in> set xs \<Longrightarrow> f x = Inr (g x)) \<Longrightarrow> traverse f xs = Inr (map g xs)"
  by (induction xs) simp_all

lemma validLabel_Fin:
  assumes "validLabel d"
  shows "d = Fin (real (labelIndex d))" and "labelIndex d < 10"
proof -
  obtain a where a: "d = Fin a" using assms by (cases d) (auto simp: validLabel_def)
  have ia: "a = of_int \<lfloor>a\<rfloor>" and lo: "0 \<le> a" and hi: "a \<le> 9"
    using assms a by (auto simp: validLabel_def jsnum_consts)
  have "0 \<le> \<lfloor>a\<rfloor>" using lo by simp
  then have "real (nat \<lfloor>a\<rfloor>) = of_int \<lfloor>a\<rfloor>" by simp
  then show "d = Fin (real (labelIndex d))" using a ia by simp
  show "labelIndex d < 10" using assms by (rule validLabel_index)
qed

lemma labelIndex_inj: "validLabel d \<Longrightarrow> validLabel e \<Longrightarrow> labelIndex d = labelIndex e \<Longrightarrow> d = e"
  using validLabel_Fin(1) by metis

lemma label_permutation:
  assumes "length ls = 10" and "list_all validLabel ls" and "distinct ls"
  shows "distinct (map labelIndex ls)" and "set (map labelIndex ls) = {..<10}"
proof -
  have v: "validLabel d" if "d \<in> set ls" for d using assms(2) that by (simp add: list_all_iff)
  have inj: "inj_on labelIndex (set ls)"
    by (rule inj_onI) (use v labelIndex_inj in blast)
  show d: "distinct (map labelIndex ls)" using assms(3) inj by (simp add: distinct_map)
  have sub: "set (map labelIndex ls) \<subseteq> {..<10}" using v validLabel_Fin(2) by auto
  have "card (set (map labelIndex ls)) = 10" using d assms(1) distinct_card by fastforce
  then show "set (map labelIndex ls) = {..<10}"
    using sub by (intro card_subset_eq) simp_all
qed

lemma sum_over_labels:
  assumes "length ls = 10" and "list_all validLabel ls" and "distinct ls"
  shows "sum_list (map (\<lambda>d. h (labelIndex d)) ls) = sum h {..<10 :: nat}"
proof -
  have "sum_list (map (\<lambda>d. h (labelIndex d)) ls) = sum_list (map h (map labelIndex ls))"
    by (simp add: comp_def)
  also have "\<dots> = sum h (set (map labelIndex ls))"
    using label_permutation(1) [OF assms] by (rule sum_list_distinct_conv_sum_set)
  finally show ?thesis using label_permutation(2) [OF assms] by simp
qed

lemma sum_list_nth_10:
  assumes "length xs = 10"
  shows "sum_list (map f xs) = (\<Sum>i<10. f (xs ! i))"
proof -
  have "map f xs = map (\<lambda>i. f (xs ! i)) [0..<length xs]"
    by (intro nth_equalityI) simp_all
  then have "sum_list (map f xs) = sum_list (map (\<lambda>i. f (xs ! i)) [0..<length xs])" by simp
  also have "\<dots> = sum (\<lambda>i. f (xs ! i)) (set [0..<length xs])"
    by (intro sum_list_distinct_conv_sum_set) simp
  finally show ?thesis using assms by (simp add: lessThan_atLeast0 del: upt_rec_numeral)
qed

lemma sum_list_concat: "sum_list (concat xss) = sum_list (map sum_list (xss :: real list list))"
  by (induction xss) simp_all

lemma board_of_normalized_matrix:
  assumes shape: "length D = 10" "\<And>row. row \<in> set D \<Longrightarrow> length row = 10"
    and nonneg: "\<And>row v. row \<in> set D \<Longrightarrow> v \<in> set row \<Longrightarrow> (0 :: jsnum) \<le> v"
    and one: "foldl (\<lambda>s v. s + v) 0 (concat D) = 1"
    and labels: "validLabels rows cols" and dr: "distinct rows" and dc: "distinct cols"
  shows "\<exists>board. mapDigitMatrixToBoardWith m1 m2 m3 D rows cols = Inr board
     \<and> finalizeBoardPercentages board = board
     \<and> board = map (\<lambda>r. map (\<lambda>c. D ! labelIndex r ! labelIndex c * 100) cols) rows
     \<and> (\<forall>i<10. \<forall>j<10. \<exists>x. board ! i ! j = Fin x \<and> 0 \<le> x \<and> x \<le> 100)
     \<and> foldl (\<lambda>s v. s + v) 0 (concat board) = Fin 100"
proof -
  have len: "length rows = 10" "length cols = 10"
    and rl: "list_all validLabel rows" and cl: "list_all validLabel cols"
    using labels by (simp_all add: validLabels_def)
  have rv: "validLabel r" if "r \<in> set rows" for r using rl that by (simp add: list_all_iff)
  have cv: "validLabel c" if "c \<in> set cols" for c using cl that by (simp add: list_all_iff)
  define cellR where "cellR r c = toReal (D ! r ! c)" for r c
  have row_in: "D ! r \<in> set D" if "r < 10" for r using that shape(1) by simp
  have row_len: "length (D ! r) = 10" if "r < 10" for r using shape(2) [OF row_in [OF that]] .
  have "foldl (\<lambda>s v. s + v) (Fin 0) (concat D) = Fin 1"
    using one by (simp add: jsnum_consts)
  moreover have "(0 :: jsnum) \<le> v" if "v \<in> set (concat D)" for v
    using that nonneg by auto
  ultimately have fin: "\<forall>v\<in>set (concat D). \<exists>b. v = Fin b \<and> 0 \<le> b"
    and total: "1 = 0 + sum_list (map toReal (concat D))"
    using nonneg_sum_finite [of "concat D" 0 1] by blast+
  have cell: "D ! r ! c = Fin (cellR r c) \<and> 0 \<le> cellR r c" if "r < 10" "c < 10" for r c
  proof -
    have "D ! r ! c \<in> set (D ! r)" using row_len [OF that(1)] that(2) by simp
    then have "D ! r ! c \<in> set (concat D)" using row_in [OF that(1)] by auto
    then obtain b where "D ! r ! c = Fin b" "0 \<le> b" using fin by blast
    then show ?thesis by (simp add: cellR_def)
  qed
  have "sum_list (map toReal (concat D)) = sum_list (map (\<lambda>row. sum_list (map toReal row)) D)"
    by (simp add: map_concat sum_list_concat comp_def)
  also have "\<dots> = (\<Sum>r<10. sum_list (map toReal (D ! r)))"
    using shape(1) by (rule sum_list_nth_10)
  also have "\<dots> = (\<Sum>r<10. \<Sum>c<10. cellR r c)"
  proof (rule sum.cong)
    fix r :: nat assume "r \<in> {..<10}"
    then have "length (D ! r) = 10" using row_len by simp
    then show "sum_list (map toReal (D ! r)) = (\<Sum>c<10. cellR r c)"
      unfolding cellR_def by (rule sum_list_nth_10)
  qed simp
  finally have sumR: "(\<Sum>r<10. \<Sum>c<10. cellR r c) = 1" using total by simp
  have le1: "cellR r c \<le> 1" if "r < 10" "c < 10" for r c
  proof -
    have "cellR r c \<le> (\<Sum>c<10. cellR r c)"
      using that(2) cell [OF that(1)] by (intro member_le_sum) auto
    also have "\<dots> \<le> (\<Sum>r<10. \<Sum>c<10. cellR r c)"
      using that(1) cell by (intro member_le_sum [of r _ "\<lambda>r. \<Sum>c<10. cellR r c"] sum_nonneg) auto
    finally show ?thesis using sumR by simp
  qed
  let ?g = "\<lambda>r c. D ! labelIndex r ! labelIndex c * 100"
  let ?board = "map (\<lambda>r. map (\<lambda>c. ?g r c) cols) rows"
  have gval: "?g r c = Fin (cellR (labelIndex r) (labelIndex c) * 100)"
    if "r \<in> set rows" "c \<in> set cols" for r c
    using cell [OF validLabel_index [OF rv [OF that(1)]] validLabel_index [OF cv [OF that(2)]]]
    by (simp add: jsnum_consts)
  have inner: "traverse
             (\<lambda>colDigit.
                if \<not> isInteger colDigit \<or> colDigit < 0 \<or> colDigit > 9
                then Inl (Error m3)
                else (case readCell D (labelIndex r) (labelIndex colDigit) of
                        Inl e \<Rightarrow> Inl e
                      | Inr value \<Rightarrow> Inr (value * 100)))
             cols = Inr (map (\<lambda>c. ?g r c) cols)" if r: "r \<in> set rows" for r
  proof (rule traverse_map)
    fix c assume c: "c \<in> set cols"
    have "labelIndex r < length D" using validLabel_index [OF rv [OF r]] shape(1) by simp
    moreover have "labelIndex c < length (D ! labelIndex r)"
      using validLabel_index [OF cv [OF c]] row_len [OF validLabel_index [OF rv [OF r]]] by simp
    ultimately have "readCell D (labelIndex r) (labelIndex c) = Inr (D ! labelIndex r ! labelIndex c)"
      by (simp add: readCell_def)
    then show "(if \<not> isInteger c \<or> c < 0 \<or> c > 9
                then Inl (Error m3)
                else (case readCell D (labelIndex r) (labelIndex c) of
                        Inl e \<Rightarrow> Inl e
                      | Inr value \<Rightarrow> Inr (value * 100))) = Inr (?g r c)"
      using cv [OF c] by (simp add: validLabel_def)
  qed
  have "traverse (\<lambda>rowDigit.
           if \<not> isInteger rowDigit \<or> rowDigit < 0 \<or> rowDigit > 9 then Inl (Error m2)
           else traverse
             (\<lambda>colDigit.
                if \<not> isInteger colDigit \<or> colDigit < 0 \<or> colDigit > 9
                then Inl (Error m3)
                else (case readCell D (labelIndex rowDigit) (labelIndex colDigit) of
                        Inl e \<Rightarrow> Inl e
                      | Inr value \<Rightarrow> Inr (value * 100)))
             cols) rows = Inr ?board"
  proof (rule traverse_map)
    fix r assume r: "r \<in> set rows"
    show "(if \<not> isInteger r \<or> r < 0 \<or> r > 9 then Inl (Error m2)
           else traverse
             (\<lambda>colDigit.
                if \<not> isInteger colDigit \<or> colDigit < 0 \<or> colDigit > 9
                then Inl (Error m3)
                else (case readCell D (labelIndex r) (labelIndex colDigit) of
                        Inl e \<Rightarrow> Inl e
                      | Inr value \<Rightarrow> Inr (value * 100)))
             cols) = Inr (map (\<lambda>c. ?g r c) cols)"
      using rv [OF r] inner [OF r] by (simp add: validLabel_def)
  qed
  then have mapped: "mapDigitMatrixToBoardWith m1 m2 m3 D rows cols = Inr ?board"
    using len by (simp add: mapDigitMatrixToBoardWith_def DIGIT_COUNT_def)
  let ?real = "map (\<lambda>r. map (\<lambda>c. cellR (labelIndex r) (labelIndex c) * 100) cols) rows"
  have board_real: "?board = map (map Fin) ?real"
    using gval by (simp add: comp_def)
  have sum_real: "sum_list (concat ?real) = 100"
  proof -
    have "sum_list (concat ?real)
        = sum_list (map (\<lambda>r. sum_list (map (\<lambda>c. cellR (labelIndex r) (labelIndex c) * 100) cols)) rows)"
      by (simp add: sum_list_concat comp_def)
    also have "\<dots> = sum_list (map (\<lambda>r. \<Sum>j<10. cellR (labelIndex r) j * 100) rows)"
      using sum_over_labels [OF len(2) cl dc, of "\<lambda>j. cellR i j * 100" for i] by simp
    also have "\<dots> = (\<Sum>i<10. \<Sum>j<10. cellR i j * 100)"
      using sum_over_labels [OF len(1) rl dr, of "\<lambda>i. \<Sum>j<10. cellR i j * 100"] by simp
    also have "\<dots> = (\<Sum>i<10. \<Sum>j<10. cellR i j) * 100"
      by (simp add: sum_distrib_right)
    finally show ?thesis using sumR by simp
  qed
  have total_board: "foldl (\<lambda>s v. s + v) 0 (concat ?board) = Fin 100"
  proof -
    have "concat ?board = map Fin (concat ?real)"
      unfolding board_real by (simp add: map_concat)
    then have "foldl (\<lambda>s v. s + v) (Fin 0) (concat ?board) = Fin (0 + sum_list (concat ?real))"
      by (simp only: foldl_plus_Fin)
    then show ?thesis using sum_real by (simp add: jsnum_consts)
  qed
  have range: "\<exists>x. ?g r c = Fin x \<and> 0 \<le> x \<and> x \<le> 100"
    if r: "r \<in> set rows" and c: "c \<in> set cols" for r c
  proof -
    have i: "labelIndex r < 10" and j: "labelIndex c < 10"
      using validLabel_index rv [OF r] cv [OF c] by auto
    have "0 \<le> cellR (labelIndex r) (labelIndex c)" using cell [OF i j] by simp
    moreover have "cellR (labelIndex r) (labelIndex c) \<le> 1" using le1 [OF i j] .
    ultimately show ?thesis using gval [OF r c] by simp
  qed
  have keep: "clamp (?g r c * (100 / Fin 100)) 0 100 = ?g r c"
    if r: "r \<in> set rows" and c: "c \<in> set cols" for r c
  proof -
    obtain x where x: "?g r c = Fin x" "0 \<le> x" "x \<le> 100" using range [OF r c] by blast
    show ?thesis unfolding x(1) using x(2,3) by (simp add: jsnum_consts clamp_Fin)
  qed
  have "finalizeBoardPercentages ?board
      = map (map (\<lambda>value. clamp (value * (100 / Fin 100)) 0 100)) ?board"
    unfolding finalizeBoardPercentages_def Let_def total_board by (simp add: jsnum_consts)
  also have "\<dots> = ?board"
    using keep by (simp add: comp_def)
  finally have final: "finalizeBoardPercentages ?board = ?board" .
  have cells: "\<forall>i<10. \<forall>j<10. \<exists>x. ?board ! i ! j = Fin x \<and> 0 \<le> x \<and> x \<le> 100"
  proof (intro allI impI)
    fix i j :: nat assume i: "i < 10" and j: "j < 10"
    have "rows ! i \<in> set rows" "cols ! j \<in> set cols" using i j len by simp_all
    then show "\<exists>x. ?board ! i ! j = Fin x \<and> 0 \<le> x \<and> x \<le> 100"
      using range i j len by simp
  qed
  show ?thesis using mapped final cells total_board by blast
qed

text \<open>
  Claim C4. For a 10 by 10 digit matrix of non-negative entries that sum to 1 and two label
  permutations (ten valid labels each, all different), the board that
  \<^verbatim>\<open>mapDigitMatrixToBoard\<close> (of either module) maps and \<^verbatim>\<open>finalizeBoardPercentages\<close>
  finalizes is 10 by 10, every entry is in \<open>[0, 100]\<close> and is 100 times the digit-matrix
  entry its labels name, and the entries sum to 100 (so within \<open>1e-6\<close> of 100).
\<close>

theorem board_percentages_sum_to_100:
  "length D = 10 \<and> (\<forall>row\<in>set D. length row = 10 \<and> (\<forall>v\<in>set row. 0 \<le> v))
     \<and> foldl (\<lambda>s v. s + v) 0 (concat D) = 1
     \<and> validLabels rows cols \<and> distinct rows \<and> distinct cols \<Longrightarrow>
   \<exists>board. mapDigitMatrixToBoard D rows cols = Inr board
     \<and> mapDigitMatrixToBoard_service D rows cols = Inr board
     \<and> length (finalizeBoardPercentages board) = 10
     \<and> (\<forall>i<10. length (finalizeBoardPercentages board ! i) = 10)
     \<and> (\<forall>i<10. \<forall>j<10.
            0 \<le> finalizeBoardPercentages board ! i ! j
          \<and> finalizeBoardPercentages board ! i ! j \<le> 100
          \<and> finalizeBoardPercentages board ! i ! j
              = D ! labelIndex (rows ! i) ! labelIndex (cols ! j) * 100)
     \<and> (\<exists>s. foldl (\<lambda>s v. s + v) 0 (concat (finalizeBoardPercentages board)) = Fin s
            \<and> s = 100 \<and> \<bar>s - 100\<bar> \<le> 1 / 10 ^ 6)"
proof -
  assume h: "length D = 10 \<and> (\<forall>row\<in>set D. length row = 10 \<and> (\<forall>v\<in>set row. 0 \<le> v))
     \<and> foldl (\<lambda>s v. s + v) 0 (concat D) = 1
     \<and> validLabels rows cols \<and> distinct rows \<and> distinct cols"
  then have len: "length rows = 10" "length cols = 10" by (simp_all add: validLabels_def)
  let ?board = "map (\<lambda>r. map (\<lambda>c. D ! labelIndex r ! labelIndex c * 100) cols) rows"
  have general: "mapDigitMatrixToBoardWith m1 m2 m3 D rows cols = Inr ?board
     \<and> finalizeBoardPercentages ?board = ?board
     \<and> (\<forall>i<10. \<forall>j<10. \<exists>x. ?board ! i ! j = Fin x \<and> 0 \<le> x \<and> x \<le> 100)
     \<and> foldl (\<lambda>s v. s + v) 0 (concat ?board) = Fin 100" for m1 m2 m3
    using board_of_normalized_matrix [of D rows cols m1 m2 m3] h by auto
  have final: "finalizeBoardPercentages ?board = ?board"
    and cells: "\<forall>i<10. \<forall>j<10. \<exists>x. ?board ! i ! j = Fin x \<and> 0 \<le> x \<and> x \<le> 100"
    and total: "foldl (\<lambda>s v. s + v) 0 (concat ?board) = Fin 100"
    using general [of "[]" "[]" "[]"] by blast+
  have cellsB: "0 \<le> ?board ! i ! j \<and> ?board ! i ! j \<le> 100
      \<and> ?board ! i ! j = D ! labelIndex (rows ! i) ! labelIndex (cols ! j) * 100"
    if ij: "i < 10" "j < 10" for i j
  proof -
    obtain x where x: "?board ! i ! j = Fin x" "0 \<le> x" "x \<le> 100"
      using cells [rule_format, OF ij] by auto
    have "?board ! i ! j = D ! labelIndex (rows ! i) ! labelIndex (cols ! j) * 100"
      using ij len by simp
    moreover have "0 \<le> ?board ! i ! j \<and> ?board ! i ! j \<le> 100"
      unfolding x(1) using x(2,3) by (simp add: jsnum_consts)
    ultimately show ?thesis by simp
  qed
  have shape: "length ?board = 10" "\<forall>i<10. length (?board ! i) = 10"
    using len by simp_all
  have mapped: "mapDigitMatrixToBoard D rows cols = Inr ?board"
    "mapDigitMatrixToBoard_service D rows cols = Inr ?board"
    unfolding mapDigitMatrixToBoard_def mapDigitMatrixToBoard_service_def
    using general by simp_all
  have sums: "\<exists>s. foldl (\<lambda>s v. s + v) 0 (concat ?board) = Fin s
            \<and> s = 100 \<and> \<bar>s - 100\<bar> \<le> 1 / 10 ^ 6"
    using total by simp
  show ?thesis
  proof (rule exI [of _ ?board], unfold final, intro conjI allI impI)
    show "mapDigitMatrixToBoard D rows cols = Inr ?board" by (rule mapped(1))
    show "mapDigitMatrixToBoard_service D rows cols = Inr ?board" by (rule mapped(2))
    show "length ?board = 10" by (rule shape(1))
    show "length (?board ! i) = 10" if "i < 10" for i using shape(2) that by blast
    show "0 \<le> ?board ! i ! j" if "i < 10" "j < 10" for i j using cellsB [OF that] by blast
    show "?board ! i ! j \<le> 100" if "i < 10" "j < 10" for i j using cellsB [OF that] by blast
    show "?board ! i ! j = D ! labelIndex (rows ! i) ! labelIndex (cols ! j) * 100"
      if "i < 10" "j < 10" for i j using cellsB [OF that] by blast
    show "\<exists>s. foldl (\<lambda>s v. s + v) 0 (concat ?board) = Fin s
            \<and> s = 100 \<and> \<bar>s - 100\<bar> \<le> 1 / 10 ^ 6"
      by (rule sums)
  qed
qed

theorem board_percentages_sum_to_100_witness:
  "length (buildDeterministicFinalMatrix 14 10) = 10
   \<and> list_all (\<lambda>row. length row = 10 \<and> list_all (\<lambda>v. 0 \<le> v) row)
        (buildDeterministicFinalMatrix 14 10)
   \<and> foldl (\<lambda>s v. s + v) 0 (concat (buildDeterministicFinalMatrix 14 10)) = 1
   \<and> validLabels [5, 0, 1, 2, 3, 4, 6, 7, 8, 9] [0, 1, 2, 3, 4, 5, 6, 7, 8, 9]
   \<and> distinct [5, 0, 1, 2, 3, 4, 6, 7, 8, 9 :: jsnum]
   \<and> distinct [0, 1, 2, 3, 4, 5, 6, 7, 8, 9 :: jsnum]
   \<and> (\<exists>board. mapDigitMatrixToBoard (buildDeterministicFinalMatrix 14 10)
          [5, 0, 1, 2, 3, 4, 6, 7, 8, 9] [0, 1, 2, 3, 4, 5, 6, 7, 8, 9] = Inr board
        \<and> finalizeBoardPercentages board ! 5 ! 0 = 100
        \<and> finalizeBoardPercentages board ! 0 ! 0 = 0
        \<and> foldl (\<lambda>s v. s + v) 0 (concat (finalizeBoardPercentages board)) = Fin 100)"
proof -
  let ?D = "buildDeterministicFinalMatrix 14 10"
  have a: "length ?D = 10" by code_simp
  have b: "list_all (\<lambda>row. length row = 10 \<and> list_all (\<lambda>v. 0 \<le> v) row) ?D" by code_simp
  have c: "foldl (\<lambda>s v. s + v) 0 (concat ?D) = 1" by code_simp
  have d: "distinct [5, 0, 1, 2, 3, 4, 6, 7, 8, 9 :: jsnum]"
    "distinct [0, 1, 2, 3, 4, 5, 6, 7, 8, 9 :: jsnum]"
    by (simp_all add: jsnum_consts)
  have cells: "?D ! 4 ! 0 = 1" "?D ! 5 ! 0 = 0" by code_simp+
  have idx: "labelIndex 4 = 4" "labelIndex 5 = 5" "labelIndex 0 = 0"
    by (simp_all add: jsnum_consts)
  have h: "length ?D = 10 \<and> (\<forall>row\<in>set ?D. length row = 10 \<and> (\<forall>v\<in>set row. 0 \<le> v))
     \<and> foldl (\<lambda>s v. s + v) 0 (concat ?D) = 1
     \<and> validLabels [5, 0, 1, 2, 3, 4, 6, 7, 8, 9] [0, 1, 2, 3, 4, 5, 6, 7, 8, 9]
     \<and> distinct [5, 0, 1, 2, 3, 4, 6, 7, 8, 9 :: jsnum]
     \<and> distinct [0, 1, 2, 3, 4, 5, 6, 7, 8, 9 :: jsnum]"
    using a b c d example_labels_valid by (simp add: list_all_iff)
  from board_percentages_sum_to_100 [OF h] obtain board where
    board: "mapDigitMatrixToBoard ?D [5, 0, 1, 2, 3, 4, 6, 7, 8, 9] [0, 1, 2, 3, 4, 5, 6, 7, 8, 9]
      = Inr board"
    and at: "\<forall>i<10. \<forall>j<10. finalizeBoardPercentages board ! i ! j
        = ?D ! labelIndex ([5, 0, 1, 2, 3, 4, 6, 7, 8, 9] ! i)
             ! labelIndex ([0, 1, 2, 3, 4, 5, 6, 7, 8, 9] ! j) * 100"
    and total: "foldl (\<lambda>s v. s + v) 0 (concat (finalizeBoardPercentages board)) = Fin 100"
    by auto
  have "finalizeBoardPercentages board ! 5 ! 0 = 100"
    using at [rule_format, of 5 0] by (simp add: idx cells jsnum_consts)
  moreover have "finalizeBoardPercentages board ! 0 ! 0 = 0"
    using at [rule_format, of 0 0] by (simp add: idx cells jsnum_consts)
  ultimately show ?thesis
    using a b c d example_labels_valid board total by blast
qed

text \<open>
  Claim C5 at a matrix with a NaN entry. The realtime engine's \<^verbatim>\<open>normalizeMatrix\<close> leaves
  the NaN entry of \<open>exampleNaNMatrix\<close> in its result (the total, which skips it, is 1):
  that entry is not \<open>\<ge> 0\<close> and the entries sum to NaN, not to 1. The
  \<^verbatim>\<open>normalizeMatrix\<close> of squareOddsService.ts returns the uniform matrix for the same input.
\<close>

theorem normalizeMatrix_keeps_NaN:
  "length exampleNaNMatrix = 10
   \<and> list_all (\<lambda>row. length row = 10) exampleNaNMatrix
   \<and> normalizeMatrix exampleNaNMatrix ! 0 ! 0 = NaN
   \<and> \<not> 0 \<le> normalizeMatrix exampleNaNMatrix ! 0 ! 0
   \<and> foldl (\<lambda>s v. s + v) 0 (concat (normalizeMatrix exampleNaNMatrix)) = NaN
   \<and> normalizeMatrix exampleNaNMatrix \<noteq> replicate 10 (replicate 10 (1 / 100))
   \<and> normalizeMatrix_service exampleNaNMatrix = Inr (replicate 10 (replicate 10 (1 / 100)))"
  by code_simp

theorem normalizeMatrix_keeps_NaN_witness:
  "exampleNaNMatrix ! 0 ! 0 = NaN \<and> exampleNaNMatrix ! 0 ! 1 = 1
   \<and> foldl (\<lambda>sum value. sum + Math_max 0 (if isFinite value then value else 0)) 0
        (concat exampleNaNMatrix) = 1
   \<and> normalizeMatrix exampleNaNMatrix ! 0 ! 0 = NaN
   \<and> normalizeMatrix exampleNaNMatrix ! 0 ! 1 = 1"
proof -
  have "exampleNaNMatrix ! 0 ! 0 = NaN" "exampleNaNMatrix ! 0 ! 1 = 1"
    "foldl (\<lambda>sum value. sum + Math_max 0 (if isFinite value then value else 0)) 0
        (concat exampleNaNMatrix) = 1"
    "normalizeMatrix exampleNaNMatrix ! 0 ! 1 = 1"
    by code_simp+
  then show ?thesis using normalizeMatrix_keeps_NaN by blast
qed

section \<open>buildSquareOdds\<close>

lemma normalizeMatrix_service_total:
  assumes "length m = 10"
  shows "\<exists>d. normalizeMatrix_service m = Inr d \<and> length d = 10"
proof -
  have row: "\<exists>y. traverse (\<lambda>c. readCell m r c) [0..<DIGIT_COUNT] = Inr y" if "r < 10" for r
  proof (rule traverse_total)
    fix c
    have "r < length m" using that assms by simp
    then show "\<exists>y. readCell m r c = Inr y" by (rule readCell_total)
  qed
  have "\<exists>cells. traverse (\<lambda>r. traverse (\<lambda>c. readCell m r c) [0..<DIGIT_COUNT]) [0..<DIGIT_COUNT]
      = Inr cells"
  proof (rule traverse_total)
    fix r assume "r \<in> set [0..<DIGIT_COUNT]"
    then have "r < 10" by (simp add: DIGIT_COUNT_def del: upt_rec_numeral)
    then show "\<exists>y. traverse (\<lambda>c. readCell m r c) [0..<DIGIT_COUNT] = Inr y" by (rule row)
  qed
  then obtain cells where
    cells: "traverse (\<lambda>r. traverse (\<lambda>c. readCell m r c) [0..<DIGIT_COUNT]) [0..<DIGIT_COUNT]
      = Inr cells"
    by blast
  have "length createUniformDigitMatrix = 10"
    by (simp add: createUniformDigitMatrix_def DIGIT_COUNT_def)
  then show ?thesis
    unfolding normalizeMatrix_service_def cells sum.case Let_def using assms by simp
qed

lemma outerProduct_total: "\<exists>d. outerProduct a b = Inr d \<and> length d = 10"
proof -
  have "length (map (\<lambda>r. map (\<lambda>c. readNumber a r * readNumber b c) [0..<DIGIT_COUNT])
      [0..<DIGIT_COUNT]) = 10"
    by (simp add: DIGIT_COUNT_def del: upt_rec_numeral)
  then show ?thesis unfolding outerProduct_def by (rule normalizeMatrix_service_total)
qed

lemma buildFallbackModel_valid:
  "buildFallbackModel rows cols now = Inr r \<Longrightarrow> validLabels rows cols"
  unfolding buildFallbackModel_def mapDigitMatrixToBoard_service_def
  by (auto split: sum.splits dest: mapDigitMatrixToBoardWith_valid)

lemma buildFallbackModel_total:
  assumes "validLabels rows cols"
  shows "\<exists>r. buildFallbackModel rows cols now = Inr r
     \<and> sourceMode r = baseline \<and> sourcesUsed r = [fallback_model]
     \<and> warnings r =
         [''Live sports data sources were unavailable. Using a mathematically generated baseline model.'']
     \<and> generatedAt r = now"
proof -
  obtain d where d: "buildSimulationMatrix_service 23 21 = Inr d" "length d = 10"
    unfolding buildSimulationMatrix_service_def using outerProduct_total by blast
  have "10 \<le> length d" using d(2) by simp
  then obtain board where "mapDigitMatrixToBoard_service d rows cols = Inr board"
    unfolding mapDigitMatrixToBoard_service_def
    using mapDigitMatrixToBoardWith_total [OF assms] by blast
  then show ?thesis unfolding buildFallbackModel_def d(1) by simp
qed

lemma buildFallbackModel_short_labels:
  assumes "length rows \<noteq> 10 \<or> length cols \<noteq> 10"
  shows "buildFallbackModel rows cols now =
     Inl (Error ''Expected row and column labels to each have length 10.'')"
proof -
  obtain d where d: "buildSimulationMatrix_service 23 21 = Inr d"
    unfolding buildSimulationMatrix_service_def using outerProduct_total by blast
  have "mapDigitMatrixToBoard_service d rows cols =
     Inl (Error ''Expected row and column labels to each have length 10.'')"
    using assms
    by (auto simp: mapDigitMatrixToBoard_service_def mapDigitMatrixToBoardWith_def DIGIT_COUNT_def)
  then show ?thesis unfolding buildFallbackModel_def d by simp
qed

lemma resultOfModel_valid: "resultOfModel model rows cols = Inr r \<Longrightarrow> validLabels rows cols"
  unfolding resultOfModel_def mapDigitMatrixToBoard_service_def
  by (auto split: sum.splits dest: mapDigitMatrixToBoardWith_valid)

lemma tryBuildSquareOdds_valid:
  "tryBuildSquareOdds env inp homeCode awayCode w = (Inr r, w') \<Longrightarrow>
     validLabels (inputRowLabels inp) (inputColLabels inp)"
  unfolding tryBuildSquareOdds_def Let_def
  by (auto split: prod.splits sum.splits option.splits dest: resultOfModel_valid)

lemma resolveTeamCode_error:
  "resolveTeamCode name = Inl e \<Longrightarrow> e = Error (''Unsupported team name or code: '' @ name)"
  by (auto simp: resolveTeamCode_def split: option.splits)

lemma buildSquareOdds_resolved:
  assumes "resolveTeamCode (inputHomeTeamName inp) = Inr homeCode"
    and "resolveTeamCode (inputAwayTeamName inp) = Inr awayCode"
  shows "buildSquareOdds env inp w =
     (case tryBuildSquareOdds env inp homeCode awayCode w of
        (Inr result, w1) \<Rightarrow> (Inr result, w1)
      | (Inl error, w1) \<Rightarrow>
          (case buildFallbackModel (inputRowLabels inp) (inputColLabels inp) (currentTime env w1) of
             Inl e \<Rightarrow> (Inl e, w1)
           | Inr fallback \<Rightarrow>
               (case errorMessage error of
                  Some message \<Rightarrow> (Inr (fallback\<lparr> warnings := warnings fallback @ [message] \<rparr>), w1)
                | None \<Rightarrow> (Inr fallback, w1))))"
  unfolding buildSquareOdds_def assms by simp

lemma buildSquareOdds_returns_iff:
  assumes "resolveTeamCode (inputHomeTeamName inp) = Inr homeCode"
    and "resolveTeamCode (inputAwayTeamName inp) = Inr awayCode"
  shows "(\<exists>r w'. buildSquareOdds env inp w = (Inr r, w'))
     \<longleftrightarrow> validLabels (inputRowLabels inp) (inputColLabels inp)"
proof
  assume "\<exists>r w'. buildSquareOdds env inp w = (Inr r, w')"
  then obtain r w' where r: "buildSquareOdds env inp w = (Inr r, w')" by blast
  obtain attempt w1 where t: "tryBuildSquareOdds env inp homeCode awayCode w = (attempt, w1)"
    by (cases "tryBuildSquareOdds env inp homeCode awayCode w") auto
  show "validLabels (inputRowLabels inp) (inputColLabels inp)"
  proof (cases attempt)
    case (Inr result)
    then have "tryBuildSquareOdds env inp homeCode awayCode w = (Inr result, w1)"
      using t by simp
    then show ?thesis by (rule tryBuildSquareOdds_valid)
  next
    case (Inl error)
    then obtain fallback where
      "buildFallbackModel (inputRowLabels inp) (inputColLabels inp) (currentTime env w1) = Inr fallback"
      using r t unfolding buildSquareOdds_resolved [OF assms]
      by (auto split: sum.splits)
    then show ?thesis by (rule buildFallbackModel_valid)
  qed
next
  assume v: "validLabels (inputRowLabels inp) (inputColLabels inp)"
  obtain attempt w1 where t: "tryBuildSquareOdds env inp homeCode awayCode w = (attempt, w1)"
    by (cases "tryBuildSquareOdds env inp homeCode awayCode w") auto
  obtain fallback where
    f: "buildFallbackModel (inputRowLabels inp) (inputColLabels inp) (currentTime env w1) = Inr fallback"
    using buildFallbackModel_total [OF v] by blast
  show "\<exists>r w'. buildSquareOdds env inp w = (Inr r, w')"
    unfolding buildSquareOdds_resolved [OF assms] t
    by (cases attempt) (auto simp: f split: option.splits)
qed

lemma buildSquareOdds_source_failure:
  assumes "resolveTeamCode (inputHomeTeamName inp) = Inr homeCode"
    and "resolveTeamCode (inputAwayTeamName inp) = Inr awayCode"
    and "validLabels (inputRowLabels inp) (inputColLabels inp)"
    and "tryBuildSquareOdds env inp homeCode awayCode w = (Inl error, w1)"
    and "errorMessage error = Some message"
  shows "\<exists>r. buildSquareOdds env inp w = (Inr r, w1)
     \<and> sourceMode r = baseline \<and> sourcesUsed r = [fallback_model]
     \<and> warnings r =
         [''Live sports data sources were unavailable. Using a mathematically generated baseline model.'',
          message]"
proof -
  obtain fallback where
    f: "buildFallbackModel (inputRowLabels inp) (inputColLabels inp) (currentTime env w1) = Inr fallback"
    and m: "sourceMode fallback = baseline" "sourcesUsed fallback = [fallback_model]"
      "warnings fallback =
         [''Live sports data sources were unavailable. Using a mathematically generated baseline model.'']"
    using buildFallbackModel_total [OF assms(3)] by blast
  show ?thesis
    unfolding buildSquareOdds_resolved [OF assms(1,2)] assms(4) using assms(5) m
    by (simp add: f)
qed

lemma normalized_team_ids:
  "map (\<lambda>team. normalizeText_service (teamId team)) NFL_TEAMS =
     [''ari'', ''atl'', ''bal'', ''buf'', ''car'', ''chi'', ''cin'', ''cle'',
      ''dal'', ''den'', ''det'', ''gb'', ''hou'', ''ind'', ''jax'', ''kc'',
      ''lv'', ''lac'', ''lar'', ''mia'', ''min'', ''ne'', ''no'', ''nyg'',
      ''nyj'', ''phi'', ''pit'', ''sf'', ''sea'', ''tb'', ''ten'', ''was'']"
  by code_simp

lemma normalized_team_names:
  "map (\<lambda>team. normalizeText_service (teamName team)) NFL_TEAMS =
     [''cardinals'', ''falcons'', ''ravens'', ''bills'', ''panthers'', ''bears'', ''bengals'', ''browns'',
      ''cowboys'', ''broncos'', ''lions'', ''packers'', ''texans'', ''colts'', ''jaguars'', ''chiefs'',
      ''raiders'', ''chargers'', ''rams'', ''dolphins'', ''vikings'', ''patriots'', ''saints'', ''giants'',
      ''jets'', ''eagles'', ''steelers'', ''49ers'', ''seahawks'', ''buccaneers'', ''titans'', ''commanders'']"
  by code_simp

lemma find_by_key:
  "find (\<lambda>x. P (f x)) xs = map_option snd (find (\<lambda>p. P (fst p)) (zip (map f xs) xs))"
  by (induction xs) simp_all

lemma findTeamByNameOrCode_table:
  "findTeamByNameOrCode teamNameOrCode =
     (let normalized = normalizeText_service teamNameOrCode;
          ids = zip (map (\<lambda>team. normalizeText_service (teamId team)) NFL_TEAMS) NFL_TEAMS;
          names = zip (map (\<lambda>team. normalizeText_service (teamName team)) NFL_TEAMS) NFL_TEAMS
      in case map_option snd (find (\<lambda>p. fst p = normalized) ids) of
           Some team \<Rightarrow> Some team
         | None \<Rightarrow>
        (case map_option snd (find (\<lambda>p. fst p = normalized) names) of
           Some team \<Rightarrow> Some team
         | None \<Rightarrow> map_option snd (find (\<lambda>p. endsWith normalized (fst p)) names)))"
proof -
  have a: "find (\<lambda>team. normalizeText_service (teamId team) = normalizeText_service teamNameOrCode)
        NFL_TEAMS
      = map_option snd (find (\<lambda>p. fst p = normalizeText_service teamNameOrCode)
          (zip (map (\<lambda>team. normalizeText_service (teamId team)) NFL_TEAMS) NFL_TEAMS))"
    by (rule find_by_key [of "\<lambda>k. k = normalizeText_service teamNameOrCode"])
  have b: "find (\<lambda>team. normalizeText_service (teamName team) = normalizeText_service teamNameOrCode)
        NFL_TEAMS
      = map_option snd (find (\<lambda>p. fst p = normalizeText_service teamNameOrCode)
          (zip (map (\<lambda>team. normalizeText_service (teamName team)) NFL_TEAMS) NFL_TEAMS))"
    by (rule find_by_key [of "\<lambda>k. k = normalizeText_service teamNameOrCode"])
  have c: "find (\<lambda>team. endsWith (normalizeText_service teamNameOrCode)
          (normalizeText_service (teamName team))) NFL_TEAMS
      = map_option snd (find (\<lambda>p. endsWith (normalizeText_service teamNameOrCode) (fst p))
          (zip (map (\<lambda>team. normalizeText_service (teamName team)) NFL_TEAMS) NFL_TEAMS))"
    by (rule find_by_key [of "\<lambda>k. endsWith (normalizeText_service teamNameOrCode) k"])
  show ?thesis
    unfolding findTeamByNameOrCode_def Let_def a b c by (rule refl)
qed

lemma example_teams:
  "resolveTeamCode ''Seahawks'' = Inr ''SEA''"
  "resolveTeamCode ''Patriots'' = Inr ''NE''"
  "resolveTeamCode ''Martians'' = Inl (Error ''Unsupported team name or code: Martians'')"
proof -
  have n: "normalizeText_service ''Seahawks'' = ''seahawks''"
    "normalizeText_service ''Patriots'' = ''patriots''"
    "normalizeText_service ''Martians'' = ''martians''"
    by code_simp+
  show "resolveTeamCode ''Seahawks'' = Inr ''SEA''"
    unfolding resolveTeamCode_def findTeamByNameOrCode_table Let_def n
      normalized_team_ids normalized_team_names
    by code_simp
  show "resolveTeamCode ''Patriots'' = Inr ''NE''"
    unfolding resolveTeamCode_def findTeamByNameOrCode_table Let_def n
      normalized_team_ids normalized_team_names
    by code_simp
  show "resolveTeamCode ''Martians'' = Inl (Error ''Unsupported team name or code: Martians'')"
    unfolding resolveTeamCode_def findTeamByNameOrCode_table Let_def n
      normalized_team_ids normalized_team_names
    by code_simp
qed

text \<open>The model built from the sources: \<^verbatim>\<open>buildSmartDigitModel\<close> never throws.\<close>

lemma toDigit_less: "toDigit score < 10"
  by (simp add: toDigit_def jsRem_twice)

lemma baselineStep_length:
  "length (fst (baselineStep startSeason latestSeason state game)) = length (fst state)"
  by (cases state) (simp add: baselineStep_def Let_def)

lemma baseline_fold_length:
  "length (fst (foldl (baselineStep startSeason latestSeason) state games)) = length (fst state)"
  by (induction games arbitrary: state) (simp_all add: baselineStep_length)

lemma buildBaselineMatrix_total:
  "\<exists>matrix played. buildBaselineMatrix games latestSeason = Inr (matrix, played)
     \<and> length matrix = 10"
proof -
  obtain counts played where
    fold: "foldl (baselineStep (max 1999 (latestSeason - 15)) latestSeason)
        (replicate DIGIT_COUNT (replicate DIGIT_COUNT 1), 0) games = (counts, played)"
    by fastforce
  have "length counts = 10"
    using baseline_fold_length [of "max 1999 (latestSeason - 15)" latestSeason
        "(replicate DIGIT_COUNT (replicate DIGIT_COUNT 1), 0)" games] fold
    by (simp add: DIGIT_COUNT_def)
  then obtain d where "normalizeMatrix_service counts = Inr d" "length d = 10"
    using normalizeMatrix_service_total by blast
  then show ?thesis
    unfolding buildBaselineMatrix_def Let_def fold by simp
qed

lemma buildTeamDigitMatrix_total:
  "\<exists>d. buildTeamDigitMatrix homeContext awayContext homeRecent awayRecent = Inr d \<and> length d = 10"
  unfolding buildTeamDigitMatrix_def Let_def by (rule outerProduct_total)

lemma buildSimulationMatrix_service_total:
  "\<exists>d. buildSimulationMatrix_service h a = Inr d \<and> length d = 10"
  unfolding buildSimulationMatrix_service_def by (rule outerProduct_total)

lemma blendMatrixStep_total:
  assumes "10 \<le> length matrix" and "length cells = 10"
  shows "\<exists>cells' wt'. blendMatrixStep (Inr (cells, wt)) (matrix, weight) = Inr (cells', wt')
     \<and> length cells' = 10"
proof (cases "weight \<le> 0")
  case True
  then show ?thesis using assms(2) by (simp add: blendMatrixStep_def)
next
  case False
  let ?cell = "\<lambda>r c. case readCell matrix r c of
                       Inl e \<Rightarrow> Inl e
                     | Inr v \<Rightarrow> Inr (cells ! r ! c + v * weight)"
  have row: "\<exists>y. traverse (?cell r) [0..<DIGIT_COUNT] = Inr y" if "r < 10" for r
  proof (rule traverse_total)
    fix c
    have "r < length matrix" using that assms by linarith
    then obtain v where "readCell matrix r c = Inr v" using readCell_total by blast
    then show "\<exists>y. ?cell r c = Inr y" by simp
  qed
  have "\<exists>cells'. traverse (\<lambda>r. traverse (?cell r) [0..<DIGIT_COUNT]) [0..<DIGIT_COUNT] = Inr cells'"
  proof (rule traverse_total)
    fix r assume "r \<in> set [0..<DIGIT_COUNT]"
    then have "r < 10" by (simp add: DIGIT_COUNT_def del: upt_rec_numeral)
    then show "\<exists>y. traverse (?cell r) [0..<DIGIT_COUNT] = Inr y" by (rule row)
  qed
  then obtain cells' where
    out: "traverse (\<lambda>r. traverse (?cell r) [0..<DIGIT_COUNT]) [0..<DIGIT_COUNT] = Inr cells'"
    by blast
  have "length cells' = length [0..<DIGIT_COUNT]" using out by (rule traverse_length)
  then have "length cells' = 10" by (simp add: DIGIT_COUNT_def del: upt_rec_numeral)
  then show ?thesis
    using False unfolding blendMatrixStep_def Let_def prod.case sum.case out by simp
qed

lemma blend_fold_total:
  assumes "\<forall>part\<in>set parts. 10 \<le> length (fst part)" and "length cells = 10"
  shows "\<exists>cells' wt'. foldl blendMatrixStep (Inr (cells, wt)) parts = Inr (cells', wt')
     \<and> length cells' = 10"
  using assms
proof (induction parts arbitrary: cells wt)
  case Nil
  then show ?case by simp
next
  case (Cons part parts)
  obtain matrix weight where part: "part = (matrix, weight)" by (cases part)
  have m: "10 \<le> length matrix" using Cons.prems(1) part by simp
  have rest: "\<forall>part\<in>set parts. 10 \<le> length (fst part)" using Cons.prems(1) by simp
  obtain cells1 wt1 where step: "blendMatrixStep (Inr (cells, wt)) (matrix, weight) = Inr (cells1, wt1)"
    and len: "length cells1 = 10"
    using blendMatrixStep_total [OF m Cons.prems(2)] by blast
  show ?case
    using Cons.IH [OF rest len, of wt1] by (simp add: part step)
qed

lemma blendMatrices_service_total:
  assumes "\<forall>part\<in>set parts. 10 \<le> length (fst part)"
  shows "\<exists>d. blendMatrices_service parts = Inr d \<and> length d = 10"
proof -
  have "length createZeroMatrix = 10" by (rule createZeroMatrix_shape(1))
  from blend_fold_total [OF assms this, of 0] obtain cells wt where
    fold: "foldl blendMatrixStep (Inr (createZeroMatrix, 0)) parts = Inr (cells, wt)"
    and len: "length cells = 10"
    by blast
  obtain d where d: "normalizeMatrix_service cells = Inr d" "length d = 10"
    using normalizeMatrix_service_total [OF len] by blast
  have u: "length createUniformDigitMatrix = 10"
    by (simp add: createUniformDigitMatrix_def DIGIT_COUNT_def)
  show ?thesis
    unfolding blendMatrices_service_def fold using d u by simp
qed

lemma smartModelNumbers_total:
  assumes "length baselineMatrix = 10"
  shows "\<exists>digits homePoints awayPoints.
     smartModelNumbers baselineMatrix homeContext awayContext leagueAvgPoints latestSeason
       homeCode awayCode moneylines homeEspnStats awayEspnStats homeRecent awayRecent
       = Inr (digits, homePoints, awayPoints) \<and> length digits = 10"
proof -
  obtain teamMatrix where team: "buildTeamDigitMatrix homeContext awayContext homeRecent awayRecent
      = Inr teamMatrix" and tlen: "length teamMatrix = 10"
    using buildTeamDigitMatrix_total by blast
  have blend: "\<exists>digits. (case buildSimulationMatrix_service h a of
              Inl e \<Rightarrow> Inl e
            | Inr simulationMatrix \<Rightarrow>
                (case blendMatrices_service
                      [(baselineMatrix, bw), (teamMatrix, tw), (simulationMatrix, sw)] of
                 Inl e \<Rightarrow> Inl e
               | Inr digits \<Rightarrow> Inr (digits, h, a))) = Inr (digits, h, a) \<and> length digits = 10"
    for h a bw tw sw
  proof -
    obtain sim where sim: "buildSimulationMatrix_service h a = Inr sim" "length sim = 10"
      using buildSimulationMatrix_service_total by blast
    have "\<forall>part\<in>set [(baselineMatrix, bw), (teamMatrix, tw), (sim, sw)]. 10 \<le> length (fst part)"
      using assms tlen sim(2) by simp
    then obtain d where "blendMatrices_service [(baselineMatrix, bw), (teamMatrix, tw), (sim, sw)]
        = Inr d" "length d = 10"
      using blendMatrices_service_total by blast
    then show ?thesis using sim(1) by simp
  qed
  show ?thesis
    unfolding smartModelNumbers_def Let_def team sum.case split_beta
    using blend by blast
qed
lemma buildSmartDigitModel_games_fail:
  assumes "loadGames env w = (Inl e, w1)"
  shows "\<exists>digits. buildSmartDigitModel env homeCode awayCode w =
       (Inr \<lparr> digitProbabilities = digits,
              generatedAt = currentTime env w1,
              sourceMode = baseline,
              sourcesUsed = [fallback_model],
              warnings =
                [''Unable to load NFL historical games dataset. Falling back to baseline simulation only.''],
              expectedHomePoints = 23,
              expectedAwayPoints = 21 \<rparr>, w1)
     \<and> length digits = 10"
proof -
  obtain d where "buildSimulationMatrix_service 23 21 = Inr d" "length d = 10"
    using buildSimulationMatrix_service_total by blast
  then show ?thesis
    unfolding buildSmartDigitModel_def assms prod.case sum.case by simp
qed

lemma buildSmartDigitModel_games_ok:
  assumes games: "loadGames env w = (Inr games, w1)"
    and moneylines: "loadClosingMoneylines env w1 = (moneylineResult, w2)"
    and teams: "getEspnTeams env w2 = (espnTeamsResult, w3)"
    and homeStats: "getEspnTeamStats env homeCode w3 = (homeEspnStats, w4)"
    and awayStats: "getEspnTeamStats env awayCode w4 = (awayEspnStats, w5)"
    and homeRecent: "getSportsDbRecentForm env homeCode
        (displayCandidates (case espnTeamsResult of Inl e \<Rightarrow> (\<lambda>code. None) | Inr teams \<Rightarrow> teams)
           homeCode) w5 = (homeSportsDbRecent, w6)"
    and awayRecent: "getSportsDbRecentForm env awayCode
        (displayCandidates (case espnTeamsResult of Inl e \<Rightarrow> (\<lambda>code. None) | Inr teams \<Rightarrow> teams)
           awayCode) w6 = (awaySportsDbRecent, w7)"
  shows "\<exists>digits homePoints awayPoints. buildSmartDigitModel env homeCode awayCode w =
       (Inr \<lparr> digitProbabilities = digits,
              generatedAt = currentTime env w7,
              sourceMode =
                (if 3 \<le> length
                     ([nflverse_games]
                        @ (case moneylineResult of Inl e \<Rightarrow> [] | Inr rows \<Rightarrow> [nflverse_closing_lines])
                        @ (if homeEspnStats \<noteq> None \<or> awayEspnStats \<noteq> None
                           then [espn_team_stats] else [])
                        @ (if homeSportsDbRecent \<noteq> None \<or> awaySportsDbRecent \<noteq> None
                           then [thesportsdb_recent_form] else []))
                 then full else baseline),
              sourcesUsed =
                [nflverse_games]
                  @ (case moneylineResult of Inl e \<Rightarrow> [] | Inr rows \<Rightarrow> [nflverse_closing_lines])
                  @ (if homeEspnStats \<noteq> None \<or> awayEspnStats \<noteq> None
                     then [espn_team_stats] else [])
                  @ (if homeSportsDbRecent \<noteq> None \<or> awaySportsDbRecent \<noteq> None
                     then [thesportsdb_recent_form] else []),
              warnings =
                (if buildTeamContext games homeCode (getLatestSeason games) = None
                    \<or> buildTeamContext games awayCode (getLatestSeason games) = None
                 then [''Limited team history found for one or both teams. Probabilities rely more heavily on league baseline.'']
                 else [])
                  @ (if espnTeamsRejectFirst env w3
                     then (case espnTeamsResult of
                             Inl e \<Rightarrow> [''ESPN team metadata unavailable. Team-level API stats reduced.'']
                           | Inr teams \<Rightarrow> [])
                          @ (case moneylineResult of
                               Inl e \<Rightarrow> [''Moneyline data could not be loaded. Market adjustments disabled.'']
                             | Inr rows \<Rightarrow> [])
                     else (case moneylineResult of
                             Inl e \<Rightarrow> [''Moneyline data could not be loaded. Market adjustments disabled.'']
                           | Inr rows \<Rightarrow> [])
                          @ (case espnTeamsResult of
                               Inl e \<Rightarrow> [''ESPN team metadata unavailable. Team-level API stats reduced.'']
                             | Inr teams \<Rightarrow> []))
                  @ (if homeEspnStats \<noteq> None \<or> awayEspnStats \<noteq> None then []
                     else [''ESPN team stats unavailable. Expected-points model uses historical-only inputs.''])
                  @ (if homeSportsDbRecent \<noteq> None \<or> awaySportsDbRecent \<noteq> None then []
                     else [''Recent form feed unavailable. Team trend model uses historical games only.'']),
              expectedHomePoints = homePoints,
              expectedAwayPoints = awayPoints \<rparr>, w7)
     \<and> length digits = 10"
proof -
  obtain baselineMatrix played where
    base: "buildBaselineMatrix games (getLatestSeason games) = Inr (baselineMatrix, played)"
    and blen: "length baselineMatrix = 10"
    using buildBaselineMatrix_total by blast
  have fin: "\<exists>digits homePoints awayPoints.
      (case smartModelNumbers baselineMatrix hc ac la ls h a ms hs as hr ar of
         Inl e \<Rightarrow> (Inl e, w')
       | Inr (digits, homePoints, awayPoints) \<Rightarrow> (Inr (F digits homePoints awayPoints), w'))
      = (Inr (F digits homePoints awayPoints), w') \<and> length digits = 10"
    for hc ac la ls h a ms hs as hr ar w' and F :: "DigitProbabilityMatrix \<Rightarrow> jsnum \<Rightarrow> jsnum \<Rightarrow> CachedDigitModel"
  proof -
    obtain digits hp ap where
      "smartModelNumbers baselineMatrix hc ac la ls h a ms hs as hr ar = Inr (digits, hp, ap)"
      "length digits = 10"
      using smartModelNumbers_total [OF blen] by blast
    then show ?thesis by auto
  qed
  show ?thesis
    unfolding buildSmartDigitModel_def Let_def games moneylines teams homeStats awayStats
      homeRecent awayRecent prod.case sum.case base
    by (rule fin)
qed
lemma buildSmartDigitModel_returns:
  "\<exists>model w'. buildSmartDigitModel env homeCode awayCode w = (Inr model, w')
     \<and> length (digitProbabilities model) = 10"
proof -
  obtain gamesResult w1 where games: "loadGames env w = (gamesResult, w1)" by fastforce
  show ?thesis
  proof (cases gamesResult)
    case (Inl e)
    then have "loadGames env w = (Inl e, w1)" using games by simp
    from buildSmartDigitModel_games_fail [OF this, of homeCode awayCode]
    show ?thesis by auto
  next
    case (Inr rows)
    then have g: "loadGames env w = (Inr rows, w1)" using games by simp
    obtain moneylineResult w2 where m: "loadClosingMoneylines env w1 = (moneylineResult, w2)"
      by fastforce
    obtain espnTeamsResult w3 where t: "getEspnTeams env w2 = (espnTeamsResult, w3)"
      by fastforce
    obtain homeEspnStats w4 where hs: "getEspnTeamStats env homeCode w3 = (homeEspnStats, w4)"
      by fastforce
    obtain awayEspnStats w5 where as: "getEspnTeamStats env awayCode w4 = (awayEspnStats, w5)"
      by fastforce
    obtain homeSportsDbRecent w6 where hr: "getSportsDbRecentForm env homeCode
        (displayCandidates (case espnTeamsResult of Inl e \<Rightarrow> (\<lambda>code. None) | Inr teams \<Rightarrow> teams)
           homeCode) w5 = (homeSportsDbRecent, w6)"
      by fastforce
    obtain awaySportsDbRecent w7 where ar: "getSportsDbRecentForm env awayCode
        (displayCandidates (case espnTeamsResult of Inl e \<Rightarrow> (\<lambda>code. None) | Inr teams \<Rightarrow> teams)
           awayCode) w6 = (awaySportsDbRecent, w7)"
      by fastforce
    from buildSmartDigitModel_games_ok [OF g m t hs as hr ar]
    show ?thesis by auto
  qed
qed

lemma buildSmartDigitModel_length:
  "buildSmartDigitModel env homeCode awayCode w = (Inr model, w') \<Longrightarrow>
     length (digitProbabilities model) = 10"
  using buildSmartDigitModel_returns [of env homeCode awayCode w] by auto

lemma resultOfModel_total:
  assumes "validLabels rows cols" and "10 \<le> length (digitProbabilities model)"
  shows "\<exists>r. resultOfModel model rows cols = Inr r
     \<and> warnings r = warnings model \<and> sourcesUsed r = sourcesUsed model
     \<and> sourceMode r = sourceMode model \<and> digitProbabilities r = digitProbabilities model"
proof -
  obtain board where
    "mapDigitMatrixToBoard_service (digitProbabilities model) rows cols = Inr board"
    unfolding mapDigitMatrixToBoard_service_def
    using mapDigitMatrixToBoardWith_total [OF assms] by blast
  then show ?thesis by (simp add: resultOfModel_def)
qed

lemma buildSquareOdds_cache_miss:
  assumes home: "resolveTeamCode (inputHomeTeamName inp) = Inr homeCode"
    and away: "resolveTeamCode (inputAwayTeamName inp) = Inr awayCode"
    and labels: "validLabels (inputRowLabels inp) (inputColLabels inp)"
    and miss: "readCachedEntry env (MODEL_CACHE_PREFIX @ '':'' @ homeCode @ '':'' @ awayCode) w
       = (Inr None, w1)"
    and model: "buildSmartDigitModel env homeCode awayCode w1 = (Inr model, w2)"
    and written: "writeCachedEntry env (MODEL_CACHE_PREFIX @ '':'' @ homeCode @ '':'' @ awayCode)
       model w2 = (Inr u, w3)"
  shows "\<exists>r. buildSquareOdds env inp w = (Inr r, w3)
     \<and> warnings r = warnings model \<and> sourcesUsed r = sourcesUsed model
     \<and> sourceMode r = sourceMode model \<and> digitProbabilities r = digitProbabilities model"
proof -
  have "10 \<le> length (digitProbabilities model)"
    using buildSmartDigitModel_length [OF model] by simp
  then obtain r where r: "resultOfModel model (inputRowLabels inp) (inputColLabels inp) = Inr r"
    and same: "warnings r = warnings model \<and> sourcesUsed r = sourcesUsed model
     \<and> sourceMode r = sourceMode model \<and> digitProbabilities r = digitProbabilities model"
    using resultOfModel_total [OF labels] by blast
  have "tryBuildSquareOdds env inp homeCode awayCode w = (Inr r, w3)"
    unfolding tryBuildSquareOdds_def Let_def miss prod.case sum.case option.case model written r
    by (rule refl)
  then have "buildSquareOdds env inp w = (Inr r, w3)"
    unfolding buildSquareOdds_resolved [OF home away] by simp
  then show ?thesis using same by blast
qed

lemma example_latest_season: "getLatestSeason exampleGames = 2025"
  by (simp add: getLatestSeason_def exampleGames_def)

lemma example_contexts:
  "buildTeamContext exampleGames ''SEA'' 2025 \<noteq> None"
  "buildTeamContext exampleGames ''NE'' 2025 \<noteq> None"
  by (simp_all add: buildTeamContext_def exampleGames_def sortByGamedayDescending_def Let_def
      jsnum_consts)
lemma exampleEnvironment_model:
  "\<exists>digits. buildSmartDigitModel exampleEnvironment homeCode awayCode w =
       (Inr \<lparr> digitProbabilities = digits,
              generatedAt = ''2026-02-08T20:00:00.000Z'',
              sourceMode = baseline,
              sourcesUsed = [fallback_model],
              warnings =
                [''Unable to load NFL historical games dataset. Falling back to baseline simulation only.''],
              expectedHomePoints = 23,
              expectedAwayPoints = 21 \<rparr>, w + 1)
     \<and> length digits = 10"
proof -
  have "loadGames exampleEnvironment w = (Inl (TypeError ''Failed to fetch''), w + 1)"
    by (simp add: exampleEnvironment_def)
  from buildSmartDigitModel_games_fail [OF this, of homeCode awayCode]
  show ?thesis by (simp add: exampleEnvironment_def)
qed

lemma homeStatsFailEnvironment_model:
  "\<exists>digits homePoints awayPoints.
     buildSmartDigitModel homeStatsFailEnvironment ''SEA'' ''NE'' 0 =
       (Inr \<lparr> digitProbabilities = digits,
              generatedAt = ''2026-02-08T20:00:00.000Z'',
              sourceMode = full,
              sourcesUsed =
                [nflverse_games, nflverse_closing_lines, espn_team_stats, thesportsdb_recent_form],
              warnings = [],
              expectedHomePoints = homePoints,
              expectedAwayPoints = awayPoints \<rparr>, 7)
     \<and> length digits = 10"
proof -
  let ?env = homeStatsFailEnvironment
  have g: "loadGames ?env 0 = (Inr exampleGames, 1)"
    and m: "loadClosingMoneylines ?env 1 = (Inr [], 2)"
    and t: "getEspnTeams ?env 2 = (Inr exampleDescriptors, 3)"
    and hs: "getEspnTeamStats ?env ''SEA'' 3 = (None, 4)"
    and as: "getEspnTeamStats ?env ''NE'' 4 = (Some exampleStats, 5)"
    and hr: "getSportsDbRecentForm ?env ''SEA''
        (displayCandidates (case Inr exampleDescriptors of Inl e \<Rightarrow> (\<lambda>code. None) | Inr teams \<Rightarrow> teams)
           ''SEA'') 5 = (Some exampleRecentForm, 6)"
    and ar: "getSportsDbRecentForm ?env ''NE''
        (displayCandidates (case Inr exampleDescriptors of Inl e \<Rightarrow> (\<lambda>code. None) | Inr teams \<Rightarrow> teams)
           ''NE'') 6 = (Some exampleRecentForm, 7)"
    by (simp_all add: homeStatsFailEnvironment_def)
  from buildSmartDigitModel_games_ok [OF g m t hs as hr ar]
  show ?thesis
    by (simp add: example_latest_season example_contexts homeStatsFailEnvironment_def)
qed
text \<open>
  Claim C2, as amended. \<^verbatim>\<open>buildSquareOdds\<close> throws exactly when the home or the away team
  does not resolve or the labels are not valid (ten row and ten column labels, each an
  integer from 0 to 9). The unsupported-team error is thrown before anything outside the
  function is called: the world is as it was. When both teams resolve and the labels are
  valid the call returns a result. An exception inside the \<^verbatim>\<open>try\<close> block that carries a
  message returns the fallback model with that message appended to its warnings. No
  failure of a source is such an exception: \<^verbatim>\<open>buildSmartDigitModel\<close> always returns a
  model. When the games cannot be loaded it is the baseline simulation with one warning;
  otherwise the moneylines and the ESPN team metadata each add a warning when they fail,
  and the ESPN team stats and the recent form add theirs only when they fail for both
  teams. On a cache miss the result carries the warnings, the sources and the source mode
  of that model.
\<close>

theorem buildSquareOdds_throws_iff:
  "((\<exists>e. fst (buildSquareOdds env inp w) = Inl e) \<longleftrightarrow>
      (\<exists>e. resolveTeamCode (inputHomeTeamName inp) = Inl e)
      \<or> (\<exists>e. resolveTeamCode (inputAwayTeamName inp) = Inl e)
      \<or> \<not> validLabels (inputRowLabels inp) (inputColLabels inp))
   \<and> (\<forall>e. resolveTeamCode (inputHomeTeamName inp) = Inl e \<longrightarrow>
         buildSquareOdds env inp w =
           (Inl (Error (''Unsupported team name or code: '' @ inputHomeTeamName inp)), w))
   \<and> (\<forall>homeCode e. resolveTeamCode (inputHomeTeamName inp) = Inr homeCode
           \<and> resolveTeamCode (inputAwayTeamName inp) = Inl e \<longrightarrow>
         buildSquareOdds env inp w =
           (Inl (Error (''Unsupported team name or code: '' @ inputAwayTeamName inp)), w))
   \<and> (\<forall>homeCode awayCode error w1 message.
         resolveTeamCode (inputHomeTeamName inp) = Inr homeCode
           \<and> resolveTeamCode (inputAwayTeamName inp) = Inr awayCode
           \<and> validLabels (inputRowLabels inp) (inputColLabels inp)
           \<and> tryBuildSquareOdds env inp homeCode awayCode w = (Inl error, w1)
           \<and> errorMessage error = Some message \<longrightarrow>
         (\<exists>r. buildSquareOdds env inp w = (Inr r, w1)
            \<and> sourceMode r = baseline \<and> sourcesUsed r = [fallback_model]
            \<and> warnings r =
                [''Live sports data sources were unavailable. Using a mathematically generated baseline model.'',
                 message]))
   \<and> (\<forall>homeCode awayCode w1. \<exists>model w2.
         buildSmartDigitModel env homeCode awayCode w1 = (Inr model, w2))
   \<and> (\<forall>homeCode awayCode w1 e w2.
         loadGames env w1 = (Inl e, w2) \<longrightarrow>
         (\<exists>model. buildSmartDigitModel env homeCode awayCode w1 = (Inr model, w2)
            \<and> sourceMode model = baseline \<and> sourcesUsed model = [fallback_model]
            \<and> warnings model =
                [''Unable to load NFL historical games dataset. Falling back to baseline simulation only.'']))
   \<and> (\<forall>homeCode awayCode w1 games w2 moneylineResult w3 espnTeamsResult w4 homeEspnStats w5
         awayEspnStats w6 homeSportsDbRecent w7 awaySportsDbRecent w8.
         loadGames env w1 = (Inr games, w2)
           \<and> loadClosingMoneylines env w2 = (moneylineResult, w3)
           \<and> getEspnTeams env w3 = (espnTeamsResult, w4)
           \<and> getEspnTeamStats env homeCode w4 = (homeEspnStats, w5)
           \<and> getEspnTeamStats env awayCode w5 = (awayEspnStats, w6)
           \<and> getSportsDbRecentForm env homeCode
               (displayCandidates
                  (case espnTeamsResult of Inl e \<Rightarrow> (\<lambda>code. None) | Inr teams \<Rightarrow> teams) homeCode)
               w6 = (homeSportsDbRecent, w7)
           \<and> getSportsDbRecentForm env awayCode
               (displayCandidates
                  (case espnTeamsResult of Inl e \<Rightarrow> (\<lambda>code. None) | Inr teams \<Rightarrow> teams) awayCode)
               w7 = (awaySportsDbRecent, w8) \<longrightarrow>
         (\<exists>model. buildSmartDigitModel env homeCode awayCode w1 = (Inr model, w8)
            \<and> warnings model =
                (if buildTeamContext games homeCode (getLatestSeason games) = None
                    \<or> buildTeamContext games awayCode (getLatestSeason games) = None
                 then [''Limited team history found for one or both teams. Probabilities rely more heavily on league baseline.'']
                 else [])
                  @ (if espnTeamsRejectFirst env w4
                     then (case espnTeamsResult of
                             Inl e \<Rightarrow> [''ESPN team metadata unavailable. Team-level API stats reduced.'']
                           | Inr teams \<Rightarrow> [])
                          @ (case moneylineResult of
                               Inl e \<Rightarrow> [''Moneyline data could not be loaded. Market adjustments disabled.'']
                             | Inr rows \<Rightarrow> [])
                     else (case moneylineResult of
                             Inl e \<Rightarrow> [''Moneyline data could not be loaded. Market adjustments disabled.'']
                           | Inr rows \<Rightarrow> [])
                          @ (case espnTeamsResult of
                               Inl e \<Rightarrow> [''ESPN team metadata unavailable. Team-level API stats reduced.'']
                             | Inr teams \<Rightarrow> []))
                  @ (if homeEspnStats \<noteq> None \<or> awayEspnStats \<noteq> None then []
                     else [''ESPN team stats unavailable. Expected-points model uses historical-only inputs.''])
                  @ (if homeSportsDbRecent \<noteq> None \<or> awaySportsDbRecent \<noteq> None then []
                     else [''Recent form feed unavailable. Team trend model uses historical games only.''])
            \<and> sourcesUsed model =
                [nflverse_games]
                  @ (case moneylineResult of Inl e \<Rightarrow> [] | Inr rows \<Rightarrow> [nflverse_closing_lines])
                  @ (if homeEspnStats \<noteq> None \<or> awayEspnStats \<noteq> None
                     then [espn_team_stats] else [])
                  @ (if homeSportsDbRecent \<noteq> None \<or> awaySportsDbRecent \<noteq> None
                     then [thesportsdb_recent_form] else [])
            \<and> sourceMode model = (if 3 \<le> length (sourcesUsed model) then full else baseline)))
   \<and> (\<forall>homeCode awayCode w1 model w2 w3.
         resolveTeamCode (inputHomeTeamName inp) = Inr homeCode
           \<and> resolveTeamCode (inputAwayTeamName inp) = Inr awayCode
           \<and> validLabels (inputRowLabels inp) (inputColLabels inp)
           \<and> readCachedEntry env (MODEL_CACHE_PREFIX @ '':'' @ homeCode @ '':'' @ awayCode) w
               = (Inr None, w1)
           \<and> buildSmartDigitModel env homeCode awayCode w1 = (Inr model, w2)
           \<and> writeCachedEntry env (MODEL_CACHE_PREFIX @ '':'' @ homeCode @ '':'' @ awayCode)
               model w2 = (Inr (), w3) \<longrightarrow>
         (\<exists>r. buildSquareOdds env inp w = (Inr r, w3)
            \<and> warnings r = warnings model \<and> sourcesUsed r = sourcesUsed model
            \<and> sourceMode r = sourceMode model))"
proof (intro conjI allI impI)
  show "(\<exists>e. fst (buildSquareOdds env inp w) = Inl e) \<longleftrightarrow>
      (\<exists>e. resolveTeamCode (inputHomeTeamName inp) = Inl e)
      \<or> (\<exists>e. resolveTeamCode (inputAwayTeamName inp) = Inl e)
      \<or> \<not> validLabels (inputRowLabels inp) (inputColLabels inp)"
  proof (cases "resolveTeamCode (inputHomeTeamName inp)")
    case (Inl e)
    then show ?thesis by (simp add: buildSquareOdds_def)
  next
    case home: (Inr homeCode)
    show ?thesis
    proof (cases "resolveTeamCode (inputAwayTeamName inp)")
      case (Inl e)
      then show ?thesis using home by (simp add: buildSquareOdds_def)
    next
      case away: (Inr awayCode)
      have "(\<exists>e. fst (buildSquareOdds env inp w) = Inl e)
          \<longleftrightarrow> \<not> (\<exists>r w'. buildSquareOdds env inp w = (Inr r, w'))"
        by (cases "buildSquareOdds env inp w"; cases "fst (buildSquareOdds env inp w)") auto
      then show ?thesis
        using buildSquareOdds_returns_iff [OF home away, of env w] home away by simp
    qed
  qed
next
  fix e assume "resolveTeamCode (inputHomeTeamName inp) = Inl e"
  then show "buildSquareOdds env inp w =
      (Inl (Error (''Unsupported team name or code: '' @ inputHomeTeamName inp)), w)"
    using resolveTeamCode_error [of "inputHomeTeamName inp" e] by (simp add: buildSquareOdds_def)
next
  fix homeCode e
  assume "resolveTeamCode (inputHomeTeamName inp) = Inr homeCode
           \<and> resolveTeamCode (inputAwayTeamName inp) = Inl e"
  then show "buildSquareOdds env inp w =
      (Inl (Error (''Unsupported team name or code: '' @ inputAwayTeamName inp)), w)"
    using resolveTeamCode_error [of "inputAwayTeamName inp" e] by (simp add: buildSquareOdds_def)
next
  fix homeCode awayCode error w1 message
  assume "resolveTeamCode (inputHomeTeamName inp) = Inr homeCode
           \<and> resolveTeamCode (inputAwayTeamName inp) = Inr awayCode
           \<and> validLabels (inputRowLabels inp) (inputColLabels inp)
           \<and> tryBuildSquareOdds env inp homeCode awayCode w = (Inl error, w1)
           \<and> errorMessage error = Some message"
  then show "\<exists>r. buildSquareOdds env inp w = (Inr r, w1)
            \<and> sourceMode r = baseline \<and> sourcesUsed r = [fallback_model]
            \<and> warnings r =
                [''Live sports data sources were unavailable. Using a mathematically generated baseline model.'',
                 message]"
    using buildSquareOdds_source_failure [of inp homeCode awayCode env w error w1 message]
    by blast
next
  fix homeCode awayCode w1
  show "\<exists>model w2. buildSmartDigitModel env homeCode awayCode w1 = (Inr model, w2)"
    using buildSmartDigitModel_returns [of env homeCode awayCode w1] by blast
next
  fix homeCode awayCode w1 e w2
  assume "loadGames env w1 = (Inl e, w2)"
  from buildSmartDigitModel_games_fail [OF this, of homeCode awayCode]
  show "\<exists>model. buildSmartDigitModel env homeCode awayCode w1 = (Inr model, w2)
            \<and> sourceMode model = baseline \<and> sourcesUsed model = [fallback_model]
            \<and> warnings model =
                [''Unable to load NFL historical games dataset. Falling back to baseline simulation only.'']"
    by auto
next
  fix homeCode awayCode w1 games w2 moneylineResult w3 espnTeamsResult w4 homeEspnStats w5
    awayEspnStats w6 homeSportsDbRecent w7 awaySportsDbRecent w8
  assume h: "loadGames env w1 = (Inr games, w2)
           \<and> loadClosingMoneylines env w2 = (moneylineResult, w3)
           \<and> getEspnTeams env w3 = (espnTeamsResult, w4)
           \<and> getEspnTeamStats env homeCode w4 = (homeEspnStats, w5)
           \<and> getEspnTeamStats env awayCode w5 = (awayEspnStats, w6)
           \<and> getSportsDbRecentForm env homeCode
               (displayCandidates
                  (case espnTeamsResult of Inl e \<Rightarrow> (\<lambda>code. None) | Inr teams \<Rightarrow> teams) homeCode)
               w6 = (homeSportsDbRecent, w7)
           \<and> getSportsDbRecentForm env awayCode
               (displayCandidates
                  (case espnTeamsResult of Inl e \<Rightarrow> (\<lambda>code. None) | Inr teams \<Rightarrow> teams) awayCode)
               w7 = (awaySportsDbRecent, w8)"
  have g: "loadGames env w1 = (Inr games, w2)"
    and m: "loadClosingMoneylines env w2 = (moneylineResult, w3)"
    and t: "getEspnTeams env w3 = (espnTeamsResult, w4)"
    and hs: "getEspnTeamStats env homeCode w4 = (homeEspnStats, w5)"
    and as: "getEspnTeamStats env awayCode w5 = (awayEspnStats, w6)"
    and hr: "getSportsDbRecentForm env homeCode
               (displayCandidates
                  (case espnTeamsResult of Inl e \<Rightarrow> (\<lambda>code. None) | Inr teams \<Rightarrow> teams) homeCode)
               w6 = (homeSportsDbRecent, w7)"
    and ar: "getSportsDbRecentForm env awayCode
               (displayCandidates
                  (case espnTeamsResult of Inl e \<Rightarrow> (\<lambda>code. None) | Inr teams \<Rightarrow> teams) awayCode)
               w7 = (awaySportsDbRecent, w8)"
    using h by blast+
  from buildSmartDigitModel_games_ok [OF g m t hs as hr ar]
  obtain digits homePoints awayPoints where
    eq: "buildSmartDigitModel env homeCode awayCode w1 =
       (Inr \<lparr> digitProbabilities = digits,
              generatedAt = currentTime env w8,
              sourceMode =
                (if 3 \<le> length
                     ([nflverse_games]
                        @ (case moneylineResult of Inl e \<Rightarrow> [] | Inr rows \<Rightarrow> [nflverse_closing_lines])
                        @ (if homeEspnStats \<noteq> None \<or> awayEspnStats \<noteq> None
                           then [espn_team_stats] else [])
                        @ (if homeSportsDbRecent \<noteq> None \<or> awaySportsDbRecent \<noteq> None
                           then [thesportsdb_recent_form] else []))
                 then full else baseline),
              sourcesUsed =
                [nflverse_games]
                  @ (case moneylineResult of Inl e \<Rightarrow> [] | Inr rows \<Rightarrow> [nflverse_closing_lines])
                  @ (if homeEspnStats \<noteq> None \<or> awayEspnStats \<noteq> None
                     then [espn_team_stats] else [])
                  @ (if homeSportsDbRecent \<noteq> None \<or> awaySportsDbRecent \<noteq> None
                     then [thesportsdb_recent_form] else []),
              warnings =
                (if buildTeamContext games homeCode (getLatestSeason games) = None
                    \<or> buildTeamContext games awayCode (getLatestSeason games) = None
                 then [''Limited team history found for one or both teams. Probabilities rely more heavily on league baseline.'']
                 else [])
                  @ (if espnTeamsRejectFirst env w4
                     then (case espnTeamsResult of
                             Inl e \<Rightarrow> [''ESPN team metadata unavailable. Team-level API stats reduced.'']
                           | Inr teams \<Rightarrow> [])
                          @ (case moneylineResult of
                               Inl e \<Rightarrow> [''Moneyline data could not be loaded. Market adjustments disabled.'']
                             | Inr rows \<Rightarrow> [])
                     else (case moneylineResult of
                             Inl e \<Rightarrow> [''Moneyline data could not be loaded. Market adjustments disabled.'']
                           | Inr rows \<Rightarrow> [])
                          @ (case espnTeamsResult of
                               Inl e \<Rightarrow> [''ESPN team metadata unavailable. Team-level API stats reduced.'']
                             | Inr teams \<Rightarrow> []))
                  @ (if homeEspnStats \<noteq> None \<or> awayEspnStats \<noteq> None then []
                     else [''ESPN team stats unavailable. Expected-points model uses historical-only inputs.''])
                  @ (if homeSportsDbRecent \<noteq> None \<or> awaySportsDbRecent \<noteq> None then []
                     else [''Recent form feed unavailable. Team trend model uses historical games only.'']),
              expectedHomePoints = homePoints,
              expectedAwayPoints = awayPoints \<rparr>, w8)"
    by blast
  show "\<exists>model. buildSmartDigitModel env homeCode awayCode w1 = (Inr model, w8)
            \<and> warnings model =
                (if buildTeamContext games homeCode (getLatestSeason games) = None
                    \<or> buildTeamContext games awayCode (getLatestSeason games) = None
                 then [''Limited team history found for one or both teams. Probabilities rely more heavily on league baseline.'']
                 else [])
                  @ (if espnTeamsRejectFirst env w4
                     then (case espnTeamsResult of
                             Inl e \<Rightarrow> [''ESPN team metadata unavailable. Team-level API stats reduced.'']
                           | Inr teams \<Rightarrow> [])
                          @ (case moneylineResult of
                               Inl e \<Rightarrow> [''Moneyline data could not be loaded. Market adjustments disabled.'']
                             | Inr rows \<Rightarrow> [])
                     else (case moneylineResult of
                             Inl e \<Rightarrow> [''Moneyline data could not be loaded. Market adjustments disabled.'']
                           | Inr rows \<Rightarrow> [])
                          @ (case espnTeamsResult of
                               Inl e \<Rightarrow> [''ESPN team metadata unavailable. Team-level API stats reduced.'']
                             | Inr teams \<Rightarrow> []))
                  @ (if homeEspnStats \<noteq> None \<or> awayEspnStats \<noteq> None then []
                     else [''ESPN team stats unavailable. Expected-points model uses historical-only inputs.''])
                  @ (if homeSportsDbRecent \<noteq> None \<or> awaySportsDbRecent \<noteq> None then []
                     else [''Recent form feed unavailable. Team trend model uses historical games only.''])
            \<and> sourcesUsed model =
                [nflverse_games]
                  @ (case moneylineResult of Inl e \<Rightarrow> [] | Inr rows \<Rightarrow> [nflverse_closing_lines])
                  @ (if homeEspnStats \<noteq> None \<or> awayEspnStats \<noteq> None
                     then [espn_team_stats] else [])
                  @ (if homeSportsDbRecent \<noteq> None \<or> awaySportsDbRecent \<noteq> None
                     then [thesportsdb_recent_form] else [])
            \<and> sourceMode model = (if 3 \<le> length (sourcesUsed model) then full else baseline)"
    unfolding eq by (intro exI conjI) (rule refl, simp_all only: CachedDigitModel.simps)
next
  fix homeCode awayCode w1 model w2 w3
  assume h: "resolveTeamCode (inputHomeTeamName inp) = Inr homeCode
           \<and> resolveTeamCode (inputAwayTeamName inp) = Inr awayCode
           \<and> validLabels (inputRowLabels inp) (inputColLabels inp)
           \<and> readCachedEntry env (MODEL_CACHE_PREFIX @ '':'' @ homeCode @ '':'' @ awayCode) w
               = (Inr None, w1)
           \<and> buildSmartDigitModel env homeCode awayCode w1 = (Inr model, w2)
           \<and> writeCachedEntry env (MODEL_CACHE_PREFIX @ '':'' @ homeCode @ '':'' @ awayCode)
               model w2 = (Inr (), w3)"
  have "\<exists>r. buildSquareOdds env inp w = (Inr r, w3)
     \<and> warnings r = warnings model \<and> sourcesUsed r = sourcesUsed model
     \<and> sourceMode r = sourceMode model \<and> digitProbabilities r = digitProbabilities model"
    by (rule buildSquareOdds_cache_miss [where homeCode = homeCode and awayCode = awayCode
          and ?w1.0 = w1 and ?w2.0 = w2 and u = "()"]) (use h in blast)+
  then show "\<exists>r. buildSquareOdds env inp w = (Inr r, w3)
            \<and> warnings r = warnings model \<and> sourcesUsed r = sourcesUsed model
            \<and> sourceMode r = sourceMode model"
    by blast
qed
theorem buildSquareOdds_throws_iff_witness:
  "resolveTeamCode ''Martians'' = Inl (Error ''Unsupported team name or code: Martians'')
   \<and> buildSquareOdds exampleEnvironment
        \<lparr> inputHomeTeamName = ''Martians'', inputAwayTeamName = ''Patriots'',
          inputRowLabels = [5, 0, 1, 2, 3, 4, 6, 7, 8, 9],
          inputColLabels = [0, 1, 2, 3, 4, 5, 6, 7, 8, 9] \<rparr> 0
       = (Inl (Error ''Unsupported team name or code: Martians''), 0)
   \<and> resolveTeamCode ''Seahawks'' = Inr ''SEA''
   \<and> buildSquareOdds exampleEnvironment
        \<lparr> inputHomeTeamName = ''Seahawks'', inputAwayTeamName = ''Martians'',
          inputRowLabels = [5, 0, 1, 2, 3, 4, 6, 7, 8, 9],
          inputColLabels = [0, 1, 2, 3, 4, 5, 6, 7, 8, 9] \<rparr> 0
       = (Inl (Error ''Unsupported team name or code: Martians''), 0)
   \<and> resolveTeamCode ''Patriots'' = Inr ''NE''
   \<and> validLabels [5, 0, 1, 2, 3, 4, 6, 7, 8, 9] [0, 1, 2, 3, 4, 5, 6, 7, 8, 9]
   \<and> loadGames exampleEnvironment 0 = (Inl (TypeError ''Failed to fetch''), 1)
   \<and> (\<exists>r. buildSquareOdds exampleEnvironment
          \<lparr> inputHomeTeamName = ''Seahawks'', inputAwayTeamName = ''Patriots'',
            inputRowLabels = [5, 0, 1, 2, 3, 4, 6, 7, 8, 9],
            inputColLabels = [0, 1, 2, 3, 4, 5, 6, 7, 8, 9] \<rparr> 0 = (Inr r, 1)
        \<and> sourceMode r = baseline \<and> sourcesUsed r = [fallback_model]
        \<and> warnings r =
            [''Unable to load NFL historical games dataset. Falling back to baseline simulation only.''])
   \<and> getEspnTeamStats homeStatsFailEnvironment ''SEA'' 3 = (None, 4)
   \<and> getEspnTeamStats homeStatsFailEnvironment ''NE'' 4 = (Some exampleStats, 5)
   \<and> (\<exists>r. buildSquareOdds homeStatsFailEnvironment
          \<lparr> inputHomeTeamName = ''Seahawks'', inputAwayTeamName = ''Patriots'',
            inputRowLabels = [5, 0, 1, 2, 3, 4, 6, 7, 8, 9],
            inputColLabels = [0, 1, 2, 3, 4, 5, 6, 7, 8, 9] \<rparr> 0 = (Inr r, 7)
        \<and> sourceMode r = full
        \<and> sourcesUsed r =
            [nflverse_games, nflverse_closing_lines, espn_team_stats, thesportsdb_recent_form]
        \<and> warnings r = [])
   \<and> (\<exists>r. buildSquareOdds
          (exampleEnvironment
             \<lparr> readCachedEntry := (\<lambda>key w. (Inl (Error ''The operation is insecure.''), w)) \<rparr>)
          \<lparr> inputHomeTeamName = ''Seahawks'', inputAwayTeamName = ''Patriots'',
            inputRowLabels = [5, 0, 1, 2, 3, 4, 6, 7, 8, 9],
            inputColLabels = [0, 1, 2, 3, 4, 5, 6, 7, 8, 9] \<rparr> 0 = (Inr r, 0)
        \<and> sourceMode r = baseline \<and> sourcesUsed r = [fallback_model]
        \<and> warnings r =
            [''Live sports data sources were unavailable. Using a mathematically generated baseline model.'',
             ''The operation is insecure.''])"
proof -
  let ?rows = "[5, 0, 1, 2, 3, 4, 6, 7, 8, 9 :: jsnum]"
  let ?cols = "[0, 1, 2, 3, 4, 5, 6, 7, 8, 9 :: jsnum]"
  let ?a = "\<lparr> inputHomeTeamName = ''Martians'', inputAwayTeamName = ''Patriots'',
          inputRowLabels = ?rows, inputColLabels = ?cols \<rparr>"
  let ?b = "\<lparr> inputHomeTeamName = ''Seahawks'', inputAwayTeamName = ''Martians'',
          inputRowLabels = ?rows, inputColLabels = ?cols \<rparr>"
  let ?c = "\<lparr> inputHomeTeamName = ''Seahawks'', inputAwayTeamName = ''Patriots'',
          inputRowLabels = ?rows, inputColLabels = ?cols \<rparr>"
  let ?insecure = "exampleEnvironment
             \<lparr> readCachedEntry := (\<lambda>key w. (Inl (Error ''The operation is insecure.''), w)) \<rparr>"
  have a: "buildSquareOdds exampleEnvironment ?a 0
       = (Inl (Error ''Unsupported team name or code: Martians''), 0)"
    using buildSquareOdds_throws_iff [of exampleEnvironment ?a 0, THEN conjunct2, THEN conjunct1]
      example_teams(3)
    by simp
  have b: "buildSquareOdds exampleEnvironment ?b 0
       = (Inl (Error ''Unsupported team name or code: Martians''), 0)"
    using buildSquareOdds_throws_iff [of exampleEnvironment ?b 0, THEN conjunct2, THEN conjunct2,
        THEN conjunct1] example_teams(1,3)
    by simp
  have teams: "resolveTeamCode (inputHomeTeamName ?c) = Inr ''SEA''"
    "resolveTeamCode (inputAwayTeamName ?c) = Inr ''NE''"
    and labels: "validLabels (inputRowLabels ?c) (inputColLabels ?c)"
    using example_teams(1,2) example_labels_valid by simp_all
  have fail: "loadGames exampleEnvironment 0 = (Inl (TypeError ''Failed to fetch''), 1)"
    by (simp add: exampleEnvironment_def)
  note claim = buildSquareOdds_throws_iff [of exampleEnvironment ?c 0]
  obtain model where model: "buildSmartDigitModel exampleEnvironment ''SEA'' ''NE'' 0 = (Inr model, 1)"
    and fields: "sourceMode model = baseline" "sourcesUsed model = [fallback_model]"
      "warnings model =
        [''Unable to load NFL historical games dataset. Falling back to baseline simulation only.'']"
    using claim [THEN conjunct2, THEN conjunct2, THEN conjunct2, THEN conjunct2, THEN conjunct2,
        THEN conjunct1, rule_format, OF fail, of "''SEA''" "''NE''"]
    by blast
  have miss: "readCachedEntry exampleEnvironment (MODEL_CACHE_PREFIX @ '':'' @ ''SEA'' @ '':'' @ ''NE'') 0
      = (Inr None, 0)"
    and written: "writeCachedEntry exampleEnvironment
      (MODEL_CACHE_PREFIX @ '':'' @ ''SEA'' @ '':'' @ ''NE'') model 1 = (Inr (), 1)"
    by (simp_all add: exampleEnvironment_def)
  have c: "\<exists>r. buildSquareOdds exampleEnvironment ?c 0 = (Inr r, 1)
        \<and> sourceMode r = baseline \<and> sourcesUsed r = [fallback_model]
        \<and> warnings r =
            [''Unable to load NFL historical games dataset. Falling back to baseline simulation only.'']"
    using claim [THEN conjunct2, THEN conjunct2, THEN conjunct2, THEN conjunct2, THEN conjunct2,
        THEN conjunct2, THEN conjunct2, rule_format, of "''SEA''" "''NE''" 0 model 1 1]
      teams labels miss model written fields
    by auto
  let ?env = homeStatsFailEnvironment
  note claim' = buildSquareOdds_throws_iff [of ?env ?c 0]
  have sources: "loadGames ?env 0 = (Inr exampleGames, 1)
           \<and> loadClosingMoneylines ?env 1 = (Inr [], 2)
           \<and> getEspnTeams ?env 2 = (Inr exampleDescriptors, 3)
           \<and> getEspnTeamStats ?env ''SEA'' 3 = (None, 4)
           \<and> getEspnTeamStats ?env ''NE'' 4 = (Some exampleStats, 5)
           \<and> getSportsDbRecentForm ?env ''SEA''
               (displayCandidates
                  (case Inr exampleDescriptors of Inl e \<Rightarrow> (\<lambda>code. None) | Inr teams \<Rightarrow> teams) ''SEA'')
               5 = (Some exampleRecentForm, 6)
           \<and> getSportsDbRecentForm ?env ''NE''
               (displayCandidates
                  (case Inr exampleDescriptors of Inl e \<Rightarrow> (\<lambda>code. None) | Inr teams \<Rightarrow> teams) ''NE'')
               6 = (Some exampleRecentForm, 7)"
    by (simp add: homeStatsFailEnvironment_def)
  obtain model' where model': "buildSmartDigitModel ?env ''SEA'' ''NE'' 0 = (Inr model', 7)"
    and fields': "sourceMode model' = full"
      "sourcesUsed model' =
        [nflverse_games, nflverse_closing_lines, espn_team_stats, thesportsdb_recent_form]"
      "warnings model' = []"
    using claim' [THEN conjunct2, THEN conjunct2, THEN conjunct2, THEN conjunct2, THEN conjunct2,
        THEN conjunct2, THEN conjunct1, rule_format, OF sources]
    by (auto simp: example_latest_season example_contexts homeStatsFailEnvironment_def)
  have miss': "readCachedEntry ?env (MODEL_CACHE_PREFIX @ '':'' @ ''SEA'' @ '':'' @ ''NE'') 0
      = (Inr None, 0)"
    and written': "writeCachedEntry ?env
      (MODEL_CACHE_PREFIX @ '':'' @ ''SEA'' @ '':'' @ ''NE'') model' 7 = (Inr (), 7)"
    by (simp_all add: homeStatsFailEnvironment_def)
  have d: "\<exists>r. buildSquareOdds ?env ?c 0 = (Inr r, 7)
        \<and> sourceMode r = full
        \<and> sourcesUsed r =
            [nflverse_games, nflverse_closing_lines, espn_team_stats, thesportsdb_recent_form]
        \<and> warnings r = []"
    using claim' [THEN conjunct2, THEN conjunct2, THEN conjunct2, THEN conjunct2, THEN conjunct2,
        THEN conjunct2, THEN conjunct2, rule_format, of "''SEA''" "''NE''" 0 model' 7 7]
      teams labels miss' model' written' fields'
    by auto
  have stats: "getEspnTeamStats ?env ''SEA'' 3 = (None, 4)"
    "getEspnTeamStats ?env ''NE'' 4 = (Some exampleStats, 5)"
    using sources by blast+
  have attempt: "tryBuildSquareOdds ?insecure ?c ''SEA'' ''NE'' 0
      = (Inl (Error ''The operation is insecure.''), 0)"
    by (simp add: tryBuildSquareOdds_def)
  have e: "\<exists>r. buildSquareOdds ?insecure ?c 0 = (Inr r, 0)
        \<and> sourceMode r = baseline \<and> sourcesUsed r = [fallback_model]
        \<and> warnings r =
            [''Live sports data sources were unavailable. Using a mathematically generated baseline model.'',
             ''The operation is insecure.'']"
    using buildSquareOdds_throws_iff [of ?insecure ?c 0, THEN conjunct2, THEN conjunct2,
        THEN conjunct2, THEN conjunct1, rule_format,
        of "''SEA''" "''NE''" "Error ''The operation is insecure.''" 0 "''The operation is insecure.''"]
      teams labels attempt
    by simp
  show ?thesis
    using a b c d e fail stats example_teams example_labels_valid by blast
qed

lemma resultOfModel_short_labels:
  assumes "length rows \<noteq> 10 \<or> length cols \<noteq> 10"
  shows "resultOfModel model rows cols =
     Inl (Error ''Expected row and column labels to each have length 10.'')"
  using assms
  by (auto simp: resultOfModel_def mapDigitMatrixToBoard_service_def mapDigitMatrixToBoardWith_def
      DIGIT_COUNT_def)

text \<open>The claim as stated fails in two ways. A call whose two teams resolve throws when the
  labels are not valid: with three row labels the mapping of the model to the board
  throws inside the \<^verbatim>\<open>try\<close> block, and the fallback model, built in the \<^verbatim>\<open>catch\<close> block
  from the same labels, throws again. And a failure of a source can go unreported: when
  the ESPN statistics fail for the home team alone, the result has no warning at all.\<close>

theorem buildSquareOdds_claim_counterexample:
  "resolveTeamCode ''Seahawks'' = Inr ''SEA''
   \<and> resolveTeamCode ''Patriots'' = Inr ''NE''
   \<and> buildSquareOdds exampleEnvironment
        \<lparr> inputHomeTeamName = ''Seahawks'', inputAwayTeamName = ''Patriots'',
          inputRowLabels = [5, 0, 1],
          inputColLabels = [0, 1, 2, 3, 4, 5, 6, 7, 8, 9] \<rparr> 0
       = (Inl (Error ''Expected row and column labels to each have length 10.''), 1)
   \<and> getEspnTeamStats homeStatsFailEnvironment ''SEA'' 3 = (None, 4)
   \<and> (\<exists>r. buildSquareOdds homeStatsFailEnvironment
          \<lparr> inputHomeTeamName = ''Seahawks'', inputAwayTeamName = ''Patriots'',
            inputRowLabels = [5, 0, 1, 2, 3, 4, 6, 7, 8, 9],
            inputColLabels = [0, 1, 2, 3, 4, 5, 6, 7, 8, 9] \<rparr> 0 = (Inr r, 7)
        \<and> warnings r = [])"
proof -
  let ?short = "\<lparr> inputHomeTeamName = ''Seahawks'', inputAwayTeamName = ''Patriots'',
          inputRowLabels = [5, 0, 1 :: jsnum],
          inputColLabels = [0, 1, 2, 3, 4, 5, 6, 7, 8, 9 :: jsnum] \<rparr>"
  let ?valid = "\<lparr> inputHomeTeamName = ''Seahawks'', inputAwayTeamName = ''Patriots'',
          inputRowLabels = [5, 0, 1, 2, 3, 4, 6, 7, 8, 9 :: jsnum],
          inputColLabels = [0, 1, 2, 3, 4, 5, 6, 7, 8, 9 :: jsnum] \<rparr>"
  obtain digits where model: "buildSmartDigitModel exampleEnvironment ''SEA'' ''NE'' 0 =
       (Inr \<lparr> digitProbabilities = digits,
              generatedAt = ''2026-02-08T20:00:00.000Z'',
              sourceMode = baseline,
              sourcesUsed = [fallback_model],
              warnings =
                [''Unable to load NFL historical games dataset. Falling back to baseline simulation only.''],
              expectedHomePoints = 23,
              expectedAwayPoints = 21 \<rparr>, 0 + 1)"
    using exampleEnvironment_model [of "''SEA''" "''NE''" 0] by blast
  have short: "length (inputRowLabels ?short) \<noteq> 10 \<or> length (inputColLabels ?short) \<noteq> 10"
    by simp
  have miss: "readCachedEntry exampleEnvironment key w = (Inr None, w)"
    and written: "writeCachedEntry exampleEnvironment key computed w = (Inr (), w)"
    for key computed w
    by (simp_all add: exampleEnvironment_def)
  have mapped: "resultOfModel computed [5, 0, 1] [0, 1, 2, 3, 4, 5, 6, 7, 8, 9] =
     Inl (Error ''Expected row and column labels to each have length 10.'')" for computed
    by (rule resultOfModel_short_labels) simp
  have "tryBuildSquareOdds exampleEnvironment ?short ''SEA'' ''NE'' 0
      = (Inl (Error ''Expected row and column labels to each have length 10.''), 1)"
    unfolding tryBuildSquareOdds_def Let_def
    by (simp add: miss model written mapped)
  moreover have "buildFallbackModel (inputRowLabels ?short) (inputColLabels ?short)
      (currentTime exampleEnvironment 1) =
     Inl (Error ''Expected row and column labels to each have length 10.'')"
    using short by (rule buildFallbackModel_short_labels)
  ultimately have first: "buildSquareOdds exampleEnvironment ?short 0
       = (Inl (Error ''Expected row and column labels to each have length 10.''), 1)"
    using buildSquareOdds_resolved [of ?short "''SEA''" "''NE''" exampleEnvironment 0]
      example_teams(1,2)
    by simp
  let ?env = homeStatsFailEnvironment
  obtain digits' homePoints awayPoints where model': "buildSmartDigitModel ?env ''SEA'' ''NE'' 0 =
       (Inr \<lparr> digitProbabilities = digits',
              generatedAt = ''2026-02-08T20:00:00.000Z'',
              sourceMode = full,
              sourcesUsed =
                [nflverse_games, nflverse_closing_lines, espn_team_stats, thesportsdb_recent_form],
              warnings = [],
              expectedHomePoints = homePoints,
              expectedAwayPoints = awayPoints \<rparr>, 7)"
    using homeStatsFailEnvironment_model by blast
  have teams: "resolveTeamCode (inputHomeTeamName ?valid) = Inr ''SEA''"
    "resolveTeamCode (inputAwayTeamName ?valid) = Inr ''NE''"
    and labels: "validLabels (inputRowLabels ?valid) (inputColLabels ?valid)"
    using example_teams(1,2) example_labels_valid by simp_all
  have miss': "readCachedEntry ?env (MODEL_CACHE_PREFIX @ '':'' @ ''SEA'' @ '':'' @ ''NE'') 0
      = (Inr None, 0)"
    and written': "writeCachedEntry ?env (MODEL_CACHE_PREFIX @ '':'' @ ''SEA'' @ '':'' @ ''NE'')
      computed 7 = (Inr (), 7)" for computed
    by (simp_all add: homeStatsFailEnvironment_def)
  from buildSquareOdds_cache_miss [OF teams labels miss' model' written']
  have second: "\<exists>r. buildSquareOdds ?env ?valid 0 = (Inr r, 7) \<and> warnings r = []"
    by auto
  have stats: "getEspnTeamStats ?env ''SEA'' 3 = (None, 4)"
    by (simp add: homeStatsFailEnvironment_def)
  show ?thesis using first second stats example_teams(1,2) by blast
qed

section \<open>The sentiment scorer\<close>

lemma terms_disjoint: "POSITIVE_TERMS \<inter> NEGATIVE_TERMS = {}"
  unfolding POSITIVE_TERMS_def NEGATIVE_TERMS_def by code_simp

lemma positive_terms_words: "\<forall>t\<in>POSITIVE_TERMS. wordOk t"
  unfolding POSITIVE_TERMS_def list_all_iff [symmetric] by code_simp

lemma negative_terms_words: "\<forall>t\<in>NEGATIVE_TERMS. wordOk t"
  unfolding NEGATIVE_TERMS_def list_all_iff [symmetric] by code_simp

lemma isLowerAlnum_not_space: "isLowerAlnum c \<Longrightarrow> \<not> isSpace c"
  by (auto simp: isLowerAlnum_def isSpace_def isDigit_def)

lemma isLowerAlnum_toLower: "isLowerAlnum c \<Longrightarrow> toLower c = c"
  by (auto simp: isLowerAlnum_def toLower_def isDigit_def)

lemma space_facts: "isSpace CHR '' ''" "toLower CHR '' '' = CHR '' ''" "\<not> isLowerAlnum CHR '' ''"
  by (simp_all add: charCode_def isSpace_def toLower_def isLowerAlnum_def isDigit_def)

text \<open>The characters of words joined by single spaces.\<close>

lemma joinWith_chars:
  "list_all wordOk ws \<Longrightarrow> c \<in> set (joinWith '' '' ws) \<Longrightarrow> isLowerAlnum c \<or> c = CHR '' ''"
  by (induction "'' ''" ws rule: joinWith.induct) (auto simp: wordOk_def list_all_iff)

lemma joinWith_hd:
  "list_all wordOk ws \<Longrightarrow> ws \<noteq> [] \<Longrightarrow>
     joinWith '' '' ws \<noteq> [] \<and> isLowerAlnum (hd (joinWith '' '' ws))"
  by (induction "'' ''" ws rule: joinWith.induct) (auto simp: wordOk_def list_all_iff neq_Nil_conv)

lemma joinWith_last:
  "list_all wordOk ws \<Longrightarrow> ws \<noteq> [] \<Longrightarrow> isLowerAlnum (last (joinWith '' '' ws))"
  by (induction "'' ''" ws rule: joinWith.induct) (auto simp: wordOk_def list_all_iff joinWith_hd)

lemma collapseRuns_word:
  "list_all isLowerAlnum w \<Longrightarrow> collapseRuns isSpace (w @ rest) = w @ collapseRuns isSpace rest"
  by (induction w) (auto simp: isLowerAlnum_not_space)

lemma dropWhile_space_id: "v \<noteq> [] \<Longrightarrow> isLowerAlnum (hd v) \<Longrightarrow> dropWhile isSpace v = v"
  by (cases v) (auto simp: isLowerAlnum_not_space)

lemma collapseRuns_joined:
  "list_all wordOk ws \<Longrightarrow> collapseRuns isSpace (joinWith '' '' ws) = joinWith '' '' ws"
proof (induction "'' ''" ws rule: joinWith.induct)
  case 1
  then show ?case by simp
next
  case (2 x)
  then show ?case using collapseRuns_word [of x "[]"] by (simp add: wordOk_def)
next
  case (3 x y ys)
  then have tl: "list_all wordOk (y # ys)" by simp
  have "dropWhile isSpace (joinWith '' '' (y # ys)) = joinWith '' '' (y # ys)"
    using joinWith_hd [OF tl] dropWhile_space_id by blast
  then show ?case
    using 3 collapseRuns_word [of x "CHR '' '' # joinWith '' '' (y # ys)"]
    by (simp add: wordOk_def space_facts)
qed

lemma trim_joined:
  "list_all wordOk ws \<Longrightarrow> trim (joinWith '' '' ws) = joinWith '' '' ws"
proof (cases "ws = []")
  case True
  then show ?thesis by (simp add: trim_def)
next
  case False
  assume ok: "list_all wordOk ws"
  let ?s = "joinWith '' '' ws"
  have ne: "?s \<noteq> []" and h: "isLowerAlnum (hd ?s)" using joinWith_hd [OF ok False] by auto
  have l: "isLowerAlnum (last ?s)" using joinWith_last [OF ok False] .
  have "dropWhile isSpace ?s = ?s" using ne h by (rule dropWhile_space_id)
  moreover have "dropWhile isSpace (rev ?s) = rev ?s"
    using ne l by (intro dropWhile_space_id) (auto simp: hd_rev)
  ultimately show ?thesis by (simp add: trim_def)
qed

lemma normalizeText_joined:
  assumes "list_all wordOk ws"
  shows "normalizeText (joinWith '' '' ws) = joinWith '' '' ws"
proof -
  have chars: "isLowerAlnum c \<or> c = CHR '' ''" if "c \<in> set (joinWith '' '' ws)" for c
    using joinWith_chars [OF assms that] .
  have "toLower c = c" if "c \<in> set (joinWith '' '' ws)" for c
    using chars [OF that] isLowerAlnum_toLower space_facts(2) by blast
  then have "map toLower (joinWith '' '' ws) = joinWith '' '' ws"
    by (intro map_idI)
  moreover have "(if isLowerAlnum c \<or> isSpace c then c else CHR '' '') = c"
    if "c \<in> set (joinWith '' '' ws)" for c
    using chars [OF that] space_facts(1) by auto
  then have "map (\<lambda>c. if isLowerAlnum c \<or> isSpace c then c else CHR '' '') (joinWith '' '' ws)
      = joinWith '' '' ws"
    by (intro map_idI)
  ultimately show ?thesis
    using collapseRuns_joined [OF assms] trim_joined [OF assms] by (simp add: normalizeText_def)
qed

lemma splitOn_not_Nil: "splitOn d v \<noteq> []"
  by (induction v) (auto split: list.splits)

lemma splitOn_word:
  "list_all isLowerAlnum w \<Longrightarrow>
     splitOn CHR '' '' (w @ rest) =
       (case splitOn CHR '' '' rest of [] \<Rightarrow> [w] | v # vs \<Rightarrow> (w @ v) # vs)"
  by (induction w) (auto simp: space_facts splitOn_not_Nil split: list.splits)

lemma splitOn_joined:
  "list_all wordOk ws \<Longrightarrow> ws \<noteq> [] \<Longrightarrow> splitOn CHR '' '' (joinWith '' '' ws) = ws"
proof (induction "'' ''" ws rule: joinWith.induct)
  case 1
  then show ?case by simp
next
  case (2 x)
  then show ?case using splitOn_word [of x "[]"] by (simp add: wordOk_def)
next
  case (3 x y ys)
  then show ?case
    using splitOn_word [of x "CHR '' '' # joinWith '' '' (y # ys)"]
    by (simp add: wordOk_def)
qed

lemma tokenize_joined:
  assumes "list_all wordOk ws"
  shows "tokenize (joinWith '' '' ws) = ws"
proof (cases "ws = []")
  case True
  then show ?thesis by (simp add: tokenize_def normalizeText_def trim_def)
next
  case False
  have ne: "joinWith '' '' ws \<noteq> []" using joinWith_hd [OF assms False] by simp
  have "filter (\<lambda>token. token \<noteq> []) ws = ws"
    using assms by (intro filter_True) (auto simp: list_all_iff wordOk_def)
  then show ?thesis
    using ne by (simp add: tokenize_def normalizeText_joined [OF assms] splitOn_joined [OF assms False])
qed


lemma score_fold_positive:
  "set ps \<subseteq> POSITIVE_TERMS \<Longrightarrow>
     foldl (\<lambda>score token.
         (let score1 = (if token \<in> POSITIVE_TERMS then score + 1 else score)
          in if token \<in> NEGATIVE_TERMS then score1 - 1 else score1)) acc ps
       = acc + int (length ps)"
  using terms_disjoint by (induction ps arbitrary: acc) (auto simp: Let_def)

lemma score_fold_negative:
  "set ns \<subseteq> NEGATIVE_TERMS \<Longrightarrow>
     foldl (\<lambda>score token.
         (let score1 = (if token \<in> POSITIVE_TERMS then score + 1 else score)
          in if token \<in> NEGATIVE_TERMS then score1 - 1 else score1)) acc ns
       = acc - int (length ns)"
  using terms_disjoint by (induction ns arbitrary: acc) (auto simp: Let_def)

lemma scoreCommentaryText_value:
  "tokenize v \<noteq> [] \<Longrightarrow>
     scoreCommentaryText v =
       Fin (min 1 (max (- 1)
         (real_of_int (foldl (\<lambda>score token.
             (let score1 = (if token \<in> POSITIVE_TERMS then score + 1 else score)
              in if token \<in> NEGATIVE_TERMS then score1 - 1 else score1)) 0 (tokenize v))
           / real_of_int (max (int (length (tokenize v))) 4) * (24 / 10))))"
proof -
  have "max (int (length (tokenize v))) 4 \<noteq> 0" by linarith
  moreover assume "tokenize v \<noteq> []"
  ultimately show ?thesis
    by (simp add: scoreCommentaryText_def Let_def jsnum_consts clamp_Fin)
qed

lemma scoreCommentaryText_no_tokens: "tokenize v = [] \<Longrightarrow> scoreCommentaryText v = Fin 0"
  by (simp add: scoreCommentaryText_def jsnum_consts)

lemma scoreCommentaryText_order:
  assumes "tokenize p \<noteq> []" and "length (tokenize n) = length (tokenize p)"
    and "set (tokenize p) \<subseteq> POSITIVE_TERMS" and "set (tokenize n) \<subseteq> NEGATIVE_TERMS"
  shows "scoreCommentaryText n < scoreCommentaryText p"
proof -
  define k where "k = length (tokenize p)"
  have kpos: "0 < k" using assms(1) by (simp add: k_def)
  have nne: "tokenize n \<noteq> []" using assms(1,2) by auto
  have den: "0 < real_of_int (max (int k) 4)" by simp
  have pv: "scoreCommentaryText p =
      Fin (min 1 (max (- 1) (real k / real_of_int (max (int k) 4) * (24 / 10))))"
    using assms scoreCommentaryText_value [of p] score_fold_positive [of "tokenize p" 0]
    by (simp add: k_def)
  have nv: "scoreCommentaryText n =
      Fin (min 1 (max (- 1) (- real k / real_of_int (max (int k) 4) * (24 / 10))))"
    using assms nne scoreCommentaryText_value [of n] score_fold_negative [of "tokenize n" 0]
    by (simp add: k_def)
  have "0 < real k / real_of_int (max (int k) 4) * (24 / 10)"
    using kpos den by (intro mult_pos_pos divide_pos_pos) simp_all
  moreover have "- real k / real_of_int (max (int k) 4) * (24 / 10)
      = - (real k / real_of_int (max (int k) 4) * (24 / 10))"
    by simp
  ultimately show ?thesis
    unfolding pv nv by (simp add: min_def max_def)
qed

text \<open>Words of the two term sets joined by single spaces are such strings, for every
  number of words.\<close>

lemma scoreCommentaryText_joined_terms:
  assumes "ps \<noteq> []" and "length ns = length ps"
    and "set ps \<subseteq> POSITIVE_TERMS" and "set ns \<subseteq> NEGATIVE_TERMS"
  shows "scoreCommentaryText (joinWith '' '' ns) < scoreCommentaryText (joinWith '' '' ps)"
proof -
  have "list_all wordOk ps" using assms(3) positive_terms_words by (auto simp: list_all_iff)
  then have p: "tokenize (joinWith '' '' ps) = ps" by (rule tokenize_joined)
  have "list_all wordOk ns" using assms(4) negative_terms_words by (auto simp: list_all_iff)
  then have n: "tokenize (joinWith '' '' ns) = ns" by (rule tokenize_joined)
  show ?thesis using assms by (intro scoreCommentaryText_order) (simp_all add: p n)
qed

text \<open>
  Claim C8. \<^verbatim>\<open>scoreCommentaryText\<close> returns a value in \<open>[-1, 1]\<close> for every string; the
  empty string scores 0; and a string whose tokens are all positive terms scores strictly
  more than a string of as many tokens that are all negative terms, for every number of
  tokens from 1.
\<close>

theorem scoreCommentaryText_contract:
  "- 1 \<le> scoreCommentaryText v \<and> scoreCommentaryText v \<le> 1
   \<and> scoreCommentaryText [] = 0
   \<and> (\<forall>p n. tokenize p \<noteq> [] \<and> length (tokenize n) = length (tokenize p)
          \<and> set (tokenize p) \<subseteq> POSITIVE_TERMS \<and> set (tokenize n) \<subseteq> NEGATIVE_TERMS
          \<longrightarrow> scoreCommentaryText n < scoreCommentaryText p)"
proof (intro conjI allI impI)
  show "- 1 \<le> scoreCommentaryText v"
    by (cases "tokenize v = []")
      (simp_all add: scoreCommentaryText_value scoreCommentaryText_no_tokens jsnum_consts)
  show "scoreCommentaryText v \<le> 1"
    by (cases "tokenize v = []")
      (simp_all add: scoreCommentaryText_value scoreCommentaryText_no_tokens jsnum_consts)
  have "tokenize [] = []" by (simp add: tokenize_def normalizeText_def trim_def)
  then show "scoreCommentaryText [] = 0"
    by (simp add: scoreCommentaryText_no_tokens jsnum_consts)
next
  fix p n
  assume "tokenize p \<noteq> [] \<and> length (tokenize n) = length (tokenize p)
          \<and> set (tokenize p) \<subseteq> POSITIVE_TERMS \<and> set (tokenize n) \<subseteq> NEGATIVE_TERMS"
  then show "scoreCommentaryText n < scoreCommentaryText p"
    by (intro scoreCommentaryText_order) simp_all
qed

theorem scoreCommentaryText_contract_witness:
  "tokenize ''Touchdown! HUGE win'' \<noteq> []
   \<and> length (tokenize ''penalty, fumble... punt'') = length (tokenize ''Touchdown! HUGE win'')
   \<and> set (tokenize ''Touchdown! HUGE win'') \<subseteq> POSITIVE_TERMS
   \<and> set (tokenize ''penalty, fumble... punt'') \<subseteq> NEGATIVE_TERMS
   \<and> scoreCommentaryText ''penalty, fumble... punt'' < scoreCommentaryText ''Touchdown! HUGE win''"
proof -
  have p: "tokenize ''Touchdown! HUGE win'' = [''touchdown'', ''huge'', ''win'']" by code_simp
  have n: "tokenize ''penalty, fumble... punt'' = [''penalty'', ''fumble'', ''punt'']" by code_simp
  have h: "tokenize ''Touchdown! HUGE win'' \<noteq> []
      \<and> length (tokenize ''penalty, fumble... punt'') = length (tokenize ''Touchdown! HUGE win'')
      \<and> set (tokenize ''Touchdown! HUGE win'') \<subseteq> POSITIVE_TERMS
      \<and> set (tokenize ''penalty, fumble... punt'') \<subseteq> NEGATIVE_TERMS"
    unfolding p n by (simp add: POSITIVE_TERMS_def NEGATIVE_TERMS_def)
  show ?thesis
    using scoreCommentaryText_contract [of "[]"] h by blast
qed

section \<open>The snapshot's clock\<close>

lemma parseClockToSeconds_range:
  "parseClockToSeconds clockText = Some s \<Longrightarrow> 0 \<le> s \<and> s \<le> 900"
  by (auto simp: parseClockToSeconds_def clampInt_def split: option.splits if_splits)

lemma calculateRemainingGameSeconds_running:
  assumes "st = in_progress \<or> st = unknown" and "1 \<le> per" and "0 \<le> s" and "s \<le> 900"
  shows "calculateRemainingGameSeconds st per (Some s) =
           Some (if per \<le> 4 then (4 - per) * 900 + s else s)"
  using assms by (auto simp: calculateRemainingGameSeconds_def clampInt_def Let_def)

lemma calculateRemainingGameSeconds_unknown_clock:
  "st = in_progress \<or> st = unknown \<Longrightarrow> calculateRemainingGameSeconds st per None = None"
  by (auto simp: calculateRemainingGameSeconds_def)

lemma parseClockOfCompetition_fields:
  "period (parseClockOfCompetition st rawPeriod rawClock) =
     max 1 \<lfloor>(case rawPeriod of None \<Rightarrow> 1 | Some p \<Rightarrow> p) + 1 / 2\<rfloor>"
  "secondsRemainingGame (parseClockOfCompetition st rawPeriod rawClock) =
     calculateRemainingGameSeconds st
       (period (parseClockOfCompetition st rawPeriod rawClock))
       (secondsRemainingInPeriod (parseClockOfCompetition st rawPeriod rawClock))"
  "secondsRemainingInPeriod (parseClockOfCompetition st rawPeriod rawClock) =
     parseClockToSeconds (Some (case rawClock of
        Some v \<Rightarrow> v
      | None \<Rightarrow> (if st = pregame then ''15:00'' else if st = final then ''0:00'' else [])))"
  by (simp_all add: parseClockOfCompetition_def Let_def)

text \<open>
  Claim C6. The remaining game seconds of the snapshot's clock: 0 when the status is final
  or postponed, 3600 at pregame, 1800 at halftime; otherwise (in progress, or a status the
  fetcher could not name), with \<open>s\<close> the seconds remaining in the period, \<open>(4 - period) * 900 + s\<close>
  for a period up to 4 and \<open>s\<close> alone in overtime; and null when the clock's text does not
  parse (the seconds in the period are null), not a number.
\<close>

theorem remaining_game_seconds_derivation:
  "((st = final \<or> st = postponed) \<longrightarrow>
      secondsRemainingGame (parseClockOfCompetition st rawPeriod rawClock) = Some 0)
   \<and> (st = pregame \<longrightarrow>
      secondsRemainingGame (parseClockOfCompetition st rawPeriod rawClock) = Some 3600)
   \<and> (st = halftime \<longrightarrow>
      secondsRemainingGame (parseClockOfCompetition st rawPeriod rawClock) = Some 1800)
   \<and> ((st = in_progress \<or> st = unknown) \<longrightarrow>
      (case secondsRemainingInPeriod (parseClockOfCompetition st rawPeriod rawClock) of
         None \<Rightarrow> secondsRemainingGame (parseClockOfCompetition st rawPeriod rawClock) = None
       | Some s \<Rightarrow>
           secondsRemainingGame (parseClockOfCompetition st rawPeriod rawClock) =
             Some (if period (parseClockOfCompetition st rawPeriod rawClock) \<le> 4
                   then (4 - period (parseClockOfCompetition st rawPeriod rawClock)) * 900 + s
                   else s)))"
proof (intro conjI impI)
  assume "st = final \<or> st = postponed"
  then show "secondsRemainingGame (parseClockOfCompetition st rawPeriod rawClock) = Some 0"
    by (auto simp: parseClockOfCompetition_fields calculateRemainingGameSeconds_def)
next
  assume "st = pregame"
  then show "secondsRemainingGame (parseClockOfCompetition st rawPeriod rawClock) = Some 3600"
    by (simp add: parseClockOfCompetition_fields calculateRemainingGameSeconds_def)
next
  assume "st = halftime"
  then show "secondsRemainingGame (parseClockOfCompetition st rawPeriod rawClock) = Some 1800"
    by (simp add: parseClockOfCompetition_fields calculateRemainingGameSeconds_def)
next
  let ?c = "parseClockOfCompetition st rawPeriod rawClock"
  assume running: "st = in_progress \<or> st = unknown"
  have per: "1 \<le> period ?c"
    by (simp add: parseClockOfCompetition_fields(1))
  show "case secondsRemainingInPeriod ?c of
          None \<Rightarrow> secondsRemainingGame ?c = None
        | Some s \<Rightarrow> secondsRemainingGame ?c =
            Some (if period ?c \<le> 4 then (4 - period ?c) * 900 + s else s)"
  proof (cases "secondsRemainingInPeriod ?c")
    case None
    then show ?thesis
      using running calculateRemainingGameSeconds_unknown_clock [of st "period ?c"]
      by (simp add: parseClockOfCompetition_fields(2))
  next
    case (Some s)
    then have "0 \<le> s \<and> s \<le> 900"
      using parseClockToSeconds_range by (simp add: parseClockOfCompetition_fields(3))
    then show ?thesis
      using running per Some calculateRemainingGameSeconds_running [of st "period ?c" s]
      by (simp add: parseClockOfCompetition_fields(2))
  qed
qed

theorem remaining_game_seconds_derivation_witness:
  "secondsRemainingGame (parseClockOfCompetition final (Some 4) (Some ''0:00'')) = Some 0
   \<and> secondsRemainingGame (parseClockOfCompetition postponed None None) = Some 0
   \<and> secondsRemainingGame (parseClockOfCompetition pregame None None) = Some 3600
   \<and> secondsRemainingGame (parseClockOfCompetition halftime (Some 2) (Some ''0:00'')) = Some 1800
   \<and> secondsRemainingGame (parseClockOfCompetition in_progress (Some 2) (Some ''7:30'')) = Some 2250
   \<and> secondsRemainingGame (parseClockOfCompetition in_progress (Some 5) (Some ''3:05'')) = Some 185
   \<and> secondsRemainingGame (parseClockOfCompetition in_progress (Some 3) (Some ''End of 3rd'')) = None"
proof -
  have p1: "parseClockToSeconds (Some ''7:30'') = Some 450" by code_simp
  have p2: "parseClockToSeconds (Some ''3:05'') = Some 185" by code_simp
  have p3: "parseClockToSeconds (Some ''End of 3rd'') = None" by code_simp
  have f2: "\<lfloor>(2 :: real) + 1 / 2\<rfloor> = 2" and f5: "\<lfloor>(5 :: real) + 1 / 2\<rfloor> = 5"
    and f3: "\<lfloor>(3 :: real) + 1 / 2\<rfloor> = 3"
    by linarith+
  show ?thesis
    using remaining_game_seconds_derivation [of final "Some 4" "Some ''0:00''"]
      remaining_game_seconds_derivation [of postponed None None]
      remaining_game_seconds_derivation [of pregame None None]
      remaining_game_seconds_derivation [of halftime "Some 2" "Some ''0:00''"]
      remaining_game_seconds_derivation [of in_progress "Some 2" "Some ''7:30''"]
      remaining_game_seconds_derivation [of in_progress "Some 5" "Some ''3:05''"]
      remaining_game_seconds_derivation [of in_progress "Some 3" "Some ''End of 3rd''"]
    by (simp add: parseClockOfCompetition_fields p1 p2 p3 f2 f5 f3)
qed

section \<open>Market odds\<close>

lemma americanOdds_negative:
  "x < 0 \<Longrightarrow> americanOddsToImpliedProbability (Fin x) = Fin (\<bar>x\<bar> / (\<bar>x\<bar> + 100))"
  by (simp add: americanOddsToImpliedProbability_def jsnum_consts)

lemma americanOdds_positive:
  "0 < x \<Longrightarrow> americanOddsToImpliedProbability (Fin x) = Fin (100 / (x + 100))"
  by (simp add: americanOddsToImpliedProbability_def jsnum_consts)

lemma americanOdds_finite: "\<exists>p. americanOddsToImpliedProbability (Fin x) = Fin p"
proof -
  consider "x < 0" | "x = 0" | "0 < x" by linarith
  then show ?thesis
  proof cases
    case 1
    then show ?thesis using americanOdds_negative by blast
  next
    case 2
    then have "americanOddsToImpliedProbability (Fin x) = Fin (1 / 2)"
      by (simp add: americanOddsToImpliedProbability_def jsnum_consts)
    then show ?thesis by blast
  next
    case 3
    then show ?thesis using americanOdds_positive by blast
  qed
qed

text \<open>
  Claim C7. American odds become the implied probability \<open>|odds| / (|odds| + 100)\<close> when
  negative and \<open>100 / (odds + 100)\<close> when positive; odds \<open>-110\<close> give \<open>110/210\<close>, within
  \<open>0.0001\<close> of \<open>0.5238\<close>, and odds \<open>+150\<close> give \<open>100/250 = 0.4\<close>; the probability stored in
  a moneyline record is the converted odds clamped to \<open>[0.01, 0.99]\<close>.
\<close>

theorem moneyline_implied_probability:
  "(\<forall>x. x < 0 \<longrightarrow> americanOddsToImpliedProbability (Fin x) = Fin (\<bar>x\<bar> / (\<bar>x\<bar> + 100)))
   \<and> (\<forall>x. 0 < x \<longrightarrow> americanOddsToImpliedProbability (Fin x) = Fin (100 / (x + 100)))
   \<and> americanOddsToImpliedProbability (- 110) = Fin (110 / 210)
   \<and> \<bar>110 / 210 - 0.5238\<bar> < (0.0001 :: real)
   \<and> americanOddsToImpliedProbability 150 = Fin (100 / 250)
   \<and> americanOddsToImpliedProbability 150 = 0.4
   \<and> (\<forall>rowType parsedOdds parsedSeason rowSide r.
         moneylineRecordOfRow rowType parsedOdds parsedSeason rowSide = Some r \<longrightarrow>
           (\<exists>odds. parsedOdds = Some odds
              \<and> impliedProbability r = clamp (americanOddsToImpliedProbability (Fin odds)) 0.01 0.99)
           \<and> 0.01 \<le> impliedProbability r \<and> impliedProbability r \<le> 0.99)"
proof (intro conjI allI impI)
  fix x :: real
  assume "x < 0"
  then show "americanOddsToImpliedProbability (Fin x) = Fin (\<bar>x\<bar> / (\<bar>x\<bar> + 100))"
    by (rule americanOdds_negative)
next
  fix x :: real
  assume "0 < x"
  then show "americanOddsToImpliedProbability (Fin x) = Fin (100 / (x + 100))"
    by (rule americanOdds_positive)
next
  show "americanOddsToImpliedProbability (- 110) = Fin (110 / 210)"
    using americanOdds_negative [of "- 110"] by (simp add: jsnum_consts)
next
  show "\<bar>110 / 210 - 0.5238\<bar> < (0.0001 :: real)" by simp
next
  show "americanOddsToImpliedProbability 150 = Fin (100 / 250)"
    using americanOdds_positive [of 150] by (simp add: jsnum_consts)
next
  show "americanOddsToImpliedProbability 150 = 0.4"
    using americanOdds_positive [of 150] by (simp add: jsnum_consts)
next
  fix rowType parsedOdds parsedSeason rowSide r
  assume rec: "moneylineRecordOfRow rowType parsedOdds parsedSeason rowSide = Some r"
  then obtain odds where odds: "parsedOdds = Some odds"
    and r: "impliedProbability r = clamp (americanOddsToImpliedProbability (Fin odds)) 0.01 0.99"
    by (auto simp: moneylineRecordOfRow_def split: if_splits option.splits)
  obtain p where p: "americanOddsToImpliedProbability (Fin odds) = Fin p"
    using americanOdds_finite by blast
  show "\<exists>odds. parsedOdds = Some odds
      \<and> impliedProbability r = clamp (americanOddsToImpliedProbability (Fin odds)) 0.01 0.99"
    using odds r by blast
  show "0.01 \<le> impliedProbability r"
    unfolding r p by (simp add: jsnum_consts clamp_Fin)
  show "impliedProbability r \<le> 0.99"
    unfolding r p by (simp add: jsnum_consts clamp_Fin)
qed

theorem moneyline_implied_probability_witness:
  "(- 110 :: real) < 0
   \<and> americanOddsToImpliedProbability (Fin (- 110)) = Fin (\<bar>- 110\<bar> / (\<bar>- 110\<bar> + 100))
   \<and> (0 :: real) < 150
   \<and> americanOddsToImpliedProbability (Fin 150) = Fin (100 / (150 + 100))
   \<and> moneylineRecordOfRow ''MONEYLINE'' (Some (- 110)) (Fin 2023) '' kc '' =
       Some \<lparr> season = Fin 2023, side = ''KC'', impliedProbability = Fin (11 / 21) \<rparr>
   \<and> 0.01 \<le> impliedProbability
        \<lparr> season = Fin 2023, side = ''KC'', impliedProbability = Fin (11 / 21) \<rparr>
   \<and> impliedProbability
        \<lparr> season = Fin 2023, side = ''KC'', impliedProbability = Fin (11 / 21) \<rparr> \<le> 0.99"
proof -
  have neg: "(- 110 :: real) < 0" and pos: "(0 :: real) < 150" by simp_all
  have upper: "map toUpper (trim '' kc '') = ''KC''" by code_simp
  have row: "moneylineRecordOfRow ''MONEYLINE'' (Some (- 110)) (Fin 2023) '' kc '' =
       Some \<lparr> season = Fin 2023, side = ''KC'', impliedProbability = Fin (11 / 21) \<rparr>"
    by (simp add: moneylineRecordOfRow_def americanOdds_negative clamp_Fin jsnum_consts upper)
  show ?thesis
    using moneyline_implied_probability neg pos row by (simp add: jsnum_consts)
qed

end
